(* ===== verification/Prelude.thy ===== *)
theory Prelude
  imports Main "HOL-Library.Word"
begin

text \<open>
  Shared vocabulary of the development: JavaScript strings as the lists of UTF-16 code
  units they are, the ECMAScript string builtins the component calls
  (\<open>String.prototype.trim\<close>, \<open>String.prototype.slice\<close>), and the generic facts on
  lists stripped at both ends and on lists of records addressed by a key that the
  component theories share. Nothing here is code of the repository; the handlers that
  call these builtins are in theory \<open>Store\<close>.
\<close>

section \<open>Collections of facts\<close>

named_theorems js_defs "unfolding rules of the modelled ECMAScript string builtins"

section \<open>JavaScript strings\<close>

text \<open>
  A JavaScript string is a finite sequence of 16-bit code units; \<open>===\<close> on strings is
  equality of these sequences and \<open>''\<close> is the empty list. \<open>of_ascii\<close> writes a
  string literal of the source (all of them are ASCII) as such a sequence.
\<close>

type_synonym code_unit = "16 word"
type_synonym jsstring = "code_unit list"

definition of_ascii :: "string \<Rightarrow> jsstring" where
  "of_ascii s = map of_char s"

text \<open>
  ECMAScript's \<open>WhiteSpace\<close> and \<open>LineTerminator\<close> productions, which
  \<open>trim\<close> strips: TAB, LF, VT, FF, CR, SPACE, NBSP, the Unicode space separators
  (U+1680, U+2000 to U+200A, U+202F, U+205F, U+3000), LS, PS and the byte order mark.
  All lie in the basic plane, so the test is on single code units.
\<close>
definition is_white_space :: "code_unit \<Rightarrow> bool" where
  "is_white_space c \<longleftrightarrow>
     c = 0x0009 \<or> c = 0x000A \<or> c = 0x000B \<or> c = 0x000C \<or> c = 0x000D \<or>
     c = 0x0020 \<or> c = 0x00A0 \<or> c = 0x1680 \<or> (0x2000 \<le> c \<and> c \<le> 0x200A) \<or>
     c = 0x2028 \<or> c = 0x2029 \<or> c = 0x202F \<or> c = 0x205F \<or> c = 0x3000 \<or> c = 0xFEFF"

text \<open>
  \<open>trim\<close> removes leading and trailing white space; \<open>trimStart\<close> and \<open>trimEnd\<close>
  are its two halves. \<open>slice_str b e s\<close> is \<open>s.slice(b, e)\<close> for non-negative
  bounds: the code units from index \<open>b\<close> up to index \<open>e\<close>, fewer when the string
  is shorter, none when \<open>e \<le> b\<close>.
\<close>

definition trimStart :: "jsstring \<Rightarrow> jsstring" where
  "trimStart s = dropWhile is_white_space s"

definition trimEnd :: "jsstring \<Rightarrow> jsstring" where
  "trimEnd s = rev (dropWhile is_white_space (rev s))"

definition trim :: "jsstring \<Rightarrow> jsstring" where
  "trim s = trimEnd (trimStart s)"

definition slice_str :: "nat \<Rightarrow> nat \<Rightarrow> 'a list \<Rightarrow> 'a list" where
  "slice_str b e s = take (e - b) (drop b s)"

lemmas [js_defs] = of_ascii_def is_white_space_def trimStart_def trimEnd_def trim_def slice_str_def

section \<open>Stripping a list at both ends\<close>

lemma dropWhile_rev_nonempty:
  assumes "xs \<noteq> []" and "\<not> P (hd xs)"
  shows "dropWhile P (rev xs) \<noteq> []" and "last (dropWhile P (rev xs)) = hd xs"
proof -
  from assms have mem: "hd xs \<in> set (rev xs)" by simp
  with assms(2) show "dropWhile P (rev xs) \<noteq> []" by auto
  from dropWhile_last [of "hd xs" "rev xs" P] mem assms
  show "last (dropWhile P (rev xs)) = hd xs"
    by (simp add: last_rev)
qed

lemma dropWhile_rev_stable:
  assumes "dropWhile P xs = xs"
  shows "dropWhile P (rev (dropWhile P (rev xs))) = rev (dropWhile P (rev xs))"
proof (cases "xs = []")
  case True
  then show ?thesis by simp
next
  case False
  with assms have "\<not> P (hd xs)" by (simp add: dropWhile_eq_self_iff)
  with False have "dropWhile P (rev xs) \<noteq> []" and "last (dropWhile P (rev xs)) = hd xs"
    by (rule dropWhile_rev_nonempty)+
  with \<open>\<not> P (hd xs)\<close> show ?thesis
    by (simp add: dropWhile_eq_self_iff hd_rev)
qed

lemma all_dropWhile_iff: "(\<forall>x\<in>set (dropWhile P xs). P x) \<longleftrightarrow> (\<forall>x\<in>set xs. P x)"
proof
  assume a: "\<forall>x\<in>set (dropWhile P xs). P x"
  have "dropWhile P xs = []"
  proof (rule ccontr)
    assume ne: "dropWhile P xs \<noteq> []"
    then have "\<not> P (hd (dropWhile P xs))" by (rule hd_dropWhile)
    with a ne show False by simp
  qed
  then show "\<forall>x\<in>set xs. P x" by simp
qed (auto dest: set_dropWhileD)

lemma rev_dropWhile_rev_decomp:
  "\<exists>suf. xs = rev (dropWhile P (rev xs)) @ suf \<and> list_all P suf"
proof -
  have "rev xs = takeWhile P (rev xs) @ dropWhile P (rev xs)" by simp
  then have "xs = rev (dropWhile P (rev xs)) @ rev (takeWhile P (rev xs))"
    by (metis rev_append rev_rev_ident)
  moreover have "list_all P (rev (takeWhile P (rev xs)))"
    by (auto simp: list_all_iff dest: set_takeWhileD)
  ultimately show ?thesis by blast
qed

section \<open>Facts about trim\<close>

lemma trim_Nil [simp]: "trim [] = []"
  by (simp add: js_defs)

lemma trim_eq_Nil_iff: "trim s = [] \<longleftrightarrow> list_all is_white_space s"
  by (simp add: trim_def trimStart_def trimEnd_def list_all_iff all_dropWhile_iff)

lemma trimStart_trim [simp]: "trimStart (trim s) = trim s"
  unfolding trim_def trimStart_def trimEnd_def
  by (rule dropWhile_rev_stable) simp

lemma trimEnd_trim [simp]: "trimEnd (trim s) = trim s"
  by (simp add: trim_def trimEnd_def)

lemma trim_idem [simp]: "trim (trim s) = trim s"
proof -
  have "trim (trim s) = trimEnd (trimStart (trim s))" by (simp add: trim_def)
  then show ?thesis by simp
qed

lemma trim_hd: "trim s \<noteq> [] \<Longrightarrow> \<not> is_white_space (hd (trim s))"
  using trimStart_trim [of s] by (simp add: trimStart_def dropWhile_eq_self_iff)

lemma trim_last: "trim s \<noteq> [] \<Longrightarrow> \<not> is_white_space (last (trim s))"
  using hd_dropWhile [of is_white_space "rev (trimStart s)"]
  by (simp add: trim_def trimEnd_def last_rev)

lemma trim_fixpoint_iff:
  "trim s = s \<longleftrightarrow> s = [] \<or> (\<not> is_white_space (hd s) \<and> \<not> is_white_space (last s))"
proof
  assume "trim s = s"
  then show "s = [] \<or> (\<not> is_white_space (hd s) \<and> \<not> is_white_space (last s))"
    using trim_hd [of s] trim_last [of s] by auto
next
  assume r: "s = [] \<or> (\<not> is_white_space (hd s) \<and> \<not> is_white_space (last s))"
  show "trim s = s"
  proof (cases "s = []")
    case True
    then show ?thesis by simp
  next
    case False
    with r have h: "\<not> is_white_space (hd s)" and l: "\<not> is_white_space (last s)" by auto
    from False h have "trimStart s = s" by (simp add: trimStart_def dropWhile_eq_self_iff)
    moreover from False l have "dropWhile is_white_space (rev s) = rev s"
      by (simp add: dropWhile_eq_self_iff hd_rev)
    then have "trimEnd s = s" by (simp add: trimEnd_def)
    ultimately show ?thesis by (simp add: trim_def)
  qed
qed

lemma trim_decomp:
  "\<exists>pre suf. s = pre @ trim s @ suf \<and> list_all is_white_space pre \<and> list_all is_white_space suf"
proof -
  have a: "s = takeWhile is_white_space s @ trimStart s" by (simp add: trimStart_def)
  obtain suf where b: "trimStart s = trim s @ suf" and c: "list_all is_white_space suf"
    using rev_dropWhile_rev_decomp [of "trimStart s" is_white_space]
    by (auto simp: trim_def trimEnd_def)
  have "list_all is_white_space (takeWhile is_white_space s)"
    by (auto simp: list_all_iff dest: set_takeWhileD)
  with a b c show ?thesis by metis
qed

lemma length_trim_le: "length (trim s) \<le> length s"
  using trim_decomp [of s] by (metis length_append le_add1 le_add2 le_trans)

lemma set_trim_subset: "set (trim s) \<subseteq> set s"
  using trim_decomp [of s] by (metis Un_upper1 Un_upper2 set_append subset_trans)

section \<open>Lists of records addressed by a key\<close>

text \<open>
  The task list is updated with \<open>map\<close> and \<open>filter\<close> over a key. These facts are
  stated for any element type, key function \<open>key\<close> and update \<open>g\<close>.
\<close>

lemma map_key_update:
  assumes "\<And>x. key (g x) = key x"
  shows "map key (map (\<lambda>x. if P x then g x else x) xs) = map key xs"
  by (induction xs) (simp_all add: assms)

lemma map_field_update:
  assumes "\<And>x. field (g x) = v"
  shows "map field (map (\<lambda>x. if P x then g x else x) xs) =
         map (\<lambda>x. if P x then v else field x) xs"
  by (induction xs) (simp_all add: assms)

lemma update_absent_key:
  assumes "k \<notin> set (map key xs)"
  shows "map (\<lambda>x. if key x = k then g x else x) xs = xs"
  using assms by (induction xs) auto

lemma filter_absent_key:
  assumes "k \<notin> set (map key xs)"
  shows "filter (\<lambda>x. key x \<noteq> k) xs = xs"
  using assms by (induction xs) auto

lemma key_notin_filter: "k \<notin> set (map key (filter (\<lambda>x. key x \<noteq> k) xs))"
  by (induction xs) auto

lemma map_key_filter: "map key (filter (\<lambda>x. key x \<noteq> k) xs) = filter (\<lambda>i. i \<noteq> k) (map key xs)"
  by (induction xs) auto

lemma length_filter_distinct_key:
  assumes "distinct (map key xs)" and "k \<in> set (map key xs)"
  shows "Suc (length (filter (\<lambda>x. key x \<noteq> k) xs)) = length xs"
  using assms
proof (induction xs)
  case Nil
  then show ?case by simp
next
  case (Cons x xs)
  show ?case
  proof (cases "key x = k")
    case True
    with Cons.prems have "k \<notin> set (map key xs)" by auto
    then have "filter (\<lambda>x. key x \<noteq> k) xs = xs" by (rule filter_absent_key)
    with True show ?thesis by simp
  next
    case False
    with Cons show ?thesis by auto
  qed
qed

lemma length_filter_key:
  "distinct (map key xs) \<Longrightarrow>
   length (filter (\<lambda>x. key x = k) xs) = (if k \<in> set (map key xs) then 1 else 0)"
  by (induction xs) (auto simp: filter_empty_conv)

lemma sum_list_mono_map:
  "(\<And>x. x \<in> set xs \<Longrightarrow> f x \<le> (g x :: nat)) \<Longrightarrow> sum_list (map f xs) \<le> sum_list (map g xs)"
  by (induction xs) (simp_all add: add_mono)

lemma list_ex_concat_map:
  "list_ex P (concat (map f xs)) \<longleftrightarrow> list_ex (\<lambda>x. list_ex P (f x)) xs"
  by (induction xs) simp_all

lemma list_all_concat_map:
  "list_all P (concat (map f xs)) \<longleftrightarrow> list_all (\<lambda>x. list_all P (f x)) xs"
  by (induction xs) simp_all

end
