(* ===== verification/Identifier.thy ===== *)
theory Identifier
  imports Prelude
begin

text \<open>
  The identifier generator \<open>makeId\<close> of \<open>src/todo_app_minimal.jsx\<close> and the
  readings of the outside world it is computed from. \<open>makeId\<close> concatenates the
  clock in radix 36 and up to five characters of a random fraction printed in
  radix 36. The clock and the random source are inputs of the model (record
  \<open>env\<close>); the radix-36 printing of the integer clock value is modelled in full
  (\<open>toString36\<close>), with its inverse \<open>parse36\<close> as the reference it is checked against.
\<close>

section \<open>The environment of one call\<close>

text \<open>
  What one run of \<open>addTask\<close> reads from outside the component: \<open>now\<close> is the value
  of \<open>Date.now()\<close> (milliseconds since the epoch, an integer), \<open>random36\<close> the
  string \<open>Math.random().toString(36)\<close> (the engine's rendering of a fraction in
  \<open>[0, 1)\<close>, such as \<open>0.4fzyo82mvyr\<close>, or \<open>0\<close>), and \<open>iso_now\<close> the string
  \<open>new Date().toISOString()\<close>.
\<close>

record env =
  now :: int
  random36 :: jsstring
  iso_now :: jsstring

section \<open>Integers in radix 36\<close>

text \<open>
  \<open>Number.prototype.toString(36)\<close> on an integer: digits \<open>0\<close> to \<open>9\<close> then
  \<open>a\<close> to \<open>z\<close>, most significant first, no leading zero, a minus sign for a
  negative value.
\<close>

definition digit36 :: "nat \<Rightarrow> code_unit" where
  "digit36 d = (if d < 10 then of_nat (48 + d) else of_nat (87 + d))"

fun nat36 :: "nat \<Rightarrow> jsstring" where
  "nat36 n = (if n < 36 then [digit36 n] else nat36 (n div 36) @ [digit36 (n mod 36)])"

definition toString36 :: "int \<Rightarrow> jsstring" where
  "toString36 i = (if i < 0 then 0x2D # nat36 (nat (- i)) else nat36 (nat i))"

text \<open>The reference reading of a radix-36 numeral, used to state that printing loses nothing.\<close>

definition val36 :: "code_unit \<Rightarrow> nat" where
  "val36 c = (if c < 58 then unat c - 48 else unat c - 87)"

definition parse36 :: "jsstring \<Rightarrow> nat" where
  "parse36 s = foldl (\<lambda>a c. 36 * a + val36 c) 0 s"

definition parseInt36 :: "jsstring \<Rightarrow> int" where
  "parseInt36 s = (case s of [] \<Rightarrow> 0
     | c # cs \<Rightarrow> if c = 0x2D then - int (parse36 cs) else int (parse36 s))"

section \<open>makeId\<close>

definition makeId :: "env \<Rightarrow> jsstring" where
  "makeId e = toString36 (now e) @ slice_str 2 7 (random36 e)"

text \<open>
  The clock range in which \<open>Date.now().toString(36)\<close> has eight digits: from
  \<open>36 ^ 7\<close> ms (June 1972) up to, not including, \<open>36 ^ 8\<close> ms (May 2059).
\<close>

definition eight_digit_clock :: "int \<Rightarrow> bool" where
  "eight_digit_clock t \<longleftrightarrow> 36 ^ 7 \<le> t \<and> t < 36 ^ 8"

text \<open>Two readings one millisecond apart with the same random string, in November 2023.\<close>

definition env_a :: env where
  "env_a = \<lparr>now = 1700000000000, random36 = of_ascii ''0.4fzyo82mvyr'',
            iso_now = of_ascii ''2023-11-14T22:13:20.000Z''\<rparr>"

definition env_b :: env where
  "env_b = \<lparr>now = 1700000000001, random36 = of_ascii ''0.4fzyo82mvyr'',
            iso_now = of_ascii ''2023-11-14T22:13:20.001Z''\<rparr>"



section \<open>Radix-36 printing is faithful\<close>

declare nat36.simps [simp del]

lemma unat_of_nat16: "n < 65536 \<Longrightarrow> unat (of_nat n :: code_unit) = n"
  by (simp add: unat_of_nat)

lemma unat_digit36: "d < 36 \<Longrightarrow> unat (digit36 d) = (if d < 10 then 48 + d else 87 + d)"
  unfolding digit36_def by (simp add: unat_of_nat16 del: of_nat_add)

lemma val36_digit36 [simp]: "d < 36 \<Longrightarrow> val36 (digit36 d) = d"
  by (simp add: val36_def word_less_nat_alt unat_digit36)

lemma nat36_nonempty [simp]: "nat36 n \<noteq> []"
  by (subst nat36.simps) simp

lemma parse36_snoc: "parse36 (s @ [c]) = 36 * parse36 s + val36 c"
  by (simp add: parse36_def)

lemma parse36_nat36 [simp]: "parse36 (nat36 n) = n"
proof (induction n rule: nat36.induct)
  case (1 n)
  show ?case
  proof (cases "n < 36")
    case True
    then show ?thesis by (subst nat36.simps) (simp add: parse36_def)
  next
    case False
    with "1.IH" have "parse36 (nat36 (n div 36)) = n div 36" by simp
    with False show ?thesis by (subst nat36.simps) (simp add: parse36_snoc)
  qed
qed

lemma nat36_inj: "nat36 m = nat36 n \<longleftrightarrow> m = n"
  by (metis parse36_nat36)

lemma digit36_not_minus: "d < 36 \<Longrightarrow> digit36 d \<noteq> 0x2D"
  using unat_digit36 [of d] by (auto split: if_splits)

lemma hd_nat36_not_minus: "hd (nat36 n) \<noteq> 0x2D"
proof (induction n rule: nat36.induct)
  case (1 n)
  show ?case
  proof (cases "n < 36")
    case True
    then show ?thesis by (subst nat36.simps) (simp add: digit36_not_minus)
  next
    case False
    with "1.IH" show ?thesis by (subst nat36.simps) simp
  qed
qed

lemma parseInt36_nat36 [simp]: "parseInt36 (nat36 n) = int n"
  using hd_nat36_not_minus [of n] nat36_nonempty [of n]
  by (cases "nat36 n") (auto simp: parseInt36_def dest: arg_cong [where f = parse36])

section \<open>The number of digits\<close>

lemma length_nat36_upper: "n < 36 ^ Suc k \<Longrightarrow> length (nat36 n) \<le> Suc k"
proof (induction k arbitrary: n)
  case 0
  then show ?case by (subst nat36.simps) simp
next
  case (Suc k)
  show ?case
  proof (cases "n < 36")
    case True
    then show ?thesis by (subst nat36.simps) simp
  next
    case False
    from Suc.prems have "n div 36 < 36 ^ Suc k"
      by (simp add: less_mult_imp_div_less mult.commute)
    then have "length (nat36 (n div 36)) \<le> Suc k" by (rule Suc.IH)
    with False show ?thesis by (subst nat36.simps) simp
  qed
qed

lemma length_nat36_lower: "36 ^ k \<le> n \<Longrightarrow> k < length (nat36 n)"
proof (induction k arbitrary: n)
  case 0
  show ?case by simp
next
  case (Suc k)
  have "(36::nat) ^ 1 \<le> 36 ^ Suc k" by (rule power_increasing) simp_all
  then have "(36::nat) \<le> 36 ^ Suc k" by (simp only: power_one_right)
  then have "36 \<le> n" using Suc.prems by (rule order_trans)
  then have ge: "\<not> n < 36" by simp
  from Suc.prems have "36 ^ k \<le> n div 36" by simp
  then have "k < length (nat36 (n div 36))" by (rule Suc.IH)
  with ge show ?case by (subst nat36.simps) simp
qed

lemma length_nat36_eight: "36 ^ 7 \<le> n \<Longrightarrow> n < 36 ^ 8 \<Longrightarrow> length (nat36 n) = 8"
  using length_nat36_upper [of n 7] length_nat36_lower [of 7 n] by simp

lemma length_toString36_eight: "eight_digit_clock t \<Longrightarrow> length (toString36 t) = 8"
  by (auto simp: eight_digit_clock_def toString36_def intro!: length_nat36_eight)

lemma toString36_nonneg_inj:
  "0 \<le> t \<Longrightarrow> 0 \<le> u \<Longrightarrow> toString36 t = toString36 u \<longleftrightarrow> t = u"
  by (auto simp: toString36_def nat36_inj)

lemma length_slice_str: "length (slice_str b e s) \<le> e - b"
  by (simp add: slice_str_def)

section \<open>Properties of the generated identifiers\<close>

text \<open>
  Printing the clock in radix 36 loses nothing: reading the printed numeral
  back gives the clock value, for every integer, negative ones included. In particular
  two different clock values never print the same.
\<close>

theorem toString36_roundtrip: "parseInt36 (toString36 i) = i"
  by (simp add: toString36_def) (simp add: parseInt36_def)

text \<open>
  C39. While the clock prints with eight digits (from June 1972 to May 2059), two
  identifiers are equal exactly when they were made in the same millisecond from random
  strings that agree on the characters at positions 2 to 6. Identifiers made in
  different milliseconds never collide; within one millisecond uniqueness rests on at
  most five characters of the random string.
\<close>

theorem makeId_eq_iff:
  assumes "eight_digit_clock (now e)" and "eight_digit_clock (now e')"
  shows "makeId e = makeId e' \<longleftrightarrow>
           now e = now e' \<and> slice_str 2 7 (random36 e) = slice_str 2 7 (random36 e')"
proof -
  from assms have "length (toString36 (now e)) = length (toString36 (now e'))"
    by (simp add: length_toString36_eight)
  moreover from assms have "0 \<le> now e" and "0 \<le> now e'"
    by (simp_all add: eight_digit_clock_def)
  ultimately show ?thesis
    by (simp add: makeId_def toString36_nonneg_inj)
qed

theorem makeId_eq_iff_witness:
  "eight_digit_clock (now env_a) \<and> eight_digit_clock (now env_b) \<and> makeId env_a \<noteq> makeId env_b"
  using makeId_eq_iff [of env_a env_b]
  by (simp add: env_a_def env_b_def eight_digit_clock_def)


text \<open>
  An identifier is the printed clock followed by at most five characters; while
  the clock prints with eight digits it has between 8 and 13 characters.
\<close>

theorem makeId_length:
  assumes "eight_digit_clock (now e)"
  shows "8 \<le> length (makeId e) \<and> length (makeId e) \<le> 13
       \<and> take 8 (makeId e) = toString36 (now e)"
  using assms length_slice_str [of 2 7 "random36 e"]
  by (simp add: makeId_def length_toString36_eight)

theorem makeId_length_witness:
  "eight_digit_clock (now env_a) \<and> length (makeId env_a) = 13
   \<and> take 8 (makeId env_a) = toString36 (now env_a)"
  using makeId_length [of env_a]
  by (simp add: env_a_def eight_digit_clock_def makeId_def js_defs length_toString36_eight)

end
