(* ===== verification/Store.thy ===== *)
theory Store
  imports Identifier
begin

text \<open>
  The state of the component \<open>TodoAppExecutable\<close> and its event handlers, from
  \<open>src/todo_app_minimal.jsx\<close>.

  A handler of the source does not change the state itself: it calls the setters of
  \<open>useState\<close>, which queue updates, and React applies the queue in order before the
  next render. The model keeps both layers. A handler is a function from the state of
  the render it closes over to the list of setter calls it makes (type \<open>action\<close>, in
  the order of the calls), and \<open>commit\<close> applies such a list to a state. The lemmas of
  this theory give, for every handler and every branch of it, the state after the commit.
\<close>

section \<open>Collections of facts\<close>

named_theorems handler_defs "definitions of the event handlers and of commit"

section \<open>Tasks and component state\<close>

text \<open>
  A task object \<open>{ id, text, created_at }\<close>; the fields \<open>id\<close> and \<open>text\<close> are
  written \<open>task_id\<close> and \<open>task_text\<close>. The state is the four \<open>useState\<close> cells.
  \<open>editingId\<close> is \<open>null\<close> or an identifier: an option.
\<close>

record task =
  task_id :: jsstring
  task_text :: jsstring
  created_at :: jsstring

record state =
  tasks :: "task list"
  input :: jsstring
  editingId :: "jsstring option"
  editingText :: jsstring

definition init_state :: state where
  "init_state = \<lparr>tasks = [], input = [], editingId = None, editingText = []\<rparr>"

section \<open>Queued state updates\<close>

text \<open>
  One constructor per setter; \<open>setTasks\<close> takes an updater function (\<open>setTasks(v)\<close> is
  \<open>SetTasks (\<lambda>_. v)\<close>). \<open>FocusInput\<close> is the call \<open>inputRef.current?.focus()\<close>, which
  changes no cell of the state.
\<close>

datatype action =
    SetTasks "task list \<Rightarrow> task list"
  | SetInput jsstring
  | SetEditingId "jsstring option"
  | SetEditingText jsstring
  | FocusInput

fun apply_action :: "state \<Rightarrow> action \<Rightarrow> state" where
  "apply_action s (SetTasks f) = s\<lparr>tasks := f (tasks s)\<rparr>"
| "apply_action s (SetInput v) = s\<lparr>input := v\<rparr>"
| "apply_action s (SetEditingId v) = s\<lparr>editingId := v\<rparr>"
| "apply_action s (SetEditingText v) = s\<lparr>editingText := v\<rparr>"
| "apply_action s FocusInput = s"

definition commit :: "state \<Rightarrow> action list \<Rightarrow> state" where
  "commit s acts = foldl apply_action s acts"

text \<open>
  Whether a batch replaces the \<open>tasks\<close> array. Every updater of the source builds a
  new array, so the effect that depends on \<open>[tasks]\<close> runs after exactly these batches.
\<close>

fun replaces_tasks :: "action \<Rightarrow> bool" where
  "replaces_tasks (SetTasks f) = True"
| "replaces_tasks a = False"

definition tasks_replaced :: "action list \<Rightarrow> bool" where
  "tasks_replaced acts = list_ex replaces_tasks acts"

section \<open>The named handlers\<close>

definition addTask :: "env \<Rightarrow> state \<Rightarrow> action list" where
  "addTask e s =
     (let text = trim (input s) in
      if text = [] then []
      else
        let newTask = \<lparr>task_id = makeId e, task_text = text, created_at = iso_now e\<rparr>
        in [SetTasks (\<lambda>prev. prev @ [newTask]), SetInput [], FocusInput])"

definition deleteTask :: "jsstring \<Rightarrow> action list" where
  "deleteTask i = [SetTasks (filter (\<lambda>t. task_id t \<noteq> i))]"

definition startEdit :: "task \<Rightarrow> action list" where
  "startEdit t = [SetEditingId (Some (task_id t)), SetEditingText (task_text t)]"

definition saveEdit :: "state \<Rightarrow> jsstring \<Rightarrow> action list" where
  "saveEdit s i =
     (let text = trim (editingText s) in
      if text = [] then [SetEditingId None, SetEditingText []]
      else
        [SetTasks (map (\<lambda>t. if task_id t = i then t\<lparr>task_text := text\<rparr> else t)),
         SetEditingId None, SetEditingText []])"

definition onInputKeyDown :: "jsstring \<Rightarrow> env \<Rightarrow> state \<Rightarrow> action list" where
  "onInputKeyDown key e s = (if key = of_ascii ''Enter'' then addTask e s else [])"

definition onEditKeyDown :: "jsstring \<Rightarrow> jsstring \<Rightarrow> state \<Rightarrow> action list" where
  "onEditKeyDown key i s =
     (if key = of_ascii ''Enter'' then saveEdit s i else []) @
     (if key = of_ascii ''Escape'' then [SetEditingId None, SetEditingText []] else [])"

section \<open>The handlers written inline in the JSX\<close>

text \<open>
  Named after the element and the attribute that carries them: the \<open>onChange\<close> of the
  new-task input, the \<open>onClick\<close> of the button that empties the list, the \<open>onChange\<close>
  of the edit input, and the \<open>onKeyDown\<close> of a task's text, which starts an edit on Enter.
\<close>

definition input_onChange :: "jsstring \<Rightarrow> action list" where
  "input_onChange v = [SetInput v]"

definition clear_onClick :: "action list" where
  "clear_onClick = [SetTasks (\<lambda>_. [])]"

definition edit_onChange :: "jsstring \<Rightarrow> action list" where
  "edit_onChange v = [SetEditingText v]"

definition text_onKeyDown :: "jsstring \<Rightarrow> task \<Rightarrow> action list" where
  "text_onKeyDown key t = (if key = of_ascii ''Enter'' then startEdit t else [])"

section \<open>Example values\<close>

text \<open>Concrete inputs at which the theorems of the development are instantiated.\<close>

definition task_a :: task where
  "task_a = \<lparr>task_id = makeId env_a, task_text = of_ascii ''Buy milk'',
             created_at = iso_now env_a\<rparr>"

definition typed_milk :: state where
  "typed_milk = init_state\<lparr>input := of_ascii ''  Buy milk ''\<rparr>"

definition one_task :: state where
  "one_task = init_state\<lparr>tasks := [task_a]\<rparr>"

definition editing_a :: state where
  "editing_a = one_task\<lparr>editingId := Some (task_id task_a),
                         editingText := of_ascii ''Buy oat milk ''\<rparr>"

section \<open>The cells of the example states\<close>

lemma init_state_cells [simp]:
  "tasks init_state = []" "input init_state = []"
  "editingId init_state = None" "editingText init_state = []"
  by (simp_all add: init_state_def)

lemma typed_milk_cells [simp]:
  "tasks typed_milk = []" "input typed_milk = of_ascii ''  Buy milk ''"
  "editingId typed_milk = None" "editingText typed_milk = []"
  by (simp_all add: typed_milk_def)

lemma one_task_cells [simp]:
  "tasks one_task = [task_a]" "input one_task = []"
  "editingId one_task = None" "editingText one_task = []"
  by (simp_all add: one_task_def)

lemma editing_a_cells [simp]:
  "tasks editing_a = [task_a]" "input editing_a = []"
  "editingId editing_a = Some (task_id task_a)"
  "editingText editing_a = of_ascii ''Buy oat milk ''"
  by (simp_all add: editing_a_def)

lemma task_a_fields [simp]:
  "task_text task_a = of_ascii ''Buy milk''" "created_at task_a = iso_now env_a"
  by (simp_all add: task_a_def)

lemma state_eqI:
  "tasks s = tasks s' \<Longrightarrow> input s = input s' \<Longrightarrow> editingId s = editingId s' \<Longrightarrow>
   editingText s = editingText s' \<Longrightarrow> (s :: state) = s'"
  by simp

section \<open>Committing a batch\<close>

lemmas [handler_defs] =
  commit_def addTask_def deleteTask_def startEdit_def saveEdit_def onInputKeyDown_def
  onEditKeyDown_def input_onChange_def clear_onClick_def edit_onChange_def text_onKeyDown_def

lemma commit_Nil [simp]: "commit s [] = s"
  by (simp add: commit_def)

lemma commit_Cons [simp]: "commit s (a # acts) = commit (apply_action s a) acts"
  by (simp add: commit_def)

lemma commit_append: "commit s (as @ bs) = commit (commit s as) bs"
  by (simp add: commit_def)

lemma tasks_commit_unreplaced:
  "\<not> tasks_replaced acts \<Longrightarrow> tasks (commit s acts) = tasks s"
proof (induction acts arbitrary: s)
  case Nil
  then show ?case by simp
next
  case (Cons a acts)
  then show ?case by (cases a) (simp_all add: tasks_replaced_def)
qed

section \<open>The state after each handler\<close>

text \<open>
  One equation per handler, every branch included. They are the simp rules through
  which the rest of the development sees the handlers.
\<close>

lemma commit_addTask:
  "commit s (addTask e s) =
     (if trim (input s) = [] then s
      else s\<lparr>tasks := tasks s @
              [\<lparr>task_id = makeId e, task_text = trim (input s), created_at = iso_now e\<rparr>],
            input := []\<rparr>)"
  by (simp add: addTask_def Let_def)

lemma commit_deleteTask:
  "commit s (deleteTask i) = s\<lparr>tasks := filter (\<lambda>t. task_id t \<noteq> i) (tasks s)\<rparr>"
  by (simp add: deleteTask_def)

lemma commit_startEdit:
  "commit s (startEdit t) = s\<lparr>editingId := Some (task_id t), editingText := task_text t\<rparr>"
  by (simp add: startEdit_def)

lemma commit_saveEdit:
  "commit s (saveEdit s i) =
     (if trim (editingText s) = [] then s\<lparr>editingId := None, editingText := []\<rparr>
      else s\<lparr>tasks := map (\<lambda>t. if task_id t = i then t\<lparr>task_text := trim (editingText s)\<rparr>
                                else t) (tasks s),
            editingId := None, editingText := []\<rparr>)"
  by (simp add: saveEdit_def Let_def)

lemma commit_input_onChange: "commit s (input_onChange v) = s\<lparr>input := v\<rparr>"
  by (simp add: input_onChange_def)

lemma commit_clear_onClick: "commit s clear_onClick = s\<lparr>tasks := []\<rparr>"
  by (simp add: clear_onClick_def)

lemma commit_edit_onChange: "commit s (edit_onChange v) = s\<lparr>editingText := v\<rparr>"
  by (simp add: edit_onChange_def)

lemmas commit_handler =
  commit_addTask commit_deleteTask commit_startEdit commit_saveEdit
  commit_input_onChange commit_clear_onClick commit_edit_onChange

lemma onInputKeyDown_Enter [simp]: "onInputKeyDown (of_ascii ''Enter'') e s = addTask e s"
  by (simp add: onInputKeyDown_def)

lemma onInputKeyDown_other [simp]: "key \<noteq> of_ascii ''Enter'' \<Longrightarrow> onInputKeyDown key e s = []"
  by (simp add: onInputKeyDown_def)

lemma Enter_neq_Escape [simp]: "of_ascii ''Enter'' \<noteq> of_ascii ''Escape''"
  by (simp add: of_ascii_def)

lemma onEditKeyDown_Enter [simp]: "onEditKeyDown (of_ascii ''Enter'') i s = saveEdit s i"
  by (simp add: onEditKeyDown_def)

lemma onEditKeyDown_Escape [simp]:
  "onEditKeyDown (of_ascii ''Escape'') i s = [SetEditingId None, SetEditingText []]"
  using Enter_neq_Escape by (simp add: onEditKeyDown_def del: Enter_neq_Escape)

lemma onEditKeyDown_other [simp]:
  "key \<noteq> of_ascii ''Enter'' \<Longrightarrow> key \<noteq> of_ascii ''Escape'' \<Longrightarrow> onEditKeyDown key i s = []"
  by (simp add: onEditKeyDown_def)

lemma text_onKeyDown_Enter [simp]: "text_onKeyDown (of_ascii ''Enter'') t = startEdit t"
  by (simp add: text_onKeyDown_def)

lemma text_onKeyDown_other [simp]: "key \<noteq> of_ascii ''Enter'' \<Longrightarrow> text_onKeyDown key t = []"
  by (simp add: text_onKeyDown_def)

text \<open>The cells a handler does not write keep their values.\<close>

lemma frame [simp]:
  "editingId (commit s (addTask e s)) = editingId s"
  "editingText (commit s (addTask e s)) = editingText s"
  "input (commit s (deleteTask i)) = input s"
  "editingId (commit s (deleteTask i)) = editingId s"
  "editingText (commit s (deleteTask i)) = editingText s"
  "tasks (commit s (startEdit t)) = tasks s"
  "input (commit s (startEdit t)) = input s"
  "input (commit s (saveEdit s i)) = input s"
  "input (commit s clear_onClick) = input s"
  "editingId (commit s clear_onClick) = editingId s"
  "editingText (commit s clear_onClick) = editingText s"
  "tasks (commit s (input_onChange v)) = tasks s"
  "editingId (commit s (input_onChange v)) = editingId s"
  "editingText (commit s (input_onChange v)) = editingText s"
  "tasks (commit s (edit_onChange v)) = tasks s"
  "input (commit s (edit_onChange v)) = input s"
  "editingId (commit s (edit_onChange v)) = editingId s"
  by (simp_all add: commit_handler)

lemma written [simp]:
  "editingId (commit s (startEdit t)) = Some (task_id t)"
  "editingText (commit s (startEdit t)) = task_text t"
  "editingId (commit s (saveEdit s i)) = None"
  "editingText (commit s (saveEdit s i)) = []"
  "tasks (commit s clear_onClick) = []"
  "input (commit s (input_onChange v)) = v"
  "editingText (commit s (edit_onChange v)) = v"
  by (simp_all add: commit_handler)

text \<open>The key handlers dispatch to the named handlers; all other keys change nothing.\<close>

lemma commit_onInputKeyDown [simp]:
  "commit s (onInputKeyDown key e s) =
     (if key = of_ascii ''Enter'' then commit s (addTask e s) else s)"
  by (simp add: onInputKeyDown_def)

lemma commit_onEditKeyDown [simp]:
  "commit s (onEditKeyDown key i s) =
     (if key = of_ascii ''Enter'' then commit s (saveEdit s i)
      else if key = of_ascii ''Escape'' then s\<lparr>editingId := None, editingText := []\<rparr>
      else s)"
  using Enter_neq_Escape [THEN not_sym] by (auto simp: onEditKeyDown_def)

lemma commit_text_onKeyDown [simp]:
  "commit s (text_onKeyDown key t) =
     (if key = of_ascii ''Enter'' then commit s (startEdit t) else s)"
  by (simp add: text_onKeyDown_def)

section \<open>Which handlers replace the task array\<close>

lemma tasks_replaced_simps [simp]:
  "tasks_replaced (addTask e s) \<longleftrightarrow> trim (input s) \<noteq> []"
  "tasks_replaced (deleteTask i)"
  "\<not> tasks_replaced (startEdit t)"
  "tasks_replaced (saveEdit s i) \<longleftrightarrow> trim (editingText s) \<noteq> []"
  "\<not> tasks_replaced (input_onChange v)"
  "tasks_replaced clear_onClick"
  "\<not> tasks_replaced (edit_onChange v)"
  by (simp_all add: tasks_replaced_def handler_defs Let_def)

section \<open>Behaviour of the handlers\<close>

lemma trim_typed_milk [simp]: "trim (of_ascii ''  Buy milk '') = of_ascii ''Buy milk''"
  by (simp add: js_defs)

lemma trim_oat_milk [simp]: "trim (of_ascii ''Buy oat milk '') = of_ascii ''Buy oat milk''"
  by (simp add: js_defs)

lemma of_ascii_eq_Nil [simp]: "of_ascii s = [] \<longleftrightarrow> s = []"
  by (simp add: of_ascii_def)

text \<open>
  C2. When the new-task input holds more than white space, \<open>addTask\<close> appends
  exactly one task at the end of the list: its identifier is the one \<open>makeId\<close>
  returns, its text is the trimmed input, its creation time the ISO string read from
  the clock. The input is emptied and the two editing cells are not touched.
\<close>

theorem addTask_appends:
  assumes "trim (input s) \<noteq> []"
  shows "tasks (commit s (addTask e s)) =
           tasks s @ [\<lparr>task_id = makeId e, task_text = trim (input s), created_at = iso_now e\<rparr>]
       \<and> length (tasks (commit s (addTask e s))) = Suc (length (tasks s))
       \<and> input (commit s (addTask e s)) = []
       \<and> editingId (commit s (addTask e s)) = editingId s
       \<and> editingText (commit s (addTask e s)) = editingText s"
  using assms by (simp add: commit_addTask)

theorem addTask_appends_witness:
  "trim (input typed_milk) \<noteq> []
   \<and> tasks (commit typed_milk (addTask env_a typed_milk)) = [task_a]
   \<and> input (commit typed_milk (addTask env_a typed_milk)) = []"
  using addTask_appends [of typed_milk env_a]
  by (simp add: task_a_def)

text \<open>
  C3. When the new-task input is empty or holds only white space, \<open>addTask\<close>
  makes no setter call at all: no cell of the state changes (the input keeps its
  white space) and the task array is not replaced, so nothing is written to storage.
\<close>

theorem addTask_blank_noop:
  assumes "list_all is_white_space (input s)"
  shows "addTask e s = [] \<and> commit s (addTask e s) = s \<and> \<not> tasks_replaced (addTask e s)"
  using assms by (simp add: addTask_def trim_eq_Nil_iff tasks_replaced_def)

theorem addTask_blank_noop_witness:
  "list_all is_white_space (input (one_task\<lparr>input := of_ascii ''  ''\<rparr>))
   \<and> commit (one_task\<lparr>input := of_ascii ''  ''\<rparr>)
        (addTask env_b (one_task\<lparr>input := of_ascii ''  ''\<rparr>)) = one_task\<lparr>input := of_ascii ''  ''\<rparr>"
  using addTask_blank_noop [of "one_task\<lparr>input := of_ascii ''  ''\<rparr>" env_b]
  by (simp add: js_defs)

text \<open>
  C4. Saving an edit whose buffer holds more than white space replaces the text of
  the tasks with the given identifier by the trimmed buffer and leaves everything else
  of the list as it was: the identifiers, their order, the creation times, and the text
  of every other task. The editing pointer and the buffer are reset, the new-task input
  is not touched.
\<close>

theorem saveEdit_replaces_text:
  assumes "trim (editingText s) \<noteq> []"
  shows "map task_id (tasks (commit s (saveEdit s i))) = map task_id (tasks s)
       \<and> map created_at (tasks (commit s (saveEdit s i))) = map created_at (tasks s)
       \<and> map task_text (tasks (commit s (saveEdit s i))) =
           map (\<lambda>t. if task_id t = i then trim (editingText s) else task_text t) (tasks s)
       \<and> editingId (commit s (saveEdit s i)) = None
       \<and> editingText (commit s (saveEdit s i)) = []
       \<and> input (commit s (saveEdit s i)) = input s"
  using assms by (simp add: commit_saveEdit map_key_update map_field_update)

theorem saveEdit_replaces_text_witness:
  "trim (editingText editing_a) \<noteq> []
   \<and> tasks (commit editing_a (saveEdit editing_a (task_id task_a))) =
       [task_a\<lparr>task_text := of_ascii ''Buy oat milk''\<rparr>]
   \<and> editingId (commit editing_a (saveEdit editing_a (task_id task_a))) = None"
  using saveEdit_replaces_text [of editing_a "task_id task_a"]
  by (simp add: commit_saveEdit)

text \<open>
  C5. Saving an edit whose buffer is empty or only white space is a cancel: no task
  changes (in particular the edited task keeps its text and is not deleted), the editing
  pointer and the buffer are reset, and the task array is not replaced.
\<close>

theorem saveEdit_blank_cancels:
  assumes "list_all is_white_space (editingText s)"
  shows "tasks (commit s (saveEdit s i)) = tasks s
       \<and> editingId (commit s (saveEdit s i)) = None
       \<and> editingText (commit s (saveEdit s i)) = []
       \<and> \<not> tasks_replaced (saveEdit s i)"
  using assms by (simp add: commit_saveEdit trim_eq_Nil_iff)

theorem saveEdit_blank_cancels_witness:
  "list_all is_white_space (editingText (editing_a\<lparr>editingText := of_ascii '' ''\<rparr>))
   \<and> tasks (commit (editing_a\<lparr>editingText := of_ascii '' ''\<rparr>)
        (saveEdit (editing_a\<lparr>editingText := of_ascii '' ''\<rparr>) (task_id task_a))) = [task_a]"
  using saveEdit_blank_cancels [of "editing_a\<lparr>editingText := of_ascii '' ''\<rparr>" "task_id task_a"]
  by (simp add: js_defs)

text \<open>
  C6. \<open>deleteTask\<close> removes every task with the given identifier and no other: the
  tasks left are those of the old list whose identifier differs, the identifier no longer
  occurs, the list never grows, and deleting the same identifier again changes nothing.
  The input and both editing cells are left as they were, also when the deleted task
  is the one being edited.
\<close>

theorem deleteTask_removes:
  "set (tasks (commit s (deleteTask i))) = {t \<in> set (tasks s). task_id t \<noteq> i}
   \<and> i \<notin> set (map task_id (tasks (commit s (deleteTask i))))
   \<and> length (tasks (commit s (deleteTask i))) \<le> length (tasks s)
   \<and> commit (commit s (deleteTask i)) (deleteTask i) = commit s (deleteTask i)
   \<and> input (commit s (deleteTask i)) = input s
   \<and> editingId (commit s (deleteTask i)) = editingId s
   \<and> editingText (commit s (deleteTask i)) = editingText s"
  by (auto simp: commit_deleteTask key_notin_filter)

text \<open>
  C36. The key handler of the edit input: Enter saves, Escape resets the editing
  pointer and the buffer without touching any task, every other key does nothing.
  The two tests of the source are independent statements; since no key is both Enter
  and Escape, at most one of them fires.
\<close>

theorem onEditKeyDown_dispatch:
  "onEditKeyDown key i s =
     (if key = of_ascii ''Enter'' then saveEdit s i
      else if key = of_ascii ''Escape'' then [SetEditingId None, SetEditingText []]
      else [])
   \<and> tasks (commit s (onEditKeyDown (of_ascii ''Escape'') i s)) = tasks s
   \<and> editingId (commit s (onEditKeyDown (of_ascii ''Escape'') i s)) = None
   \<and> editingText (commit s (onEditKeyDown (of_ascii ''Escape'') i s)) = []"
  using Enter_neq_Escape [THEN not_sym] by (auto simp: onEditKeyDown_def)

end
