(* ===== verification/Invariants.thy ===== *)
theory Invariants
  imports Store
begin

text \<open>
  The invariants the specification states for the task list (section 3: identifiers
  unique, no text empty after trimming) and the ones that relate the two editing cells
  to the list, as predicates on the component state of theory \<open>Store\<close>; and, handler
  by handler, which of them the committed state keeps and under which condition.
\<close>

section \<open>Collections of facts\<close>

named_theorems inv_defs "definitions of the state invariants"
named_theorems keeps "preservation of an invariant by the commit of one handler"

section \<open>The invariants\<close>

text \<open>
  \<open>text_ok\<close>: the text of a task is what \<open>trim\<close> returns on it and is not empty.
  \<open>ids_distinct\<close>: no two tasks of the list share an identifier.
  \<open>fresh_for e s\<close>: the identifier \<open>makeId\<close> computes from the readings \<open>e\<close> is not
  the identifier of a task of \<open>s\<close>.
  \<open>buffer_idle\<close>: when no task is being edited the edit buffer is empty.
  \<open>pointer_valid\<close>: the editing pointer, when set, is the identifier of a task of the list.
\<close>

definition text_ok :: "task \<Rightarrow> bool" where
  "text_ok t \<longleftrightarrow> task_text t \<noteq> [] \<and> trim (task_text t) = task_text t"

definition texts_ok :: "state \<Rightarrow> bool" where
  "texts_ok s \<longleftrightarrow> list_all text_ok (tasks s)"

definition ids_of :: "state \<Rightarrow> jsstring list" where
  "ids_of s = map task_id (tasks s)"

definition ids_distinct :: "state \<Rightarrow> bool" where
  "ids_distinct s \<longleftrightarrow> distinct (ids_of s)"

definition fresh_for :: "env \<Rightarrow> state \<Rightarrow> bool" where
  "fresh_for e s \<longleftrightarrow> makeId e \<notin> set (ids_of s)"

definition buffer_idle :: "state \<Rightarrow> bool" where
  "buffer_idle s \<longleftrightarrow> (editingId s = None \<longrightarrow> editingText s = [])"

definition pointer_valid :: "state \<Rightarrow> bool" where
  "pointer_valid s \<longleftrightarrow> set_option (editingId s) \<subseteq> set (ids_of s)"

lemmas [inv_defs] =
  text_ok_def texts_ok_def ids_of_def ids_distinct_def fresh_for_def buffer_idle_def
  pointer_valid_def

section \<open>The initial state\<close>

lemma init_state_invariants [simp]:
  "texts_ok init_state" "ids_distinct init_state" "buffer_idle init_state"
  "pointer_valid init_state" "ids_of init_state = []"
  by (simp_all add: inv_defs)

section \<open>The identifiers after each handler\<close>

lemma ids_of_addTask:
  "ids_of (commit s (addTask e s)) =
     (if trim (input s) = [] then ids_of s else ids_of s @ [makeId e])"
  by (simp add: ids_of_def commit_handler)

lemma ids_of_deleteTask: "ids_of (commit s (deleteTask i)) = filter (\<lambda>j. j \<noteq> i) (ids_of s)"
  by (simp add: ids_of_def commit_handler map_key_filter)

lemma ids_of_saveEdit: "ids_of (commit s (saveEdit s i)) = ids_of s"
  by (simp add: ids_of_def commit_handler map_key_update)

lemma ids_of_clear: "ids_of (commit s clear_onClick) = []"
  by (simp add: ids_of_def commit_handler)

lemma ids_of_other:
  "ids_of (commit s (startEdit t)) = ids_of s"
  "ids_of (commit s (input_onChange v)) = ids_of s"
  "ids_of (commit s (edit_onChange v)) = ids_of s"
  by (simp_all add: ids_of_def commit_handler)

lemmas ids_of_handler =
  ids_of_addTask ids_of_deleteTask ids_of_saveEdit ids_of_clear ids_of_other

lemma ids_of_cells [simp]:
  "ids_of (s\<lparr>tasks := ts\<rparr>) = map task_id ts"
  "ids_of (s\<lparr>input := v\<rparr>) = ids_of s"
  "ids_of (s\<lparr>editingId := p\<rparr>) = ids_of s"
  "ids_of (s\<lparr>editingText := v\<rparr>) = ids_of s"
  by (simp_all add: ids_of_def)

section \<open>Texts stay trimmed and non-empty\<close>

lemma text_ok_trimmed: "trim v \<noteq> [] \<Longrightarrow> text_ok (t\<lparr>task_text := trim v\<rparr>)"
  by (simp add: text_ok_def)

lemma list_all_update:
  "list_all P xs \<Longrightarrow> (\<And>x. P x \<Longrightarrow> P (g x)) \<Longrightarrow> list_all P (map (\<lambda>x. if Q x then g x else x) xs)"
  by (induction xs) auto

lemma list_all_filter: "list_all P xs \<Longrightarrow> list_all P (filter Q xs)"
  by (induction xs) auto

lemma texts_ok_addTask [keeps]: "texts_ok s \<Longrightarrow> texts_ok (commit s (addTask e s))"
  by (simp add: texts_ok_def text_ok_def commit_handler)

lemma texts_ok_deleteTask [keeps]: "texts_ok s \<Longrightarrow> texts_ok (commit s (deleteTask i))"
  by (simp add: texts_ok_def list_all_filter commit_handler)

lemma texts_ok_saveEdit [keeps]: "texts_ok s \<Longrightarrow> texts_ok (commit s (saveEdit s i))"
  by (simp add: texts_ok_def list_all_update text_ok_trimmed commit_handler)

lemma texts_ok_other [keeps]:
  "texts_ok (commit s clear_onClick)"
  "texts_ok s \<Longrightarrow> texts_ok (commit s (startEdit t))"
  "texts_ok s \<Longrightarrow> texts_ok (commit s (input_onChange v))"
  "texts_ok s \<Longrightarrow> texts_ok (commit s (edit_onChange v))"
  by (simp_all add: texts_ok_def commit_handler)

lemma texts_ok_cells [simp]:
  "texts_ok (s\<lparr>input := v\<rparr>) = texts_ok s"
  "texts_ok (s\<lparr>editingId := p\<rparr>) = texts_ok s"
  "texts_ok (s\<lparr>editingText := v\<rparr>) = texts_ok s"
  by (simp_all add: texts_ok_def)

section \<open>Identifiers stay distinct\<close>

lemma ids_distinct_addTask [keeps]:
  "ids_distinct s \<Longrightarrow> trim (input s) = [] \<or> fresh_for e s \<Longrightarrow>
   ids_distinct (commit s (addTask e s))"
  unfolding ids_distinct_def fresh_for_def ids_of_addTask by auto

lemma ids_distinct_deleteTask [keeps]: "ids_distinct s \<Longrightarrow> ids_distinct (commit s (deleteTask i))"
  unfolding ids_distinct_def ids_of_deleteTask by simp

lemma ids_distinct_saveEdit [keeps]: "ids_distinct s \<Longrightarrow> ids_distinct (commit s (saveEdit s i))"
  unfolding ids_distinct_def ids_of_saveEdit by simp

lemma ids_distinct_other [keeps]:
  "ids_distinct (commit s clear_onClick)"
  "ids_distinct s \<Longrightarrow> ids_distinct (commit s (startEdit t))"
  "ids_distinct s \<Longrightarrow> ids_distinct (commit s (input_onChange v))"
  "ids_distinct s \<Longrightarrow> ids_distinct (commit s (edit_onChange v))"
  unfolding ids_distinct_def ids_of_handler by simp_all

lemma ids_distinct_cells [simp]:
  "ids_distinct (s\<lparr>input := v\<rparr>) = ids_distinct s"
  "ids_distinct (s\<lparr>editingId := p\<rparr>) = ids_distinct s"
  "ids_distinct (s\<lparr>editingText := v\<rparr>) = ids_distinct s"
  by (simp_all add: ids_distinct_def)

section \<open>The editing cells\<close>

lemma buffer_idle_keeps [keeps]:
  "buffer_idle s \<Longrightarrow> buffer_idle (commit s (addTask e s))"
  "buffer_idle s \<Longrightarrow> buffer_idle (commit s (deleteTask i))"
  "buffer_idle (commit s (startEdit t))"
  "buffer_idle (commit s (saveEdit s i))"
  "buffer_idle s \<Longrightarrow> buffer_idle (commit s clear_onClick)"
  "buffer_idle s \<Longrightarrow> buffer_idle (commit s (input_onChange v))"
  "editingId s \<noteq> None \<Longrightarrow> buffer_idle (commit s (edit_onChange v))"
  "buffer_idle (s\<lparr>editingId := None, editingText := []\<rparr>)"
  by (auto simp: buffer_idle_def)

lemma pointer_valid_cells [simp]:
  "pointer_valid (s\<lparr>input := v\<rparr>) = pointer_valid s"
  "pointer_valid (s\<lparr>editingText := v\<rparr>) = pointer_valid s"
  "pointer_valid (s\<lparr>editingId := None\<rparr>)"
  by (simp_all add: pointer_valid_def)

lemma pointer_valid_addTask [keeps]: "pointer_valid s \<Longrightarrow> pointer_valid (commit s (addTask e s))"
  by (auto simp: pointer_valid_def ids_of_addTask)

lemma pointer_valid_deleteTask [keeps]:
  "pointer_valid s \<Longrightarrow> editingId s \<noteq> Some i \<Longrightarrow> pointer_valid (commit s (deleteTask i))"
  by (auto simp: pointer_valid_def ids_of_deleteTask)

lemma pointer_valid_startEdit [keeps]:
  "t \<in> set (tasks s) \<Longrightarrow> pointer_valid (commit s (startEdit t))"
  by (simp add: pointer_valid_def ids_of_def)

lemma pointer_valid_saveEdit [keeps]: "pointer_valid (commit s (saveEdit s i))"
  by (simp add: pointer_valid_def)

lemma pointer_valid_clear [keeps]:
  "editingId s = None \<Longrightarrow> pointer_valid (commit s clear_onClick)"
  by (simp add: pointer_valid_def)

lemma pointer_valid_other [keeps]:
  "pointer_valid s \<Longrightarrow> pointer_valid (commit s (input_onChange v))"
  "pointer_valid s \<Longrightarrow> pointer_valid (commit s (edit_onChange v))"
  by (simp_all add: pointer_valid_def ids_of_def)

section \<open>Identifier collisions\<close>

text \<open>
  C14. After \<open>addTask\<close> the identifiers are distinct exactly when they were distinct
  before and either nothing was added (blank input) or the generated identifier was
  not yet in the list. The handler itself never checks for a collision: uniqueness
  rests on \<open>makeId\<close> returning a fresh identifier.
\<close>

theorem addTask_ids_distinct_iff:
  "ids_distinct (commit s (addTask e s)) \<longleftrightarrow>
     ids_distinct s \<and> (trim (input s) = [] \<or> fresh_for e s)"
  unfolding ids_distinct_def fresh_for_def ids_of_addTask by auto

text \<open>
  C15. Two additions that read the same clock value and the same random string produce
  two tasks with the same identifier, whatever the texts: the list is then not
  duplicate-free. The unique-identifier invariant of the specification is therefore
  not enforced by the code; it holds only as long as \<open>makeId\<close> happens not to repeat.
\<close>

theorem same_reading_collides:
  assumes "trim (input s) \<noteq> []" and "trim v \<noteq> []"
  shows "\<not> ids_distinct (commit (commit s (addTask e s)\<lparr>input := v\<rparr>)
                             (addTask e (commit s (addTask e s)\<lparr>input := v\<rparr>)))"
  using assms by (simp add: ids_distinct_def ids_of_addTask)

theorem same_reading_collides_witness:
  "trim (input typed_milk) \<noteq> [] \<and> trim (of_ascii ''Eggs'') \<noteq> []
   \<and> \<not> ids_distinct (commit (commit typed_milk (addTask env_a typed_milk)\<lparr>input := of_ascii ''Eggs''\<rparr>)
        (addTask env_a (commit typed_milk (addTask env_a typed_milk)\<lparr>input := of_ascii ''Eggs''\<rparr>)))"
  using same_reading_collides [of typed_milk "of_ascii ''Eggs''" env_a]
  by (simp add: js_defs)

end
