(* ===== verification/View.thy ===== *)
theory View
  imports Invariants
begin

text \<open>
  What the component renders (the JSX returned by \<open>TodoAppExecutable\<close>), reduced to
  what decides behaviour: the value shown in the new-task input, the total, one row
  per task in list order (the edit input for a task whose identifier equals
  \<open>editingId\<close>, the text with its two buttons otherwise), and whether the notice for an
  empty list is shown. Styling, labels and fixed texts are in theory \<open>Jsx\<close>, which
  proves that this view is what the full tree of elements shows. The second half is
  the set of events a rendered view offers to the user: each names the element and the
  attribute of the JSX that carries the handler.
\<close>

section \<open>The rendered view\<close>

text \<open>
  \<open>EditRow i v\<close> is the edit input of a row: its handlers are bound to the identifier
  \<open>i\<close> of the row's task and it shows the edit buffer \<open>v\<close>. \<open>ItemRow t\<close> is the text of
  task \<open>t\<close> with the edit and delete buttons, whose handlers are bound to \<open>t\<close>.
\<close>

datatype row =
    EditRow jsstring jsstring
  | ItemRow task

record view =
  input_value :: jsstring
  total :: nat
  rows :: "row list"
  empty_notice :: bool

definition render_row :: "state \<Rightarrow> task \<Rightarrow> row" where
  "render_row s t =
     (if editingId s = Some (task_id t) then EditRow (task_id t) (editingText s) else ItemRow t)"

definition render :: "state \<Rightarrow> view" where
  "render s =
     \<lparr>input_value = input s,
      total = length (tasks s),
      rows = map (render_row s) (tasks s),
      empty_notice = (length (tasks s) = 0)\<rparr>"

text \<open>
  The \<open>key\<close> React is given for a list item (the identifier of its task), and whether
  a row is the edit input. React requires the keys of sibling items to be distinct.
\<close>

fun row_key :: "row \<Rightarrow> jsstring" where
  "row_key (EditRow i v) = i"
| "row_key (ItemRow t) = task_id t"

fun is_edit_row :: "row \<Rightarrow> bool" where
  "is_edit_row (EditRow i v) = True"
| "is_edit_row (ItemRow t) = False"

definition view_ok :: "view \<Rightarrow> bool" where
  "view_ok v \<longleftrightarrow>
     total v = length (rows v) \<and> (empty_notice v \<longleftrightarrow> rows v = [])
     \<and> distinct (map row_key (rows v)) \<and> length (filter is_edit_row (rows v)) \<le> 1"

section \<open>Events\<close>

text \<open>
  One constructor per handler attribute of the JSX. An event that adds a task carries
  the readings of the clock and the random source taken while its handler runs. A key
  event carries the value of \<open>e.key\<close>.
\<close>

datatype event =
    InputChange jsstring
  | InputKeyDown jsstring env
  | AddClick env
  | ClearClick
  | EditChange jsstring jsstring
  | EditKeyDown jsstring jsstring
  | EditBlur jsstring
  | TextDoubleClick task
  | TextKeyDown jsstring task
  | EditClick task
  | DeleteClick task

text \<open>
  Which events a row offers: the edit input offers change, key and blur events bound to
  its identifier; an item row offers the double click and the key event of its text and
  the clicks of its two buttons, bound to its task.
\<close>

fun row_offers :: "row \<Rightarrow> event \<Rightarrow> bool" where
  "row_offers (EditRow i v) (EditChange j w) = (j = i)"
| "row_offers (EditRow i v) (EditKeyDown k j) = (j = i)"
| "row_offers (EditRow i v) (EditBlur j) = (j = i)"
| "row_offers (ItemRow t) (TextDoubleClick u) = (u = t)"
| "row_offers (ItemRow t) (TextKeyDown k u) = (u = t)"
| "row_offers (ItemRow t) (EditClick u) = (u = t)"
| "row_offers (ItemRow t) (DeleteClick u) = (u = t)"
| "row_offers r ev = False"

text \<open>
  The new-task input, the add button and the clear button are always rendered; a row
  event is offered when some rendered row offers it.
\<close>

fun offers :: "view \<Rightarrow> event \<Rightarrow> bool" where
  "offers v (InputChange x) = True"
| "offers v (InputKeyDown k e) = True"
| "offers v (AddClick e) = True"
| "offers v ClearClick = True"
| "offers v ev = list_ex (\<lambda>r. row_offers r ev) (rows v)"

text \<open>The events of the edit input, which has the focus while a task is edited.\<close>

fun edit_input_event :: "event \<Rightarrow> bool" where
  "edit_input_event (EditChange i v) = True"
| "edit_input_event (EditKeyDown k i) = True"
| "edit_input_event (EditBlur i) = True"
| "edit_input_event ev = False"

section \<open>Facts about the view\<close>

lemma rows_render [simp]: "rows (render s) = map (render_row s) (tasks s)"
  by (simp add: render_def)

lemma length_rows_render: "length (rows (render s)) = length (tasks s)"
  by simp

lemma total_render [simp]: "total (render s) = length (tasks s)"
  by (simp add: render_def)

lemma empty_notice_render [simp]: "empty_notice (render s) \<longleftrightarrow> tasks s = []"
  by (simp add: render_def)

lemma row_offers_render_row [simp]:
  "row_offers (render_row s t) (EditChange i v) \<longleftrightarrow> editingId s = Some i \<and> task_id t = i"
  "row_offers (render_row s t) (EditKeyDown k i) \<longleftrightarrow> editingId s = Some i \<and> task_id t = i"
  "row_offers (render_row s t) (EditBlur i) \<longleftrightarrow> editingId s = Some i \<and> task_id t = i"
  "row_offers (render_row s t) (TextDoubleClick u) \<longleftrightarrow> editingId s \<noteq> Some (task_id t) \<and> u = t"
  "row_offers (render_row s t) (TextKeyDown k u) \<longleftrightarrow> editingId s \<noteq> Some (task_id t) \<and> u = t"
  "row_offers (render_row s t) (EditClick u) \<longleftrightarrow> editingId s \<noteq> Some (task_id t) \<and> u = t"
  "row_offers (render_row s t) (DeleteClick u) \<longleftrightarrow> editingId s \<noteq> Some (task_id t) \<and> u = t"
  "\<not> row_offers (render_row s t) (InputChange x)"
  "\<not> row_offers (render_row s t) (InputKeyDown k e)"
  "\<not> row_offers (render_row s t) (AddClick e)"
  "\<not> row_offers (render_row s t) ClearClick"
  by (auto simp: render_row_def)

lemma list_ex_rows_render:
  "list_ex (\<lambda>r. row_offers r ev) (rows (render s)) \<longleftrightarrow>
     (\<exists>t \<in> set (tasks s). row_offers (render_row s t) ev)"
  by (simp add: list_ex_iff)

lemma offers_EditChange:
  "offers (render s) (EditChange i v) \<longleftrightarrow> editingId s = Some i \<and> i \<in> set (map task_id (tasks s))"
  by (auto simp: list_ex_rows_render simp del: rows_render)

lemma offers_EditKeyDown:
  "offers (render s) (EditKeyDown k i) \<longleftrightarrow> editingId s = Some i \<and> i \<in> set (map task_id (tasks s))"
  by (auto simp: list_ex_rows_render simp del: rows_render)

lemma offers_EditBlur:
  "offers (render s) (EditBlur i) \<longleftrightarrow> editingId s = Some i \<and> i \<in> set (map task_id (tasks s))"
  by (auto simp: list_ex_rows_render simp del: rows_render)

lemma offers_item:
  "offers (render s) (TextDoubleClick t) \<longleftrightarrow> t \<in> set (tasks s) \<and> editingId s \<noteq> Some (task_id t)"
  "offers (render s) (TextKeyDown k t) \<longleftrightarrow> t \<in> set (tasks s) \<and> editingId s \<noteq> Some (task_id t)"
  "offers (render s) (EditClick t) \<longleftrightarrow> t \<in> set (tasks s) \<and> editingId s \<noteq> Some (task_id t)"
  "offers (render s) (DeleteClick t) \<longleftrightarrow> t \<in> set (tasks s) \<and> editingId s \<noteq> Some (task_id t)"
  by (auto simp: list_ex_rows_render simp del: rows_render)

text \<open>
  From here on \<open>offers\<close> is seen through these characterisations: the equations of
  its definition that scan the rows are no longer simp rules.
\<close>

lemmas offers_render = offers_EditChange offers_EditKeyDown offers_EditBlur offers_item

declare offers.simps [simp del]

lemmas offers_always [simp] = offers.simps(1-4)

declare offers_render [simp]

lemma offers_edit_input_event:
  assumes "offers (render s) ev" and "edit_input_event ev"
  shows "editingId s \<noteq> None \<and> pointer_valid s"
  using assms by (cases ev) (auto simp: pointer_valid_def ids_of_def)

section \<open>The rendered view is well formed\<close>

lemma row_key_render_row [simp]: "row_key (render_row s t) = task_id t"
  by (simp add: render_row_def)

lemma is_edit_render_row [simp]: "is_edit_row (render_row s t) \<longleftrightarrow> editingId s = Some (task_id t)"
  by (simp add: render_row_def)

lemma keys_render: "map row_key (rows (render s)) = ids_of s"
  by (simp add: ids_of_def)

lemma length_edit_rows:
  assumes "ids_distinct s"
  shows "length (filter is_edit_row (rows (render s))) =
     (case editingId s of None \<Rightarrow> 0 | Some i \<Rightarrow> if i \<in> set (ids_of s) then 1 else 0)"
proof (cases "editingId s")
  case None
  then show ?thesis by (simp add: filter_map comp_def)
next
  case (Some i)
  then have "filter (\<lambda>t. editingId s = Some (task_id t)) (tasks s) =
      filter (\<lambda>t. task_id t = i) (tasks s)"
    by (auto intro: filter_cong)
  with assms Some show ?thesis
    by (simp add: filter_map comp_def length_filter_key ids_distinct_def ids_of_def)
qed

text \<open>
  C28. The view rendered from a state with distinct identifiers is well formed: the
  total shown is the number of rows, the notice for an empty list is shown exactly when
  there is no row, the React keys of the rows are the identifiers of the tasks in list
  order and are distinct, and at most one row is an edit input; exactly one is when a
  task is being edited and is in the list.
\<close>

theorem render_view_ok:
  assumes "ids_distinct s"
  shows "view_ok (render s)
       \<and> map row_key (rows (render s)) = ids_of s
       \<and> (length (filter is_edit_row (rows (render s))) = 1 \<longleftrightarrow>
            editingId s \<noteq> None \<and> pointer_valid s)"
proof -
  note n = length_edit_rows [OF assms]
  have "length (filter is_edit_row (rows (render s))) \<le> 1"
    unfolding n by (simp split: option.splits)
  moreover have "distinct (map row_key (rows (render s)))"
    using assms by (simp only: keys_render ids_distinct_def)
  ultimately have "view_ok (render s)" by (simp add: view_ok_def)
  moreover have "length (filter is_edit_row (rows (render s))) = 1 \<longleftrightarrow>
      editingId s \<noteq> None \<and> pointer_valid s"
    unfolding n by (simp add: pointer_valid_def split: option.splits)
  ultimately show ?thesis by (simp only: keys_render simp_thms)
qed

theorem render_view_ok_witness:
  "ids_distinct editing_a \<and> view_ok (render editing_a)
   \<and> rows (render editing_a) = [EditRow (task_id task_a) (of_ascii ''Buy oat milk '')]"
  using render_view_ok [of editing_a]
  by (simp add: render_row_def ids_distinct_def ids_of_def)

end
