(* ===== verification/Machine.thy ===== *)
theory Machine
  imports View
begin

text \<open>
  The component as a state machine. An event of the view runs its handler on the
  rendered state and React commits the setter calls (\<open>step\<close>); a sequence of events is
  a \<open>run\<close>. \<open>enabled\<close> says that the view rendered from a state offers an event, and
  \<open>reachable s0\<close> is the set of states the user can reach from \<open>s0\<close> through offered
  events. The theorems are the invariants of this machine: which properties of the
  state every step keeps, and what each of them needs from the events.
\<close>

section \<open>Steps and runs\<close>

text \<open>The handler the JSX attaches to each event.\<close>

fun handle :: "state \<Rightarrow> event \<Rightarrow> action list" where
  "handle s (InputChange v) = input_onChange v"
| "handle s (InputKeyDown k e) = onInputKeyDown k e s"
| "handle s (AddClick e) = addTask e s"
| "handle s ClearClick = clear_onClick"
| "handle s (EditChange i v) = edit_onChange v"
| "handle s (EditKeyDown k i) = onEditKeyDown k i s"
| "handle s (EditBlur i) = saveEdit s i"
| "handle s (TextDoubleClick t) = startEdit t"
| "handle s (TextKeyDown k t) = text_onKeyDown k t"
| "handle s (EditClick t) = startEdit t"
| "handle s (DeleteClick t) = deleteTask (task_id t)"

definition step :: "state \<Rightarrow> event \<Rightarrow> state" where
  "step s ev = commit s (handle s ev)"

fun run :: "state \<Rightarrow> event list \<Rightarrow> state" where
  "run s [] = s"
| "run s (ev # evs) = run (step s ev) evs"

section \<open>Which events can happen\<close>

text \<open>
  \<open>enabled\<close>: the event is offered by the view rendered from the state.
  \<open>focused\<close>: in addition, while a task is being edited the event is one of the edit
  input. This is the order of events in a browser: the edit input takes the focus when
  it appears, and a click or key press on any other element is preceded by the blur of
  the edit input, whose handler ends the edit.
  \<open>adds_fresh\<close>: if the event adds a task, the generated identifier is not in the list.
\<close>

definition enabled :: "state \<Rightarrow> event \<Rightarrow> bool" where
  "enabled s ev \<longleftrightarrow> offers (render s) ev"

definition focused :: "state \<Rightarrow> event \<Rightarrow> bool" where
  "focused s ev \<longleftrightarrow> enabled s ev \<and> (editingId s = None \<or> edit_input_event ev)"

fun adds_fresh :: "state \<Rightarrow> event \<Rightarrow> bool" where
  "adds_fresh s (AddClick e) = (trim (input s) = [] \<or> fresh_for e s)"
| "adds_fresh s (InputKeyDown k e) =
     (k \<noteq> of_ascii ''Enter'' \<or> trim (input s) = [] \<or> fresh_for e s)"
| "adds_fresh s ev = True"

text \<open>A run all of whose events satisfy a guard in the state they happen in.\<close>

fun trace_ok :: "(state \<Rightarrow> event \<Rightarrow> bool) \<Rightarrow> state \<Rightarrow> event list \<Rightarrow> bool" where
  "trace_ok g s [] = True"
| "trace_ok g s (ev # evs) = (g s ev \<and> trace_ok g (step s ev) evs)"

inductive reachable :: "state \<Rightarrow> state \<Rightarrow> bool" for s0 :: state where
  start: "reachable s0 s0"
| after: "reachable s0 s \<Longrightarrow> enabled s ev \<Longrightarrow> reachable s0 (step s ev)"

section \<open>Example runs\<close>

text \<open>Typing a text and adding it; then editing the task that was added.\<close>

definition milk_events :: "event list" where
  "milk_events = [InputChange (of_ascii ''  Buy milk ''), AddClick env_a]"

definition edit_events :: "event list" where
  "edit_events =
     [EditClick task_a, EditChange (task_id task_a) (of_ascii ''Buy oat milk ''),
      EditKeyDown (of_ascii ''Enter'') (task_id task_a)]"

text \<open>
  An addition with a blank input, and the scenario of the specification: add a task,
  try to add a blank one, edit the task, delete it.
\<close>

definition blank_events :: "event list" where
  "blank_events = [InputChange (of_ascii ''  ''), AddClick env_b]"

definition cycle_events :: "event list" where
  "cycle_events =
     milk_events @ blank_events @ edit_events
       @ [DeleteClick (task_a\<lparr>task_text := of_ascii ''Buy oat milk''\<rparr>)]"

section \<open>The state after each event\<close>

lemma step_simps [simp]:
  "step s (InputChange v) = commit s (input_onChange v)"
  "step s (InputKeyDown k e) = (if k = of_ascii ''Enter'' then commit s (addTask e s) else s)"
  "step s (AddClick e) = commit s (addTask e s)"
  "step s ClearClick = commit s clear_onClick"
  "step s (EditChange i v) = commit s (edit_onChange v)"
  "step s (EditKeyDown k i) =
     (if k = of_ascii ''Enter'' then commit s (saveEdit s i)
      else if k = of_ascii ''Escape'' then s\<lparr>editingId := None, editingText := []\<rparr>
      else s)"
  "step s (EditBlur i) = commit s (saveEdit s i)"
  "step s (TextDoubleClick t) = commit s (startEdit t)"
  "step s (TextKeyDown k t) = (if k = of_ascii ''Enter'' then commit s (startEdit t) else s)"
  "step s (EditClick t) = commit s (startEdit t)"
  "step s (DeleteClick t) = commit s (deleteTask (task_id t))"
  by (simp_all add: step_def)

lemma run_append: "run s (evs @ evs') = run (run s evs) evs'"
  by (induction evs arbitrary: s) simp_all

lemma run_snoc: "run s (evs @ [ev]) = step (run s evs) ev"
  by (simp add: run_append)

lemma trace_ok_append:
  "trace_ok g s (evs @ evs') \<longleftrightarrow> trace_ok g s evs \<and> trace_ok g (run s evs) evs'"
  by (induction evs arbitrary: s) simp_all

section \<open>Reachable states are the ends of enabled runs\<close>

lemma reachable_run: "trace_ok enabled s0 evs \<Longrightarrow> reachable s0 (run s0 evs)"
proof (induction evs rule: rev_induct)
  case Nil
  show ?case by (simp add: reachable.start)
next
  case (snoc ev evs)
  then have "reachable s0 (run s0 evs)" and "enabled (run s0 evs) ev"
    by (simp_all add: trace_ok_append)
  then show ?case by (simp add: run_snoc reachable.after)
qed

lemma reachable_trace: "reachable s0 s \<Longrightarrow> \<exists>evs. trace_ok enabled s0 evs \<and> s = run s0 evs"
proof (induction rule: reachable.induct)
  case start
  have "trace_ok enabled s0 [] \<and> s0 = run s0 []" by simp
  then show ?case by blast
next
  case (after s ev)
  then obtain evs where "trace_ok enabled s0 evs" and "s = run s0 evs" by blast
  then have "trace_ok enabled s0 (evs @ [ev]) \<and> step s ev = run s0 (evs @ [ev])"
    using after.hyps(2) by (simp add: trace_ok_append run_snoc)
  then show ?case by blast
qed

section \<open>What one step keeps\<close>

lemma step_texts_ok: "texts_ok s \<Longrightarrow> texts_ok (step s ev)"
  by (cases ev) (simp_all add: keeps)

lemma step_ids_distinct: "ids_distinct s \<Longrightarrow> adds_fresh s ev \<Longrightarrow> ids_distinct (step s ev)"
  by (cases ev) (auto simp: keeps)

lemma step_buffer_idle: "buffer_idle s \<Longrightarrow> enabled s ev \<Longrightarrow> buffer_idle (step s ev)"
  by (cases ev) (auto simp: keeps enabled_def)

lemma step_pointer_valid: "pointer_valid s \<Longrightarrow> focused s ev \<Longrightarrow> pointer_valid (step s ev)"
  by (cases ev) (auto simp: keeps focused_def enabled_def)

lemma trace_inv:
  assumes keep: "\<And>s ev. P s \<Longrightarrow> g s ev \<Longrightarrow> P (step s ev)"
    and "P s" and "trace_ok g s evs"
  shows "P (run s evs)"
  using assms(2,3) by (induction evs arbitrary: s) (auto intro: keep)

lemma step_typing_milk [simp]: "step init_state (InputChange (of_ascii ''  Buy milk '')) = typed_milk"
  by (simp add: commit_handler typed_milk_def)

lemma step_adding_milk [simp]: "step typed_milk (AddClick env_a) = one_task"
  by (rule state_eqI) (simp_all add: commit_handler task_a_def)

lemma run_milk_events [simp]: "run init_state milk_events = one_task"
  by (simp add: milk_events_def del: step_simps)

lemma trace_milk_events [simp]: "trace_ok g init_state milk_events \<longleftrightarrow>
    g init_state (InputChange (of_ascii ''  Buy milk '')) \<and> g typed_milk (AddClick env_a)"
  by (simp add: milk_events_def del: step_simps)

lemma run_edit_events [simp]:
  "run one_task edit_events = one_task\<lparr>tasks := [task_a\<lparr>task_text := of_ascii ''Buy oat milk''\<rparr>]\<rparr>"
  by (rule state_eqI) (simp_all add: edit_events_def commit_handler)

section \<open>Invariants of the machine\<close>

text \<open>
  C1. No task ever holds an empty or untrimmed text: if every task of the starting
  state has a non-empty text without white space at its ends (as in the initial, empty
  list), so has every task of every state reachable through events of the view.
\<close>

theorem reachable_texts_ok:
  assumes "texts_ok s0" and "reachable s0 s"
  shows "texts_ok s"
  using assms(2,1) by (induction rule: reachable.induct) (simp_all add: step_texts_ok)

theorem reachable_texts_ok_witness:
  "texts_ok init_state \<and> reachable init_state (run init_state (milk_events @ edit_events))
   \<and> texts_ok (one_task\<lparr>tasks := [task_a\<lparr>task_text := of_ascii ''Buy oat milk''\<rparr>]\<rparr>)"
proof -
  have "trace_ok enabled init_state (milk_events @ edit_events)"
    by (simp add: trace_ok_append enabled_def edit_events_def commit_handler)
  then have r: "reachable init_state (run init_state (milk_events @ edit_events))"
    by (rule reachable_run)
  from reachable_texts_ok [OF _ r] r show ?thesis by (simp add: run_append)
qed

text \<open>
  C13. Identifiers stay distinct along every run in which each addition generates an
  identifier that is not yet in the list. Deleting, editing, cancelling and clearing
  never create a duplicate; only an addition can, and only by repeating an identifier.
\<close>

theorem run_ids_distinct:
  assumes "ids_distinct s" and "trace_ok adds_fresh s evs"
  shows "ids_distinct (run s evs)"
  by (rule trace_inv [where P = ids_distinct and g = adds_fresh, OF step_ids_distinct assms])

theorem run_ids_distinct_witness:
  "ids_distinct init_state \<and> trace_ok adds_fresh init_state milk_events
   \<and> ids_distinct one_task"
  using run_ids_distinct [of init_state milk_events]
  by (simp add: fresh_for_def ids_of_def)

text \<open>
  C35. While no task is being edited the edit buffer is empty, in every state reachable
  through events of the view from a state where this holds. The buffer is only written
  by the edit input, and the view shows an edit input only for the task being edited.
\<close>

theorem reachable_buffer_idle:
  assumes "buffer_idle s0" and "reachable s0 s"
  shows "buffer_idle s"
  using assms(2,1) by (induction rule: reachable.induct) (simp_all add: step_buffer_idle)

theorem reachable_buffer_idle_witness:
  "buffer_idle init_state \<and> reachable init_state (run init_state milk_events)
   \<and> buffer_idle one_task"
proof -
  have r: "reachable init_state (run init_state milk_events)"
    by (rule reachable_run) (simp add: enabled_def)
  from reachable_buffer_idle [OF _ r] r show ?thesis by simp
qed

text \<open>
  C31. The editing pointer always names a task of the list, along every run that
  follows the focus order of a browser (while a task is edited, only events of the
  edit input happen; any other event comes after the blur that ends the edit).
\<close>

theorem run_pointer_valid:
  assumes "pointer_valid s" and "trace_ok focused s evs"
  shows "pointer_valid (run s evs)"
  by (rule trace_inv [where P = pointer_valid and g = focused, OF step_pointer_valid assms])

theorem run_pointer_valid_witness:
  "pointer_valid one_task \<and> trace_ok focused one_task edit_events
   \<and> pointer_valid (run one_task edit_events)"
proof -
  have t: "trace_ok focused one_task edit_events"
    by (simp add: edit_events_def focused_def enabled_def commit_handler)
  have p: "pointer_valid one_task"
    by (simp add: pointer_valid_def)
  from run_pointer_valid [OF p t] p t show ?thesis by simp
qed

text \<open>
  C32. Without that order the pointer can dangle: the clear button is offered in
  every state, its handler empties the list and does not touch the editing cells, so
  clearing while a task is being edited leaves a pointer to a task that no longer
  exists. The specification's \<open>clear\<close> resets the pointer; the handler does not.
\<close>

theorem clear_while_editing_dangles:
  assumes "editingId s \<noteq> None"
  shows "enabled s ClearClick \<and> tasks (step s ClearClick) = []
       \<and> editingId (step s ClearClick) = editingId s
       \<and> editingText (step s ClearClick) = editingText s
       \<and> \<not> pointer_valid (step s ClearClick)"
  using assms by (auto simp: enabled_def pointer_valid_def ids_of_def)

theorem clear_while_editing_dangles_witness:
  "editingId editing_a \<noteq> None \<and> enabled editing_a ClearClick
   \<and> editingId (step editing_a ClearClick) = Some (task_id task_a)
   \<and> tasks (step editing_a ClearClick) = []"
  using clear_while_editing_dangles [of editing_a]
  by simp

section \<open>The user can always start over\<close>

lemma Escape_neq_Enter [simp]: "of_ascii ''Escape'' \<noteq> of_ascii ''Enter''"
  using Enter_neq_Escape by (rule not_sym)

text \<open>
  C30. From every state in which the editing pointer is valid and an idle buffer is
  empty (every state the user can reach in focus order), at most two events lead to
  the empty list with no edit in progress: Escape in the edit input if a task is being
  edited, then the clear button. Both are offered and respect the focus order.
\<close>

theorem can_always_reset:
  assumes "pointer_valid s" and "buffer_idle s"
  shows "\<exists>evs. length evs \<le> 2 \<and> trace_ok focused s evs
           \<and> run s evs = s\<lparr>tasks := [], editingId := None, editingText := []\<rparr>"
proof (cases "editingId s")
  case None
  with assms(2) have "trace_ok focused s [ClearClick]"
    and "run s [ClearClick] = s\<lparr>tasks := [], editingId := None, editingText := []\<rparr>"
    by (simp_all add: focused_def enabled_def commit_handler buffer_idle_def)
  then show ?thesis by (intro exI [of _ "[ClearClick]"]) simp
next
  case (Some i)
  with assms(1) have "trace_ok focused s [EditKeyDown (of_ascii ''Escape'') i, ClearClick]"
    and "run s [EditKeyDown (of_ascii ''Escape'') i, ClearClick] =
      s\<lparr>tasks := [], editingId := None, editingText := []\<rparr>"
    by (simp_all add: focused_def enabled_def commit_handler pointer_valid_def ids_of_def)
  then show ?thesis by (intro exI [of _ "[EditKeyDown (of_ascii ''Escape'') i, ClearClick]"]) simp
qed

theorem can_always_reset_witness:
  "pointer_valid editing_a \<and> buffer_idle editing_a
   \<and> (\<exists>evs. length evs \<le> 2 \<and> trace_ok focused editing_a evs \<and> run editing_a evs = init_state)"
proof -
  have "editing_a\<lparr>tasks := [], editingId := None, editingText := []\<rparr> = init_state"
    by (rule state_eqI) simp_all
  with can_always_reset [of editing_a] show ?thesis
    by (simp add: pointer_valid_def ids_of_def buffer_idle_def)
qed

end
