(* ===== verification/Jsx.thy ===== *)
theory Jsx
  imports Machine
begin

text \<open>
  The JSX returned by \<open>TodoAppExecutable\<close> (\<open>src/todo_app_minimal.jsx\<close>, lines 88 to
  152) as the tree of elements it evaluates to, with every attribute, text and handler
  binding of the source, and the \<open>styles\<close> object of lines 154 to 179. Theory \<open>View\<close>
  is the abstraction of this tree the state machine works with; the theorems here
  connect the two: the events the view offers are the events of the handlers bound in
  the tree, and the keys, the total and the input value of the view are those of the
  tree. The tree is also checked against the \<open>styles\<close> object and for the keyboard
  support the source announces in its opening comment.
\<close>

section \<open>The styles object\<close>

text \<open>A value of a style property: a number or a string.\<close>

datatype style_value = SNum int | SStr string

definition styles :: "(string \<times> (string \<times> style_value) list) list" where
  "styles =
     [(''container'',
        [(''fontFamily'', SStr ''Arial, Helvetica, sans-serif''), (''padding'', SNum 20),
         (''maxWidth'', SNum 620), (''margin'', SStr ''8px auto''),
         (''border'', SStr ''1px solid #ddd''), (''borderRadius'', SNum 6),
         (''background'', SStr ''#fff'')]),
      (''title'', [(''margin'', SStr ''0 0 8px 0''), (''fontSize'', SNum 18)]),
      (''inputRow'', [(''display'', SStr ''flex''), (''gap'', SNum 8), (''marginBottom'', SNum 10)]),
      (''input'',
        [(''flex'', SNum 1), (''padding'', SStr ''8px 10px''), (''fontSize'', SNum 14),
         (''border'', SStr ''1px solid #ccc'')]),
      (''addButton'', [(''padding'', SStr ''8px 12px''), (''cursor'', SStr ''pointer'')]),
      (''metaRow'',
        [(''display'', SStr ''flex''), (''justifyContent'', SStr ''space-between''),
         (''marginBottom'', SNum 10), (''fontSize'', SNum 13), (''color'', SStr ''#444'')]),
      (''clearButton'',
        [(''padding'', SStr ''4px 8px''), (''fontSize'', SNum 12), (''cursor'', SStr ''pointer'')]),
      (''list'', [(''listStyle'', SStr ''none''), (''padding'', SNum 0), (''margin'', SNum 0)]),
      (''listItem'',
        [(''padding'', SStr ''8px 6px''), (''borderTop'', SStr ''1px solid #f0f0f0''),
         (''display'', SStr ''flex''), (''alignItems'', SStr ''center'')]),
      (''empty'', [(''padding'', SNum 12), (''color'', SStr ''#666'')]),
      (''itemRow'',
        [(''display'', SStr ''flex''), (''justifyContent'', SStr ''space-between''),
         (''alignItems'', SStr ''center''), (''width'', SStr ''100%'')]),
      (''taskText'', [(''outline'', SStr ''none''), (''cursor'', SStr ''text'')]),
      (''itemButtons'', [(''display'', SStr ''flex''), (''gap'', SNum 6)]),
      (''smallButton'', [(''padding'', SStr ''4px 6px''), (''cursor'', SStr ''pointer'')]),
      (''editInput'',
        [(''flex'', SNum 1), (''padding'', SStr ''6px 8px''), (''fontSize'', SNum 14),
         (''width'', SStr ''100%'')]),
      (''footer'', [(''marginTop'', SNum 10), (''fontSize'', SNum 11), (''color'', SStr ''#999'')])]"

section \<open>Elements\<close>

text \<open>
  A handler attribute of the JSX with what its closure captures: the handlers of a row
  capture the task of the row or its identifier. \<open>attribute\<close> is the name of the
  attribute. \<open>source ev\<close> is the binding whose handler receives the event \<open>ev\<close>: an
  event is a binding together with what the browser supplies (the value typed, the key
  pressed, the readings taken while the handler runs), and \<open>fires b ev\<close> says that
  \<open>ev\<close> is an event of \<open>b\<close>.
\<close>

datatype binding =
    OnInputChange
  | OnInputKeyDown
  | OnAddClick
  | OnClearClick
  | OnEditChange jsstring
  | OnEditKeyDown jsstring
  | OnEditBlur jsstring
  | OnTextDoubleClick task
  | OnTextKeyDown task
  | OnEditClick task
  | OnDeleteClick task

fun attribute :: "binding \<Rightarrow> string" where
  "attribute OnInputChange = ''onChange''"
| "attribute OnInputKeyDown = ''onKeyDown''"
| "attribute OnAddClick = ''onClick''"
| "attribute OnClearClick = ''onClick''"
| "attribute (OnEditChange i) = ''onChange''"
| "attribute (OnEditKeyDown i) = ''onKeyDown''"
| "attribute (OnEditBlur i) = ''onBlur''"
| "attribute (OnTextDoubleClick t) = ''onDoubleClick''"
| "attribute (OnTextKeyDown t) = ''onKeyDown''"
| "attribute (OnEditClick t) = ''onClick''"
| "attribute (OnDeleteClick t) = ''onClick''"

fun source :: "event \<Rightarrow> binding" where
  "source (InputChange v) = OnInputChange"
| "source (InputKeyDown k e) = OnInputKeyDown"
| "source (AddClick e) = OnAddClick"
| "source ClearClick = OnClearClick"
| "source (EditChange i v) = OnEditChange i"
| "source (EditKeyDown k i) = OnEditKeyDown i"
| "source (EditBlur i) = OnEditBlur i"
| "source (TextDoubleClick t) = OnTextDoubleClick t"
| "source (TextKeyDown k t) = OnTextKeyDown t"
| "source (EditClick t) = OnEditClick t"
| "source (DeleteClick t) = OnDeleteClick t"

definition fires :: "binding \<Rightarrow> event \<Rightarrow> bool" where
  "fires b ev \<longleftrightarrow> source ev = b"

text \<open>
  The attributes of an element: \<open>style={styles.n}\<close> is \<open>Style n\<close>, \<open>ref={inputRef}\<close> is
  \<open>Ref\<close>, a string attribute is \<open>Str\<close> with its name. An element has a tag, its
  attributes in source order and its children; a child is an element, a text or a
  number (\<open>{tasks.length}\<close>).
\<close>

datatype attrib =
    Style string
  | Ref
  | Key jsstring
  | Str string jsstring
  | TabIndex int
  | AutoFocus
  | On binding

datatype element =
    Element string "attrib list" "element list"
  | Text jsstring
  | Number nat

section \<open>The JSX\<close>

text \<open>The edit input of a row (lines 116 to 124).\<close>

definition edit_input :: "state \<Rightarrow> task \<Rightarrow> element" where
  "edit_input s t =
     Element ''input''
       [Str ''value'' (editingText s), On (OnEditChange (task_id t)),
        On (OnEditKeyDown (task_id t)), On (OnEditBlur (task_id t)), AutoFocus,
        Style ''editInput'',
        Str ''aria-label'' ([0xC9] @ of_ascii ''diter t'' @ [0xE2] @ of_ascii ''che '' @ task_text t)]
       []"

text \<open>The text of a task with its two buttons (lines 126 to 140).\<close>

definition item_row :: "task \<Rightarrow> element" where
  "item_row t =
     Element ''div'' [Style ''itemRow'']
       [Element ''span''
          [On (OnTextDoubleClick t), TabIndex 0, On (OnTextKeyDown t), Style ''taskText'',
           Str ''title'' (of_ascii ''Double-cliquer ou appuyer Entr'' @ [0xE9]
                         @ of_ascii ''e pour '' @ [0xE9] @ of_ascii ''diter'')]
          [Text (task_text t)],
        Element ''div'' [Style ''itemButtons'']
          [Element ''button''
             [On (OnEditClick t), Style ''smallButton'',
              Str ''aria-label'' ([0xC9] @ of_ascii ''diter '' @ task_text t)]
             [Text [0x270F, 0xFE0F]],
           Element ''button''
             [On (OnDeleteClick t), Style ''smallButton'',
              Str ''aria-label'' (of_ascii ''Supprimer '' @ task_text t)]
             [Text [0xD83D, 0xDDD1, 0xFE0F]]]]"

text \<open>
  One list item per task (lines 114 to 142). In the list, \<open>tasks.length === 0 && ...\<close>
  evaluates to \<open>false\<close> when there is a task, which React renders as nothing.
\<close>

definition list_item :: "state \<Rightarrow> task \<Rightarrow> element" where
  "list_item s t =
     Element ''li'' [Key (task_id t), Style ''listItem'']
       [if editingId s = Some (task_id t) then edit_input s t else item_row t]"

definition jsx :: "state \<Rightarrow> element" where
  "jsx s =
     Element ''div'' [Style ''container'']
       [Element ''h1'' [Style ''title''] [Text (of_ascii ''To-Do Minimal'')],
        Element ''div'' [Style ''inputRow'']
          [Element ''input''
             [Ref, Str ''aria-label'' (of_ascii ''Nouvelle t'' @ [0xE2] @ of_ascii ''che''),
              Str ''placeholder'' (of_ascii ''Ajouter une t'' @ [0xE2] @ of_ascii ''che...''),
              Str ''value'' (input s), On OnInputChange, On OnInputKeyDown, Style ''input'']
             [],
           Element ''button''
             [On OnAddClick, Style ''addButton'',
              Str ''aria-label'' (of_ascii ''Ajouter t'' @ [0xE2] @ of_ascii ''che'')]
             [Text (of_ascii ''Ajouter'')]],
        Element ''div'' [Style ''metaRow'']
          [Element ''div'' [] [Text (of_ascii ''Total: ''), Number (length (tasks s))],
           Element ''div'' []
             [Element ''button''
                [On OnClearClick, Style ''clearButton'', Str ''title'' (of_ascii ''Vider la liste'')]
                [Text (of_ascii ''Vider'')]]],
        Element ''ul'' [Style ''list'']
          (map (list_item s) (tasks s)
           @ (if length (tasks s) = 0 then
                [Element ''li'' [Style ''empty'']
                   [Text (of_ascii ''Aucune t'' @ [0xE2] @ of_ascii ''che '' @ [0xD83D, 0xDCA1]
                          @ of_ascii '' ajoute la premi'' @ [0xE8] @ of_ascii ''re !'')]]
              else [])),
        Element ''footer'' [Style ''footer'']
          [Text (of_ascii ''Version minimale '' @ [0x26A1]
                 @ of_ascii '' stockage local (localStorage)'')]]"

section \<open>Reading a tree\<close>

text \<open>All nodes of a tree, in document order.\<close>

primrec nodes :: "element \<Rightarrow> element list"
  and nodes_list :: "element list \<Rightarrow> element list"
where
  "nodes (Element tag ps cs) = Element tag ps cs # nodes_list cs"
| "nodes (Text v) = [Text v]"
| "nodes (Number n) = [Number n]"
| "nodes_list [] = []"
| "nodes_list (c # cs) = nodes c @ nodes_list cs"

fun tag_of :: "element \<Rightarrow> string" where
  "tag_of (Element tag ps cs) = tag"
| "tag_of e = []"

fun attribs_of :: "element \<Rightarrow> attrib list" where
  "attribs_of (Element tag ps cs) = ps"
| "attribs_of e = []"

text \<open>
  What a single node carries: the names of its styles, the handlers it binds, its React
  key, and the values of a string attribute.
\<close>

definition style_names :: "element \<Rightarrow> string list" where
  "style_names x = [n. Style n \<leftarrow> attribs_of x]"

definition binds :: "element \<Rightarrow> binding list" where
  "binds x = [b. On b \<leftarrow> attribs_of x]"

definition node_keys :: "element \<Rightarrow> jsstring list" where
  "node_keys x = [k. Key k \<leftarrow> attribs_of x]"

definition string_attr :: "string \<Rightarrow> element \<Rightarrow> jsstring list" where
  "string_attr a x = [v. Str b v \<leftarrow> attribs_of x, b = a]"

text \<open>The same for a whole tree, in document order.\<close>

definition gather :: "(element \<Rightarrow> 'a list) \<Rightarrow> element \<Rightarrow> 'a list" where
  "gather f e = concat (map f (nodes e))"

definition styles_used :: "element \<Rightarrow> string list" where
  "styles_used = gather style_names"

definition bindings_of :: "element \<Rightarrow> binding list" where
  "bindings_of = gather binds"

definition keys_of :: "element \<Rightarrow> jsstring list" where
  "keys_of = gather node_keys"

fun number_at :: "element \<Rightarrow> nat list" where
  "number_at (Number n) = [n]"
| "number_at x = []"

definition numbers_of :: "element \<Rightarrow> nat list" where
  "numbers_of = gather number_at"

definition ref_values :: "element \<Rightarrow> jsstring list" where
  "ref_values = gather (\<lambda>x. if Ref \<in> set (attribs_of x) then string_attr ''value'' x else [])"

section \<open>From the tree to the view\<close>

text \<open>
  The view of theory \<open>View\<close> read off a tree. A node with a key is a row: an edit row
  when the first handler bound below it is the change handler of an edit input, with
  the value that input shows; an item row for the task its handlers capture otherwise.
  The input value is the value of the element that carries the \<open>ref\<close>, the total is
  the number shown, and the notice for the empty list is the element styled \<open>empty\<close>.
\<close>

fun first_or :: "'a \<Rightarrow> 'a list \<Rightarrow> 'a" where
  "first_or d [] = d"
| "first_or d (x # xs) = x"

definition row_at :: "element \<Rightarrow> row list" where
  "row_at x =
     (if node_keys x = [] then []
      else case bindings_of x of
        OnEditChange i # bs \<Rightarrow> [EditRow i (first_or [] (gather (string_attr ''value'') x))]
      | OnTextDoubleClick t # bs \<Rightarrow> [ItemRow t]
      | _ \<Rightarrow> [])"

definition view_of :: "element \<Rightarrow> view" where
  "view_of e =
     \<lparr>input_value = first_or [] (ref_values e),
      total = first_or 0 (numbers_of e),
      rows = gather row_at e,
      empty_notice = (''empty'' \<in> set (styles_used e))\<rparr>"

section \<open>Keyboard support and names\<close>

text \<open>
  A node that binds a handler can be reached and operated from the keyboard when it is
  an input or a button, or when it has a tab index and handles key presses itself. It
  has a name for assistive technology when it carries a label or a title. A node is
  styled when the \<open>styles\<close> object defines every style it refers to.
\<close>

definition focusable :: "element \<Rightarrow> bool" where
  "focusable x \<longleftrightarrow>
     tag_of x = ''input'' \<or> tag_of x = ''button''
     \<or> list_ex (\<lambda>p. case p of TabIndex n \<Rightarrow> 0 \<le> n | _ \<Rightarrow> False) (attribs_of x)"

definition labelled :: "element \<Rightarrow> bool" where
  "labelled x \<longleftrightarrow> list_ex (\<lambda>v. v \<noteq> []) (string_attr ''aria-label'' x @ string_attr ''title'' x)"

definition operable :: "element \<Rightarrow> bool" where
  "operable x \<longleftrightarrow>
     (binds x \<noteq> [] \<longrightarrow>
        focusable x \<and> labelled x
        \<and> (tag_of x = ''input'' \<or> tag_of x = ''button''
            \<or> ''onKeyDown'' \<in> set (map attribute (binds x))))"

definition styled :: "element \<Rightarrow> bool" where
  "styled x \<longleftrightarrow> list_all (\<lambda>n. map_of styles n \<noteq> None) (style_names x)"

definition node_ok :: "element \<Rightarrow> bool" where
  "node_ok x \<longleftrightarrow> styled x \<and> operable x"

section \<open>Example\<close>

text \<open>A state with two tasks, the first of which is being edited.\<close>

definition two_rows :: state where
  "two_rows =
     \<lparr>tasks = [\<lparr>task_id = of_ascii ''a'', task_text = of_ascii ''X'', created_at = []\<rparr>,
               \<lparr>task_id = of_ascii ''b'', task_text = of_ascii ''Y'', created_at = []\<rparr>],
      input = [], editingId = Some (of_ascii ''a''), editingText = of_ascii ''X''\<rparr>"

section \<open>Nodes of a tree\<close>

lemma nodes_list_concat: "nodes_list cs = concat (map nodes cs)"
  by (induction cs) simp_all

lemma nodes_list_append [simp]: "nodes_list (xs @ ys) = nodes_list xs @ nodes_list ys"
  by (induction xs) simp_all

lemma nodes_list_map: "nodes_list (map f ts) = concat (map (\<lambda>t. nodes (f t)) ts)"
  by (induction ts) simp_all

lemma gather_nodes_list: "concat (map f (nodes_list cs)) = concat (map (gather f) cs)"
  by (induction cs) (simp_all add: gather_def)

lemma gather_simps [simp]:
  "gather f (Element tag ps cs) = f (Element tag ps cs) @ concat (map (gather f) cs)"
  "gather f (Text v) = f (Text v)"
  "gather f (Number n) = f (Number n)"
  by (simp_all add: gather_def gather_nodes_list)

lemmas reader_defs =
  styles_used_def bindings_of_def keys_of_def ref_values_def numbers_of_def style_names_def
  binds_def node_keys_def string_attr_def

lemmas jsx_defs = jsx_def list_item_def edit_input_def item_row_def

section \<open>What the JSX binds, shows and refers to\<close>

lemma bindings_list_item:
  "bindings_of (list_item s t) =
     (if editingId s = Some (task_id t)
      then [OnEditChange (task_id t), OnEditKeyDown (task_id t), OnEditBlur (task_id t)]
      else [OnTextDoubleClick t, OnTextKeyDown t, OnEditClick t, OnDeleteClick t])"
  by (simp add: reader_defs jsx_defs)

lemma bindings_jsx:
  "bindings_of (jsx s) =
     [OnInputChange, OnInputKeyDown, OnAddClick, OnClearClick]
     @ concat (map (\<lambda>t. bindings_of (list_item s t)) (tasks s))"
  by (simp add: jsx_def bindings_of_def binds_def comp_def)

lemma keys_list_item: "keys_of (list_item s t) = [task_id t]"
  by (simp add: reader_defs jsx_defs)

lemma keys_jsx: "keys_of (jsx s) = map task_id (tasks s)"
  using keys_list_item by (simp add: jsx_def keys_of_def node_keys_def comp_def)


lemma styles_list_item:
  "styles_used (list_item s t) =
     (if editingId s = Some (task_id t) then [''listItem'', ''editInput'']
      else [''listItem'', ''itemRow'', ''taskText'', ''itemButtons'', ''smallButton'', ''smallButton''])"
  by (simp add: reader_defs jsx_defs)

lemma styles_jsx:
  "styles_used (jsx s) =
     [''container'', ''title'', ''inputRow'', ''input'', ''addButton'', ''metaRow'', ''clearButton'',
      ''list'']
     @ concat (map (\<lambda>t. styles_used (list_item s t)) (tasks s))
     @ (if tasks s = [] then [''empty''] else []) @ [''footer'']"
  by (simp add: jsx_def styles_used_def style_names_def comp_def)

lemma rows_list_item: "gather row_at (list_item s t) = [render_row s t]"
  by (simp add: row_at_def render_row_def reader_defs jsx_defs)

lemma rows_jsx: "gather row_at (jsx s) = map (render_row s) (tasks s)"
  using rows_list_item by (simp add: jsx_def row_at_def reader_defs comp_def)

lemma numbers_jsx: "numbers_of (jsx s) = [length (tasks s)]"
  by (simp add: reader_defs jsx_defs comp_def)

lemma ref_values_jsx: "ref_values (jsx s) = [input s]"
  by (simp add: reader_defs jsx_defs comp_def)

lemma view_of_jsx: "view_of (jsx s) = render s"
  by (simp add: view_of_def render_def rows_jsx numbers_jsx ref_values_jsx styles_jsx
      styles_list_item)

section \<open>The events of the bound handlers\<close>

lemma fires_list_item:
  "list_ex (\<lambda>b. fires b ev) (bindings_of (list_item s t)) \<longleftrightarrow> row_offers (render_row s t) ev"
  by (cases ev) (auto simp: bindings_list_item fires_def render_row_def)

lemma fires_rows:
  "list_ex (\<lambda>b. fires b ev) (concat (map (\<lambda>t. bindings_of (list_item s t)) (tasks s))) \<longleftrightarrow>
     list_ex (\<lambda>r. row_offers r ev) (rows (render s))"
  by (simp add: list_ex_concat_map fires_list_item) (simp add: list_ex_iff)

lemma fires_jsx: "list_ex (\<lambda>b. fires b ev) (bindings_of (jsx s)) \<longleftrightarrow> offers (render s) ev"
  unfolding bindings_jsx list_ex_append fires_rows
  by (cases ev) (simp_all add: offers.simps fires_def del: offers_render rows_render)


section \<open>Every node is styled and operable\<close>

lemma styles_names:
  "map fst styles =
     [''container'', ''title'', ''inputRow'', ''input'', ''addButton'', ''metaRow'', ''clearButton'',
      ''list'', ''listItem'', ''empty'', ''itemRow'', ''taskText'', ''itemButtons'', ''smallButton'',
      ''editInput'', ''footer'']"
  by (simp add: styles_def)

lemma styled_iff: "styled x \<longleftrightarrow> set (style_names x) \<subseteq> set (map fst styles)"
  by (auto simp: styled_def list_all_iff map_of_eq_None_iff)

lemmas node_defs =
  node_ok_def styled_iff styles_names operable_def focusable_def labelled_def style_names_def
  binds_def string_attr_def

lemma node_ok_list_item: "list_all node_ok (nodes (list_item s t))"
  by (simp add: jsx_defs node_defs)

lemma node_ok_jsx: "list_all node_ok (nodes (jsx s))"
  by (simp add: jsx_def nodes_list_map list_all_concat_map node_ok_list_item)
    (simp add: node_defs list_all_iff)

lemma two_rows_cells [simp]:
  "tasks two_rows =
     [\<lparr>task_id = of_ascii ''a'', task_text = of_ascii ''X'', created_at = []\<rparr>,
      \<lparr>task_id = of_ascii ''b'', task_text = of_ascii ''Y'', created_at = []\<rparr>]"
  "editingId two_rows = Some (of_ascii ''a'')" "editingText two_rows = of_ascii ''X''"
  "input two_rows = []"
  by (simp_all add: two_rows_def)

lemma styles_all_used:
  "set (styles_used (jsx init_state)) \<union> set (styles_used (jsx two_rows)) = set (map fst styles)"
  by code_simp

text \<open>
  C11. The view the state machine works with is the JSX read as a view: for every state
  the input value, the total, the rows and the notice for the empty list read off the
  tree of elements are those of \<open>render\<close>; an event is offered exactly when it is an
  event of a handler bound somewhere in the tree; and the React keys of the tree are
  the identifiers of the tasks in list order.
\<close>

theorem jsx_refines_view:
  "view_of (jsx s) = render s
   \<and> (list_ex (\<lambda>b. fires b ev) (bindings_of (jsx s)) \<longleftrightarrow> enabled s ev)
   \<and> keys_of (jsx s) = ids_of s"
  by (simp add: view_of_jsx fires_jsx enabled_def keys_jsx ids_of_def)

text \<open>
  C29. The JSX is well formed in every state. Every style an element refers to is
  defined in the \<open>styles\<close> object, whose names are distinct, and every style of the
  object is referred to in some state. Every element that binds a handler can be
  operated from the keyboard and has a name: it is an input or a button, or it has a
  tab index and a key handler of its own, and it carries a label or a title. This is
  the keyboard support the source announces.
\<close>

theorem jsx_well_formed:
  "list_all node_ok (nodes (jsx s))
   \<and> set (styles_used (jsx s)) \<subseteq> set (map fst styles)
   \<and> distinct (map fst styles)
   \<and> set (styles_used (jsx init_state)) \<union> set (styles_used (jsx two_rows)) = set (map fst styles)"
proof -
  have "set (styles_used (jsx s)) \<subseteq> set (map fst styles)"
    by (auto simp: styles_jsx styles_list_item styles_names)
  then show ?thesis
    by (simp add: node_ok_jsx styles_all_used) (simp add: styles_names)
qed

theorem jsx_well_formed_witness:
  "list_all node_ok (nodes (jsx two_rows))
   \<and> length (filter (\<lambda>x. binds x \<noteq> []) (nodes (jsx two_rows))) = 7
   \<and> set (styles_used (jsx two_rows)) \<subseteq> set (map fst styles)"
  using jsx_well_formed [of two_rows]
  by (simp add: jsx_defs binds_def of_ascii_def)

end
