(* ===== verification/StoreSpec.thy ===== *)
theory StoreSpec
  imports Machine
begin

text \<open>
  The Task List Store of the specification (section 4.1) as an abstract machine, and
  the refinement of it by the component. The abstract store holds the task list and the
  editing pointer; its operations are \<open>add\<close>, \<open>delete\<close>, \<open>beginEdit\<close>,
  \<open>commitEdit\<close>, \<open>cancelEdit\<close> and \<open>clear\<close>, written from the words of the
  specification (they are not code of the repository). The component state is mapped
  to it by forgetting the two input buffers. The refinement theorem says that every
  event of the view performs the operation of the specification it stands for, as long
  as identifiers are distinct and events come in the focus order of a browser; the
  theorems after it show where a handler called outside these conditions departs from
  the specification.
\<close>

section \<open>The abstract store\<close>

record store =
  items :: "task list"
  editing :: "jsstring option"

text \<open>
  \<open>Add raw i ts\<close> is \<open>add(raw)\<close> together with the identifier and the timestamp the
  store assigns to the new task.
\<close>

datatype spec_op =
    Add jsstring jsstring jsstring
  | Delete jsstring
  | BeginEdit jsstring
  | CommitEdit jsstring jsstring
  | CancelEdit
  | Clear

datatype outcome = Created task | NotCreated | Found bool | Done

text \<open>
  The specification speaks of \<^emph>\<open>the\<close> task with a given identifier: the operations act
  on the first task that carries it.
\<close>

definition has_id :: "jsstring \<Rightarrow> task list \<Rightarrow> bool" where
  "has_id i ts \<longleftrightarrow> i \<in> set (map task_id ts)"

fun remove_first :: "jsstring \<Rightarrow> task list \<Rightarrow> task list" where
  "remove_first i [] = []"
| "remove_first i (t # ts) = (if task_id t = i then ts else t # remove_first i ts)"

fun retext_first :: "jsstring \<Rightarrow> jsstring \<Rightarrow> task list \<Rightarrow> task list" where
  "retext_first i v [] = []"
| "retext_first i v (t # ts) =
     (if task_id t = i then t\<lparr>task_text := v\<rparr> # ts else t # retext_first i v ts)"

fun spec_apply :: "spec_op \<Rightarrow> store \<Rightarrow> store" where
  "spec_apply (Add raw i ts) st =
     (if trim raw = [] then st
      else st\<lparr>items := items st @ [\<lparr>task_id = i, task_text = trim raw, created_at = ts\<rparr>]\<rparr>)"
| "spec_apply (Delete i) st =
     st\<lparr>items := remove_first i (items st),
        editing := (if has_id i (items st) \<and> editing st = Some i then None else editing st)\<rparr>"
| "spec_apply (BeginEdit i) st = (if has_id i (items st) then st\<lparr>editing := Some i\<rparr> else st)"
| "spec_apply (CommitEdit i raw) st =
     (if \<not> has_id i (items st) then st
      else if trim raw = [] then st\<lparr>editing := None\<rparr>
      else st\<lparr>items := retext_first i (trim raw) (items st), editing := None\<rparr>)"
| "spec_apply CancelEdit st = st\<lparr>editing := None\<rparr>"
| "spec_apply Clear st = \<lparr>items = [], editing = None\<rparr>"

fun spec_result :: "spec_op \<Rightarrow> store \<Rightarrow> outcome" where
  "spec_result (Add raw i ts) st =
     (if trim raw = [] then NotCreated
      else Created \<lparr>task_id = i, task_text = trim raw, created_at = ts\<rparr>)"
| "spec_result (Delete i) st = Found (has_id i (items st))"
| "spec_result (BeginEdit i) st = Found (has_id i (items st))"
| "spec_result (CommitEdit i raw) st = Found (has_id i (items st))"
| "spec_result CancelEdit st = Done"
| "spec_result Clear st = Done"

section \<open>From the component to the abstract store\<close>

definition abstract :: "state \<Rightarrow> store" where
  "abstract s = \<lparr>items = tasks s, editing = editingId s\<rparr>"

text \<open>
  The operation of the specification an event stands for; \<open>None\<close> for the events the
  specification leaves to the presentation layer (keystrokes in the two inputs, keys
  without a binding).
\<close>

fun op_of :: "state \<Rightarrow> event \<Rightarrow> spec_op option" where
  "op_of s (InputChange v) = None"
| "op_of s (InputKeyDown k e) =
     (if k = of_ascii ''Enter'' then Some (Add (input s) (makeId e) (iso_now e)) else None)"
| "op_of s (AddClick e) = Some (Add (input s) (makeId e) (iso_now e))"
| "op_of s ClearClick = Some Clear"
| "op_of s (EditChange i v) = None"
| "op_of s (EditKeyDown k i) =
     (if k = of_ascii ''Enter'' then Some (CommitEdit i (editingText s))
      else if k = of_ascii ''Escape'' then Some CancelEdit else None)"
| "op_of s (EditBlur i) = Some (CommitEdit i (editingText s))"
| "op_of s (TextDoubleClick t) = Some (BeginEdit (task_id t))"
| "op_of s (TextKeyDown k t) = (if k = of_ascii ''Enter'' then Some (BeginEdit (task_id t)) else None)"
| "op_of s (EditClick t) = Some (BeginEdit (task_id t))"
| "op_of s (DeleteClick t) = Some (Delete (task_id t))"

definition spec_step :: "spec_op option \<Rightarrow> store \<Rightarrow> store" where
  "spec_step p st = (case p of None \<Rightarrow> st | Some q \<Rightarrow> spec_apply q st)"

text \<open>
  The operations a run performs, and the abstract store after a list of operations.
  \<open>ui_event\<close> is the guard of the refinement: offered, in focus order, and generating
  a fresh identifier when it adds.
\<close>

fun ops_of :: "state \<Rightarrow> event list \<Rightarrow> spec_op option list" where
  "ops_of s [] = []"
| "ops_of s (ev # evs) = op_of s ev # ops_of (step s ev) evs"

definition spec_run :: "store \<Rightarrow> spec_op option list \<Rightarrow> store" where
  "spec_run st ps = foldl (\<lambda>st p. spec_step p st) st ps"

definition ui_event :: "state \<Rightarrow> event \<Rightarrow> bool" where
  "ui_event s ev \<longleftrightarrow> focused s ev \<and> adds_fresh s ev"

text \<open>A list in which two tasks carry the same identifier.\<close>

definition twins :: state where
  "twins = init_state\<lparr>tasks := [task_a, task_a\<lparr>task_text := of_ascii ''Eggs''\<rparr>]\<rparr>"

section \<open>First match and all matches agree on distinct identifiers\<close>

lemma remove_first_absent: "i \<notin> set (map task_id ts) \<Longrightarrow> remove_first i ts = ts"
  by (induction ts) auto

lemma retext_first_absent: "i \<notin> set (map task_id ts) \<Longrightarrow> retext_first i v ts = ts"
  by (induction ts) auto

lemma remove_first_distinct:
  "distinct (map task_id ts) \<Longrightarrow> remove_first i ts = filter (\<lambda>t. task_id t \<noteq> i) ts"
  by (induction ts) (auto simp: filter_absent_key)

lemma retext_first_distinct:
  "distinct (map task_id ts) \<Longrightarrow>
   retext_first i v ts = map (\<lambda>t. if task_id t = i then t\<lparr>task_text := v\<rparr> else t) ts"
  by (induction ts) (auto simp: update_absent_key)

section \<open>The abstract store after each handler\<close>

lemma abstract_cells [simp]:
  "items (abstract s) = tasks s" "editing (abstract s) = editingId s"
  by (simp_all add: abstract_def)

lemma store_eqI: "items a = items b \<Longrightarrow> editing a = editing b \<Longrightarrow> (a :: store) = b"
  by simp

lemma abstract_eq_iff: "abstract s = st \<longleftrightarrow> tasks s = items st \<and> editingId s = editing st"
  by (auto simp: abstract_def)

lemma spec_step_simps [simp]:
  "spec_step None st = st" "spec_step (Some q) st = spec_apply q st"
  by (simp_all add: spec_step_def)

lemma spec_run_simps [simp]:
  "spec_run st [] = st" "spec_run st (p # ps) = spec_run (spec_step p st) ps"
  by (simp_all add: spec_run_def)

lemma ids_distinct_one_task [simp]: "ids_distinct one_task" "ids_distinct editing_a"
  by (simp_all add: ids_distinct_def ids_of_def)

section \<open>Refinement\<close>

text \<open>
  One step: the component's step is the step of the specification's store for the
  operation the event stands for, and a stutter for the events the specification does
  not name, whenever the identifiers of the list are distinct and the event is offered
  by the view and respects the focus order.
\<close>

lemma step_refines:
  assumes "ids_distinct s" and "focused s ev"
  shows "abstract (step s ev) = spec_step (op_of s ev) (abstract s)"
  using assms
  by (cases ev)
    (auto simp: abstract_eq_iff commit_handler focused_def enabled_def has_id_def
      remove_first_distinct retext_first_distinct ids_distinct_def ids_of_def)

text \<open>
  C7. The component refines the store of the specification: along every run of events
  that are offered by the view, come in focus order and add fresh identifiers, starting
  from a list with distinct identifiers, the component's list and editing pointer are
  what the specification's store holds after the corresponding sequence of \<open>add\<close>,
  \<open>delete\<close>, \<open>beginEdit\<close>, \<open>commitEdit\<close>, \<open>cancelEdit\<close> and \<open>clear\<close> operations.
\<close>

theorem run_refines_spec:
  assumes "ids_distinct s" and "trace_ok ui_event s evs"
  shows "abstract (run s evs) = spec_run (abstract s) (ops_of s evs)"
  using assms
proof (induction evs arbitrary: s)
  case Nil
  then show ?case by simp
next
  case (Cons ev evs)
  from Cons.prems(2) have "ui_event s ev" and t: "trace_ok ui_event (step s ev) evs"
    by simp_all
  then have f: "focused s ev" and a: "adds_fresh s ev"
    by (simp_all add: ui_event_def)
  from Cons.prems(1) a have "ids_distinct (step s ev)" by (rule step_ids_distinct)
  then have "abstract (run (step s ev) evs) = spec_run (abstract (step s ev)) (ops_of (step s ev) evs)"
    using t by (rule Cons.IH)
  moreover from Cons.prems(1) f
  have "abstract (step s ev) = spec_step (op_of s ev) (abstract s)" by (rule step_refines)
  ultimately show ?case by simp
qed

theorem run_refines_spec_witness:
  "ids_distinct one_task \<and> trace_ok ui_event one_task edit_events
   \<and> abstract (run one_task edit_events) =
       spec_run (abstract one_task)
         [Some (BeginEdit (task_id task_a)), None,
          Some (CommitEdit (task_id task_a) (of_ascii ''Buy oat milk ''))]"
proof -
  have t: "trace_ok ui_event one_task edit_events"
    by (simp add: edit_events_def ui_event_def focused_def enabled_def commit_handler)
  have "ops_of one_task edit_events =
      [Some (BeginEdit (task_id task_a)), None,
       Some (CommitEdit (task_id task_a) (of_ascii ''Buy oat milk ''))]"
    by (simp add: edit_events_def commit_handler)
  with run_refines_spec [OF ids_distinct_one_task(1) t] t show ?thesis by simp
qed

section \<open>Where a handler departs from the specification\<close>

text \<open>
  C33. \<open>deleteTask\<close> never touches the editing pointer. Called for the task that is
  being edited (which the view does not offer, since that row shows the edit input
  instead of the delete button), it removes the task and leaves the pointer on its
  identifier, where the specification's \<open>delete\<close> clears the pointer.
\<close>

theorem delete_edited_keeps_pointer:
  assumes "editingId s = Some i" and "has_id i (tasks s)"
  shows "editing (spec_apply (Delete i) (abstract s)) = None
       \<and> editingId (commit s (deleteTask i)) = Some i
       \<and> \<not> has_id i (tasks (commit s (deleteTask i)))
       \<and> \<not> pointer_valid (commit s (deleteTask i))
       \<and> (enabled s (DeleteClick t) \<longrightarrow> task_id t \<noteq> i)"
  using assms
  by (auto simp: has_id_def commit_deleteTask enabled_def pointer_valid_def ids_of_def)

theorem delete_edited_keeps_pointer_witness:
  "editingId editing_a = Some (task_id task_a) \<and> has_id (task_id task_a) (tasks editing_a)
   \<and> editingId (commit editing_a (deleteTask (task_id task_a))) = Some (task_id task_a)
   \<and> tasks (commit editing_a (deleteTask (task_id task_a))) = []
   \<and> \<not> enabled editing_a (DeleteClick task_a)"
  using delete_edited_keeps_pointer [of editing_a "task_id task_a" task_a]
  by (simp add: has_id_def commit_deleteTask)

section \<open>All matches against the first match\<close>

lemma twins_cells [simp]:
  "tasks twins = [task_a, task_a\<lparr>task_text := of_ascii ''Eggs''\<rparr>]" "input twins = []"
  "editingId twins = None" "editingText twins = []"
  by (simp_all add: twins_def)

text \<open>
  C26. The handlers act on every task that carries the identifier, the specification on
  the task that carries it. On a list with distinct identifiers the two agree:
  \<open>deleteTask\<close> computes the list with the first match removed, and \<open>saveEdit\<close>
  the list with the text of the first match replaced (or the list itself, for a blank
  buffer).
\<close>

theorem handlers_match_first:
  assumes "ids_distinct s"
  shows "tasks (commit s (deleteTask i)) = remove_first i (tasks s)
       \<and> tasks (commit s (saveEdit s i)) =
           (if trim (editingText s) = [] then tasks s
            else retext_first i (trim (editingText s)) (tasks s))"
  using assms
  by (simp add: commit_handler remove_first_distinct retext_first_distinct ids_distinct_def
      ids_of_def)

theorem handlers_match_first_witness:
  "ids_distinct editing_a
   \<and> tasks (commit editing_a (deleteTask (task_id task_a))) = []
   \<and> tasks (commit editing_a (saveEdit editing_a (task_id task_a))) =
       [task_a\<lparr>task_text := of_ascii ''Buy oat milk''\<rparr>]"
  using handlers_match_first [of editing_a "task_id task_a"]
  by simp


end
