(* ===== verification/Codec.thy ===== *)
theory Codec
  imports Store
begin

text \<open>
  The interface between the component and the serialisation of its task list. The
  persistence effects of \<open>src/todo_app_minimal.jsx\<close> call \<open>JSON.stringify\<close> on the
  task array and \<open>JSON.parse\<close> on the stored string; what they need from the two
  functions is stated here once, over a record of the two functions, so that the
  effects (theory \<open>Persistence\<close>) are proved against the interface and the JSON
  functions (theory \<open>Json\<close>) are proved to implement it.
\<close>

section \<open>Errors of the environment\<close>

text \<open>
  The exceptions the two effects can catch: \<open>JSON.parse\<close> throws a \<open>SyntaxError\<close>;
  \<open>localStorage\<close> throws a \<open>SecurityError\<close> when access to the storage is denied and
  a \<open>QuotaExceededError\<close> when a write does not fit. A \<open>TypeError\<close> is what reading a
  property of \<open>null\<close> or calling something that is not a function throws; no effect of
  the source can raise it, the render can.
\<close>

datatype js_error = SyntaxError | SecurityError | QuotaExceededError | TypeError

section \<open>JSON values\<close>

text \<open>
  The values \<open>JSON.parse\<close> can return. An object is the list of its members in source
  order; a number is kept as its lexeme.
\<close>

datatype json =
    JNull
  | JBool bool
  | JNumber jsstring
  | JString jsstring
  | JArray "json list"
  | JObject "(jsstring \<times> json) list"

section \<open>The interface\<close>

text \<open>
  \<open>parse\<close> either throws or returns a value. The component state holds a list of task
  records; a parsed value that is such a list is \<open>Tasks\<close>, any other value (which the
  source installs in the \<open>tasks\<close> cell all the same) is \<open>Foreign\<close>.
\<close>

datatype parsed = Tasks "task list" | Foreign json

record codec =
  stringify :: "task list \<Rightarrow> jsstring"
  parse :: "jsstring \<Rightarrow> js_error + parsed"

text \<open>
  What the effects rely on: parsing what was printed gives the list back, and a printed
  list is never the empty string (the load effect skips an empty stored string).
\<close>

definition codec_ok :: "codec \<Rightarrow> bool" where
  "codec_ok c \<longleftrightarrow> (\<forall>ts. parse c (stringify c ts) = Inr (Tasks ts) \<and> stringify c ts \<noteq> [])"

section \<open>Consequences\<close>

lemma codec_ok_parse [simp]: "codec_ok c \<Longrightarrow> parse c (stringify c ts) = Inr (Tasks ts)"
  by (simp add: codec_ok_def)

lemma codec_ok_nonempty [simp]: "codec_ok c \<Longrightarrow> stringify c ts \<noteq> []"
  by (simp add: codec_ok_def)

lemma codec_ok_inj: "codec_ok c \<Longrightarrow> stringify c ts = stringify c us \<longleftrightarrow> ts = us"
  by (metis codec_ok_parse Inr_inject parsed.inject)

end
