(* ===== verification/Json.thy ===== *)
theory Json
  imports Codec
begin

text \<open>
  The two JSON builtins the persistence effects of \<open>src/todo_app_minimal.jsx\<close> call.
  \<open>JSON_stringify\<close> is \<open>JSON.stringify\<close> on an array of task objects: the objects
  with their three string properties in creation order, the strings quoted as
  ECMAScript's \<open>QuoteJSONString\<close> does. \<open>JSON_parse\<close> is \<open>JSON.parse\<close> on an
  arbitrary string: the whole JSON grammar, a \<open>SyntaxError\<close> for everything else.
  Numbers are kept as their lexemes (their value as a double is not modelled; no task
  field is a number). \<open>as_tasks\<close> says which parsed values are lists of task records.
  The theorems: the parser never runs out of the fuel it is given, and parsing a
  printed task list returns that list, so the two builtins implement the interface of
  theory \<open>Codec\<close>; the length of a printed list is bounded in the lengths of the
  strings of its tasks.
\<close>

section \<open>Printing\<close>

text \<open>
  \<open>QuoteJSONString\<close>: the string between double quotes, code point by code point.
  Backspace, tab, line feed, form feed, carriage return, the double quote and the
  backslash have two-character escapes; any other code unit below \<open>0x20\<close> and any
  surrogate that is not part of a pair is printed as \<open>\u\<close> and four lower-case
  hexadecimal digits; everything else is copied.
\<close>

definition is_high :: "code_unit \<Rightarrow> bool" where
  "is_high c \<longleftrightarrow> 0xD800 \<le> c \<and> c \<le> 0xDBFF"

definition is_low :: "code_unit \<Rightarrow> bool" where
  "is_low c \<longleftrightarrow> 0xDC00 \<le> c \<and> c \<le> 0xDFFF"

definition hex4 :: "code_unit \<Rightarrow> jsstring" where
  "hex4 c = map (\<lambda>k. digit36 (unat c div 16 ^ k mod 16)) [3, 2, 1, 0]"

definition escape_unit :: "code_unit \<Rightarrow> jsstring" where
  "escape_unit c =
     (if c = 0x08 then [0x5C, 0x62]
      else if c = 0x09 then [0x5C, 0x74]
      else if c = 0x0A then [0x5C, 0x6E]
      else if c = 0x0C then [0x5C, 0x66]
      else if c = 0x0D then [0x5C, 0x72]
      else if c = 0x22 then [0x5C, 0x22]
      else if c = 0x5C then [0x5C, 0x5C]
      else if c < 0x20 \<or> is_high c \<or> is_low c then [0x5C, 0x75] @ hex4 c
      else [c])"

fun quote_body :: "jsstring \<Rightarrow> jsstring" where
  "quote_body [] = []"
| "quote_body [c] = escape_unit c"
| "quote_body (c # d # r) =
     (if is_high c \<and> is_low d then c # d # quote_body r
      else escape_unit c @ quote_body (d # r))"

definition quote :: "jsstring \<Rightarrow> jsstring" where
  "quote s = 0x22 # quote_body s @ [0x22]"

text \<open>
  A task object prints as \<open>{"id":...,"text":...,"created_at":...}\<close>, the array as
  its elements between brackets, separated by commas, without white space.
\<close>

definition member :: "string \<Rightarrow> jsstring \<Rightarrow> jsstring" where
  "member k v = quote (of_ascii k) @ 0x3A # quote v"

definition stringify_task :: "task \<Rightarrow> jsstring" where
  "stringify_task t =
     0x7B # member ''id'' (task_id t) @ 0x2C # member ''text'' (task_text t)
       @ 0x2C # member ''created_at'' (created_at t) @ [0x7D]"

fun separated :: "jsstring list \<Rightarrow> jsstring" where
  "separated [] = []"
| "separated [x] = x"
| "separated (x # y # r) = x @ 0x2C # separated (y # r)"

definition JSON_stringify :: "task list \<Rightarrow> jsstring" where
  "JSON_stringify ts = 0x5B # separated (map stringify_task ts) @ [0x5D]"

text \<open>The number of code units in the three strings of a task.\<close>

definition task_size :: "task \<Rightarrow> nat" where
  "task_size t = length (task_id t) + length (task_text t) + length (created_at t)"

section \<open>Lexical level of the parser\<close>

definition is_json_ws :: "code_unit \<Rightarrow> bool" where
  "is_json_ws c \<longleftrightarrow> c = 0x20 \<or> c = 0x09 \<or> c = 0x0A \<or> c = 0x0D"

definition skip_ws :: "jsstring \<Rightarrow> jsstring" where
  "skip_ws s = dropWhile is_json_ws s"

definition is_digit :: "code_unit \<Rightarrow> bool" where
  "is_digit c \<longleftrightarrow> 0x30 \<le> c \<and> c \<le> 0x39"

definition unescape :: "code_unit \<Rightarrow> code_unit option" where
  "unescape e =
     (if e = 0x22 \<or> e = 0x5C \<or> e = 0x2F then Some e
      else if e = 0x62 then Some 0x08
      else if e = 0x66 then Some 0x0C
      else if e = 0x6E then Some 0x0A
      else if e = 0x72 then Some 0x0D
      else if e = 0x74 then Some 0x09
      else None)"

definition hexval :: "code_unit \<Rightarrow> nat option" where
  "hexval c =
     (if 0x30 \<le> c \<and> c \<le> 0x39 then Some (unat c - 48)
      else if 0x61 \<le> c \<and> c \<le> 0x66 then Some (unat c - 87)
      else if 0x41 \<le> c \<and> c \<le> 0x46 then Some (unat c - 55)
      else None)"

definition hex4val :: "code_unit \<Rightarrow> code_unit \<Rightarrow> code_unit \<Rightarrow> code_unit \<Rightarrow> code_unit option" where
  "hex4val a b c d =
     (case (hexval a, hexval b, hexval c, hexval d) of
        (Some x, Some y, Some z, Some w) \<Rightarrow> Some (of_nat (4096 * x + 256 * y + 16 * z + w))
      | _ \<Rightarrow> None)"

text \<open>
  The characters of a string literal after its opening quote, up to the closing quote:
  the string denoted and the input after the closing quote. Control characters must be
  escaped; \<open>\u\<close> takes four hexadecimal digits of either case.
\<close>

definition consed :: "code_unit \<Rightarrow> (jsstring \<times> jsstring) option \<Rightarrow> (jsstring \<times> jsstring) option" where
  "consed c r = (case r of None \<Rightarrow> None | Some (v, rest) \<Rightarrow> Some (c # v, rest))"

fun lex_string :: "jsstring \<Rightarrow> (jsstring \<times> jsstring) option" where
  "lex_string [] = None"
| "lex_string (c # r) =
     (if c = 0x22 then Some ([], r)
      else if c = 0x5C then
        (case r of
           [] \<Rightarrow> None
         | e # r1 \<Rightarrow>
             if e = 0x75 then
               (case r1 of
                  h1 # h2 # h3 # h4 # r2 \<Rightarrow>
                    (case hex4val h1 h2 h3 h4 of
                       Some u \<Rightarrow> consed u (lex_string r2)
                     | None \<Rightarrow> None)
                | _ \<Rightarrow> None)
             else
               (case unescape e of Some u \<Rightarrow> consed u (lex_string r1) | None \<Rightarrow> None))
      else if c < 0x20 then None
      else consed c (lex_string r))"

text \<open>
  A number: an optional minus sign, an integer part without a leading zero, an optional
  fraction, an optional exponent. The result is the lexeme and the rest of the input.
\<close>

definition lex_digits :: "jsstring \<Rightarrow> (jsstring \<times> jsstring) option" where
  "lex_digits s = (if takeWhile is_digit s = [] then None
                   else Some (takeWhile is_digit s, dropWhile is_digit s))"

definition lex_int :: "jsstring \<Rightarrow> (jsstring \<times> jsstring) option" where
  "lex_int s = (case s of [] \<Rightarrow> None
     | c # r \<Rightarrow> if c = 0x30 then Some ([c], r) else lex_digits s)"

definition lex_frac :: "jsstring \<Rightarrow> (jsstring \<times> jsstring) option" where
  "lex_frac s = (case s of [] \<Rightarrow> Some ([], [])
     | c # r \<Rightarrow> if c = 0x2E then consed c (lex_digits r) else Some ([], s))"

definition lex_exp :: "jsstring \<Rightarrow> (jsstring \<times> jsstring) option" where
  "lex_exp s = (case s of [] \<Rightarrow> Some ([], [])
     | c # r \<Rightarrow>
         if c = 0x65 \<or> c = 0x45 then
           (case r of [] \<Rightarrow> None
            | d # r1 \<Rightarrow> if d = 0x2B \<or> d = 0x2D then consed c (consed d (lex_digits r1))
                        else consed c (lex_digits r))
         else Some ([], s))"

definition lex_unsigned :: "jsstring \<Rightarrow> (jsstring \<times> jsstring) option" where
  "lex_unsigned s =
     (case lex_int s of None \<Rightarrow> None
      | Some (i, r1) \<Rightarrow>
          (case lex_frac r1 of None \<Rightarrow> None
           | Some (f, r2) \<Rightarrow>
               (case lex_exp r2 of None \<Rightarrow> None
                | Some (x, r3) \<Rightarrow> Some (i @ f @ x, r3))))"

definition lex_number :: "jsstring \<Rightarrow> (jsstring \<times> jsstring) option" where
  "lex_number s = (case s of [] \<Rightarrow> None
     | c # r \<Rightarrow> if c = 0x2D then consed c (lex_unsigned r) else lex_unsigned s)"

definition strip_prefix :: "jsstring \<Rightarrow> jsstring \<Rightarrow> jsstring option" where
  "strip_prefix p s = (if take (length p) s = p then Some (drop (length p) s) else None)"

section \<open>The parser\<close>

text \<open>
  The result of parsing a prefix of the input: a value and the rest of the input, a
  syntax error, or \<open>OutOfFuel\<close>. The three functions take a bound on the number of
  nested calls; \<open>JSON_parse\<close> gives them a bound that is never reached.
\<close>

datatype 'a parse_result = Parsed 'a jsstring | Fail | OutOfFuel

fun parse_value :: "nat \<Rightarrow> jsstring \<Rightarrow> json parse_result"
  and parse_elements :: "nat \<Rightarrow> jsstring \<Rightarrow> json list parse_result"
  and parse_members :: "nat \<Rightarrow> jsstring \<Rightarrow> (jsstring \<times> json) list parse_result"
where
  "parse_value 0 s = OutOfFuel"
| "parse_value (Suc n) s =
     (case skip_ws s of
        [] \<Rightarrow> Fail
      | c # r \<Rightarrow>
          if c = 0x5B then
            (case skip_ws r of
               [] \<Rightarrow> Fail
             | d # r1 \<Rightarrow>
                 if d = 0x5D then Parsed (JArray []) r1
                 else (case parse_elements n r of
                         Parsed vs r2 \<Rightarrow> Parsed (JArray vs) r2
                       | Fail \<Rightarrow> Fail | OutOfFuel \<Rightarrow> OutOfFuel))
          else if c = 0x7B then
            (case skip_ws r of
               [] \<Rightarrow> Fail
             | d # r1 \<Rightarrow>
                 if d = 0x7D then Parsed (JObject []) r1
                 else (case parse_members n r of
                         Parsed ms r2 \<Rightarrow> Parsed (JObject ms) r2
                       | Fail \<Rightarrow> Fail | OutOfFuel \<Rightarrow> OutOfFuel))
          else if c = 0x22 then
            (case lex_string r of Some (v, r1) \<Rightarrow> Parsed (JString v) r1 | None \<Rightarrow> Fail)
          else if c = 0x2D \<or> is_digit c then
            (case lex_number (c # r) of Some (v, r1) \<Rightarrow> Parsed (JNumber v) r1 | None \<Rightarrow> Fail)
          else
            (case strip_prefix (of_ascii ''true'') (c # r) of
               Some r1 \<Rightarrow> Parsed (JBool True) r1
             | None \<Rightarrow>
                 (case strip_prefix (of_ascii ''false'') (c # r) of
                    Some r1 \<Rightarrow> Parsed (JBool False) r1
                  | None \<Rightarrow>
                      (case strip_prefix (of_ascii ''null'') (c # r) of
                         Some r1 \<Rightarrow> Parsed JNull r1
                       | None \<Rightarrow> Fail))))"
| "parse_elements 0 s = OutOfFuel"
| "parse_elements (Suc n) s =
     (case parse_value n s of
        Parsed v r \<Rightarrow>
          (case skip_ws r of
             [] \<Rightarrow> Fail
           | c # r1 \<Rightarrow>
               if c = 0x2C then
                 (case parse_elements n r1 of
                    Parsed vs r2 \<Rightarrow> Parsed (v # vs) r2
                  | Fail \<Rightarrow> Fail | OutOfFuel \<Rightarrow> OutOfFuel)
               else if c = 0x5D then Parsed [v] r1
               else Fail)
      | Fail \<Rightarrow> Fail
      | OutOfFuel \<Rightarrow> OutOfFuel)"
| "parse_members 0 s = OutOfFuel"
| "parse_members (Suc n) s =
     (case skip_ws s of
        [] \<Rightarrow> Fail
      | q # r \<Rightarrow>
          if q \<noteq> 0x22 then Fail
          else
            (case lex_string r of
               None \<Rightarrow> Fail
             | Some (k, r1) \<Rightarrow>
                 (case skip_ws r1 of
                    [] \<Rightarrow> Fail
                  | c # r2 \<Rightarrow>
                      if c \<noteq> 0x3A then Fail
                      else
                        (case parse_value n r2 of
                           Parsed v r3 \<Rightarrow>
                             (case skip_ws r3 of
                                [] \<Rightarrow> Fail
                              | d # r4 \<Rightarrow>
                                  if d = 0x2C then
                                    (case parse_members n r4 of
                                       Parsed ms r5 \<Rightarrow> Parsed ((k, v) # ms) r5
                                     | Fail \<Rightarrow> Fail | OutOfFuel \<Rightarrow> OutOfFuel)
                                  else if d = 0x7D then Parsed [(k, v)] r4
                                  else Fail)
                         | Fail \<Rightarrow> Fail
                         | OutOfFuel \<Rightarrow> OutOfFuel))))"

definition fuel_for :: "jsstring \<Rightarrow> nat" where
  "fuel_for s = 2 * length s + 1"

definition JSON_parse :: "jsstring \<Rightarrow> js_error + json" where
  "JSON_parse s =
     (case parse_value (fuel_for s) s of
        Parsed v r \<Rightarrow> if skip_ws r = [] then Inr v else Inl SyntaxError
      | Fail \<Rightarrow> Inl SyntaxError
      | OutOfFuel \<Rightarrow> Inl SyntaxError)"

text \<open>
  \<open>settled a b\<close>: the result \<open>b\<close>, computed with more fuel, agrees with \<open>a\<close>
  unless \<open>a\<close> ran out of fuel.
\<close>

definition settled :: "'a parse_result \<Rightarrow> 'a parse_result \<Rightarrow> bool" where
  "settled a b \<longleftrightarrow> a = OutOfFuel \<or> a = b"

section \<open>Task lists among the JSON values\<close>

text \<open>
  A task record is an object with exactly the properties \<open>id\<close>, \<open>text\<close> and
  \<open>created_at\<close>, in this order, all strings.
\<close>

definition to_json_task :: "task \<Rightarrow> json" where
  "to_json_task t =
     JObject [(of_ascii ''id'', JString (task_id t)), (of_ascii ''text'', JString (task_text t)),
              (of_ascii ''created_at'', JString (created_at t))]"

definition to_json :: "task list \<Rightarrow> json" where
  "to_json ts = JArray (map to_json_task ts)"

definition as_task :: "json \<Rightarrow> task option" where
  "as_task j =
     (case j of
        JObject ms \<Rightarrow>
          if map fst ms = [of_ascii ''id'', of_ascii ''text'', of_ascii ''created_at''] then
            (case map snd ms of
               [JString i, JString t, JString c] \<Rightarrow>
                 Some \<lparr>task_id = i, task_text = t, created_at = c\<rparr>
             | _ \<Rightarrow> None)
          else None
      | _ \<Rightarrow> None)"

definition as_tasks :: "json \<Rightarrow> parsed" where
  "as_tasks j =
     (case j of
        JArray els \<Rightarrow> (case those (map as_task els) of Some ts \<Rightarrow> Tasks ts | None \<Rightarrow> Foreign j)
      | _ \<Rightarrow> Foreign j)"

definition json_codec :: codec where
  "json_codec =
     \<lparr>stringify = JSON_stringify,
      parse = (\<lambda>s. case JSON_parse s of Inl err \<Rightarrow> Inl err | Inr j \<Rightarrow> Inr (as_tasks j))\<rparr>"

section \<open>Escapes are read back\<close>

lemma nibbles:
  assumes "n < 65536"
  shows "4096 * (n div 4096 mod 16) + 256 * (n div 256 mod 16) + 16 * (n div 16 mod 16)
           + n mod 16 = (n::nat)"
proof -
  have a: "n mod 256 = 16 * (n div 16 mod 16) + n mod 16"
    using mod_mult2_eq [of n 16 16] by simp
  have b: "n mod 4096 = 256 * (n div 256 mod 16) + n mod 256"
    using mod_mult2_eq [of n 256 16] by simp
  have c: "n mod 65536 = 4096 * (n div 4096 mod 16) + n mod 4096"
    using mod_mult2_eq [of n 4096 16] by simp
  from assms have "n mod 65536 = n" by simp
  with a b c show ?thesis by simp
qed

lemma unat_lt16: "unat (c :: code_unit) < 65536"
  using unsigned_less [of c] by simp

lemma hexval_digit36: "d < 16 \<Longrightarrow> hexval (digit36 d) = Some d"
  unfolding hexval_def word_le_nat_alt by (simp add: unat_digit36)

lemma hex4_eq:
  "hex4 c = [digit36 (unat c div 4096 mod 16), digit36 (unat c div 256 mod 16),
             digit36 (unat c div 16 mod 16), digit36 (unat c mod 16)]"
  by (simp add: hex4_def)

lemma hex4val_hex4:
  "hex4val (digit36 (unat c div 4096 mod 16)) (digit36 (unat c div 256 mod 16))
     (digit36 (unat c div 16 mod 16)) (digit36 (unat c mod 16)) = Some c"
  by (simp add: hex4val_def hexval_digit36 nibbles unat_lt16)

lemma lex_string_u: "lex_string (0x5C # 0x75 # hex4 c @ r) = consed c (lex_string r)"
  by (simp add: hex4_eq hex4val_hex4)

lemma consed_Some [simp]: "consed c (Some (v, r)) = Some (c # v, r)"
  by (simp add: consed_def)

lemma consed_None [simp]: "consed c None = None"
  by (simp add: consed_def)

lemma lex_string_close [simp]: "lex_string (0x22 # r) = Some ([], r)"
  by simp

lemma lex_string_plain:
  "0x20 \<le> c \<Longrightarrow> c \<noteq> 0x22 \<Longrightarrow> c \<noteq> 0x5C \<Longrightarrow> lex_string (c # r) = consed c (lex_string r)"
  by (simp add: not_less [symmetric])

lemma surrogate_plain: "is_high c \<or> is_low c \<Longrightarrow> 0x20 \<le> c \<and> c \<noteq> 0x22 \<and> c \<noteq> 0x5C"
  unfolding is_high_def is_low_def word_le_nat_alt by auto

lemma lex_string_surrogate:
  "is_high c \<or> is_low c \<Longrightarrow> lex_string (c # r) = consed c (lex_string r)"
  by (drule surrogate_plain) (simp add: lex_string_plain del: lex_string.simps)

lemma lex_string_escape_unit: "lex_string (escape_unit c @ r) = consed c (lex_string r)"
proof -
  consider (two) "c \<in> {0x08, 0x09, 0x0A, 0x0C, 0x0D, 0x22, 0x5C}"
    | (u) "c \<notin> {0x08, 0x09, 0x0A, 0x0C, 0x0D, 0x22, 0x5C}" "c < 0x20 \<or> is_high c \<or> is_low c"
    | (plain) "c \<notin> {0x08, 0x09, 0x0A, 0x0C, 0x0D, 0x22, 0x5C}" "\<not> (c < 0x20 \<or> is_high c \<or> is_low c)"
    by blast
  then show ?thesis
  proof cases
    case two
    then show ?thesis by (auto simp: escape_unit_def unescape_def)
  next
    case u
    then have "escape_unit c = 0x5C # 0x75 # hex4 c" by (simp add: escape_unit_def)
    then show ?thesis by (simp only: lex_string_u append_Cons)
  next
    case plain
    then have "escape_unit c = [c]" by (simp add: escape_unit_def)
    with plain show ?thesis by (simp add: lex_string_plain not_less del: lex_string.simps)
  qed
qed

lemma lex_string_quote_body [simp]: "lex_string (quote_body s @ 0x22 # r) = Some (s, r)"
  by (induction s rule: quote_body.induct)
    (simp_all add: lex_string_escape_unit lex_string_surrogate del: lex_string.simps)


section \<open>Parsing a printed task list\<close>

lemma skip_ws_nonws [simp]: "\<not> is_json_ws c \<Longrightarrow> skip_ws (c # r) = c # r"
  by (simp add: skip_ws_def)

lemma structural_not_ws [simp]:
  "\<not> is_json_ws 0x22" "\<not> is_json_ws 0x5B" "\<not> is_json_ws 0x5D" "\<not> is_json_ws 0x7B"
  "\<not> is_json_ws 0x7D" "\<not> is_json_ws 0x2C" "\<not> is_json_ws 0x3A"
  by (simp_all add: is_json_ws_def)

declare lex_string.simps [simp del] parse_value.simps(2) [simp del]
  parse_elements.simps(2) [simp del] parse_members.simps(2) [simp del]

lemma parse_value_string [simp]:
  "parse_value (Suc n) (0x22 # quote_body s @ 0x22 # r) = Parsed (JString s) r"
  by (subst parse_value.simps) simp

lemma parse_members_more:
  "parse_members (Suc (Suc n)) (member k v @ 0x2C # r) =
     (case parse_members (Suc n) r of
        Parsed ms r1 \<Rightarrow> Parsed ((of_ascii k, JString v) # ms) r1
      | Fail \<Rightarrow> Fail | OutOfFuel \<Rightarrow> OutOfFuel)"
  by (subst parse_members.simps) (simp add: member_def quote_def)

lemma parse_members_last:
  "parse_members (Suc (Suc n)) (member k v @ 0x7D # r) = Parsed [(of_ascii k, JString v)] r"
  by (subst parse_members.simps) (simp add: member_def quote_def)

lemma parse_value_object:
  "parse_value (Suc n) (0x7B # member k v @ r) =
     (case parse_members n (member k v @ r) of
        Parsed ms x \<Rightarrow> Parsed (JObject ms) x | Fail \<Rightarrow> Fail | OutOfFuel \<Rightarrow> OutOfFuel)"
  by (subst parse_value.simps) (simp add: member_def quote_def)

lemma parse_value_task:
  "parse_value (Suc (Suc (Suc (Suc (Suc n))))) (stringify_task t @ r) = Parsed (to_json_task t) r"
  by (simp add: stringify_task_def to_json_task_def parse_value_object parse_members_more
      parse_members_last)

lemma parse_value_task_fuel:
  "5 \<le> n \<Longrightarrow> parse_value n (stringify_task t @ r) = Parsed (to_json_task t) r"
proof -
  assume "5 \<le> n"
  then obtain m where "n = 5 + m" by (auto dest: le_Suc_ex)
  then have "n = Suc (Suc (Suc (Suc (Suc m))))" by simp
  then show ?thesis by (simp only: parse_value_task)
qed

lemma stringify_task_not_close: "stringify_task t @ r = 0x7B # tl (stringify_task t @ r)"
  by (simp add: stringify_task_def)

lemma parse_elements_tasks:
  "ts \<noteq> [] \<Longrightarrow> length ts + 5 \<le> n \<Longrightarrow>
   parse_elements n (separated (map stringify_task ts) @ 0x5D # r) = Parsed (map to_json_task ts) r"
proof (induction ts arbitrary: n rule: list_nonempty_induct)
  case (single t)
  then obtain m where n: "n = Suc m" and m: "5 \<le> m" by (cases n) auto
  show ?case unfolding n by (subst parse_elements.simps) (simp add: parse_value_task_fuel m)
next
  case (cons t ts)
  then obtain m where n: "n = Suc m" and m: "5 \<le> m" "length ts + 5 \<le> m" by (cases n) auto
  from cons.hyps obtain u us where ts: "ts = u # us" by (cases ts) auto
  have "parse_elements m (separated (map stringify_task ts) @ 0x5D # r) = Parsed (map to_json_task ts) r"
    using m(2) by (rule cons.IH)
  then show ?case unfolding n
    by (subst parse_elements.simps) (simp add: parse_value_task_fuel m ts)
qed

lemma separated_head:
  "ts \<noteq> [] \<Longrightarrow> \<exists>y. separated (map stringify_task ts) @ r = 0x7B # y"
  by (cases ts; cases "tl ts") (auto simp: stringify_task_def)

lemma parse_value_open_array:
  "s = c # s' \<Longrightarrow> \<not> is_json_ws c \<Longrightarrow> c \<noteq> 0x5D \<Longrightarrow>
   parse_value (Suc n) (0x5B # s) =
     (case parse_elements n s of
        Parsed vs x \<Rightarrow> Parsed (JArray vs) x | Fail \<Rightarrow> Fail | OutOfFuel \<Rightarrow> OutOfFuel)"
  by (subst parse_value.simps) simp

lemma parse_value_empty_array [simp]: "parse_value (Suc m) (0x5B # 0x5D # r) = Parsed (JArray []) r"
  by (subst parse_value.simps) simp

lemma parse_value_tasks:
  assumes "length ts + 6 \<le> n"
  shows "parse_value n (JSON_stringify ts @ r) = Parsed (to_json ts) r"
proof (cases "ts = []")
  case True
  from assms obtain m where "n = Suc m" by (cases n) auto
  with True show ?thesis by (simp add: JSON_stringify_def to_json_def)
next
  case False
  from assms obtain m where n: "n = Suc m" and m: "length ts + 5 \<le> m" by (cases n) auto
  from False have "parse_elements m (separated (map stringify_task ts) @ 0x5D # r) = Parsed (map to_json_task ts) r"
    using m by (rule parse_elements_tasks)
  moreover from False obtain y where "separated (map stringify_task ts) @ 0x5D # r = 0x7B # y"
    using separated_head by blast
  ultimately show ?thesis unfolding n
    by (simp add: JSON_stringify_def to_json_def parse_value_open_array is_json_ws_def)
qed

lemma length_stringify_task: "5 \<le> length (stringify_task t)"
  by (simp add: stringify_task_def member_def quote_def)

lemma length_separated_ge: "sum_list (map length xs) \<le> length (separated xs)"
  by (induction xs rule: separated.induct) auto

lemma sum_length_tasks: "5 * length ts \<le> sum_list (map length (map stringify_task ts))"
  using length_stringify_task by (induction ts) (auto intro: add_mono)

lemma length_JSON_stringify: "5 * length ts + 2 \<le> length (JSON_stringify ts)"
  using length_separated_ge [of "map stringify_task ts"] sum_length_tasks [of ts]
  by (simp add: JSON_stringify_def)

lemma fuel_for_stringify: "length ts + 6 \<le> fuel_for (JSON_stringify ts) \<or> ts = []"
  using length_JSON_stringify [of ts] by (cases ts) (auto simp: fuel_for_def)

lemma skip_ws_Nil [simp]: "skip_ws [] = []"
  by (simp add: skip_ws_def)

lemma JSON_parse_stringify: "JSON_parse (JSON_stringify ts) = Inr (to_json ts)"
proof (cases "ts = []")
  case True
  then show ?thesis
    by (simp add: JSON_parse_def JSON_stringify_def fuel_for_def to_json_def eval_nat_numeral)
next
  case False
  then have "length ts + 6 \<le> fuel_for (JSON_stringify ts)" using fuel_for_stringify [of ts] by simp
  then have "parse_value (fuel_for (JSON_stringify ts)) (JSON_stringify ts @ []) = Parsed (to_json ts) []"
    by (rule parse_value_tasks)
  then show ?thesis by (simp add: JSON_parse_def)
qed

lemma as_task_to_json_task [simp]: "as_task (to_json_task t) = Some t"
  by (simp add: as_task_def to_json_task_def)

lemma those_map_Some: "(\<And>x. f (g x) = Some x) \<Longrightarrow> those (map (f \<circ> g) xs) = Some xs"
  by (induction xs) simp_all

lemma as_tasks_to_json [simp]: "as_tasks (to_json ts) = Tasks ts"
  by (simp add: as_tasks_def to_json_def those_map_Some)

lemma JSON_stringify_nonempty [simp]: "JSON_stringify ts \<noteq> []"
  by (simp add: JSON_stringify_def)

lemma codec_ok_json: "codec_ok json_codec"
  by (simp add: codec_ok_def json_codec_def JSON_parse_stringify)

section \<open>Every successful step consumes input\<close>

lemma length_skip_ws: "length (skip_ws s) \<le> length s"
  by (simp add: skip_ws_def length_dropWhile_le)

lemma skip_ws_ConsD: "skip_ws s = c # r \<Longrightarrow> length r < length s"
  using length_skip_ws [of s] by simp

lemma consed_eq_Some: "consed c x = Some (v, r) \<longleftrightarrow> (\<exists>w. x = Some (w, r) \<and> v = c # w)"
  by (cases x) (auto simp: consed_def)

lemma lex_string_SomeD:
  "lex_string (c # s) = Some (v, r) \<Longrightarrow>
     r = s \<or> (\<exists>s' w. length s' \<le> length s \<and> lex_string s' = Some (w, r))"
  by (subst (asm) lex_string.simps)
     (fastforce simp: consed_eq_Some split: if_splits list.splits option.splits)

lemma lex_string_shorter: "lex_string s = Some (v, r) \<Longrightarrow> length r < length s"
proof (induction s arbitrary: v rule: length_induct)
  case (1 s)
  then obtain c s1 where s: "s = c # s1" by (cases s) (auto simp: lex_string.simps)
  from "1.prems" consider "r = s1" | s' w where "length s' \<le> length s1" "lex_string s' = Some (w, r)"
    unfolding s by (blast dest: lex_string_SomeD)
  then show ?case
  proof cases
    case 1
    then show ?thesis by (simp add: s)
  next
    case 2
    with "1.IH" have "length r < length s'" by (simp add: s)
    with 2 show ?thesis by (simp add: s)
  qed
qed


lemma length_takeWhile_dropWhile: "length (takeWhile P s) + length (dropWhile P s) = length s"
  by (metis length_append takeWhile_dropWhile_id)

lemma lex_digits_shorter: "lex_digits s = Some (v, r) \<Longrightarrow> length r < length s"
proof -
  assume "lex_digits s = Some (v, r)"
  then have "takeWhile is_digit s \<noteq> []" and r: "r = dropWhile is_digit s"
    by (auto simp: lex_digits_def split: if_splits)
  then have "0 < length (takeWhile is_digit s)" by simp
  with length_takeWhile_dropWhile [of is_digit s] show ?thesis unfolding r by linarith
qed

lemma lex_int_shorter: "lex_int s = Some (v, r) \<Longrightarrow> length r < length s"
  by (auto simp: lex_int_def split: list.splits if_splits dest: lex_digits_shorter)

lemma lex_frac_le: "lex_frac s = Some (v, r) \<Longrightarrow> length r \<le> length s"
  by (auto simp: lex_frac_def consed_eq_Some split: list.splits if_splits dest!: lex_digits_shorter)

lemma lex_exp_le: "lex_exp s = Some (v, r) \<Longrightarrow> length r \<le> length s"
  by (auto simp: lex_exp_def consed_eq_Some split: list.splits if_splits dest!: lex_digits_shorter)

lemma lex_unsigned_shorter: "lex_unsigned s = Some (v, r) \<Longrightarrow> length r < length s"
  by (auto simp: lex_unsigned_def split: option.splits
      dest!: lex_int_shorter lex_frac_le lex_exp_le)

lemma lex_number_shorter: "lex_number s = Some (v, r) \<Longrightarrow> length r < length s"
  by (auto simp: lex_number_def consed_eq_Some split: list.splits if_splits
      dest!: lex_unsigned_shorter)

lemma strip_prefix_shorter: "strip_prefix p s = Some r \<Longrightarrow> p \<noteq> [] \<Longrightarrow> length r < length s"
  by (cases p) (auto simp: strip_prefix_def split: if_splits dest: arg_cong [where f = length])

lemmas lexer_shorter = skip_ws_ConsD lex_string_shorter lex_number_shorter

lemma literal_shorter:
  "strip_prefix (of_ascii ''true'') s = Some r \<or> strip_prefix (of_ascii ''false'') s = Some r
   \<or> strip_prefix (of_ascii ''null'') s = Some r \<Longrightarrow> length r < length s"
  by (auto dest!: strip_prefix_shorter)

lemma parse_value_step:
  assumes E: "\<And>s vs r. parse_elements n s = Parsed vs r \<Longrightarrow> length r < length s"
    and M: "\<And>s ms r. parse_members n s = Parsed ms r \<Longrightarrow> length r < length s"
    and "parse_value (Suc n) s = Parsed v r"
  shows "length r < length s"
  using assms(3)
  by (subst (asm) parse_value.simps)
     (auto split: list.splits if_splits parse_result.splits option.splits
        dest!: lexer_shorter E M literal_shorter [OF disjI1] literal_shorter [OF disjI2, OF disjI1]
          literal_shorter [OF disjI2, OF disjI2])

lemma parse_elements_step:
  assumes V: "\<And>s v r. parse_value n s = Parsed v r \<Longrightarrow> length r < length s"
    and E: "\<And>s vs r. parse_elements n s = Parsed vs r \<Longrightarrow> length r < length s"
    and "parse_elements (Suc n) s = Parsed vs r"
  shows "length r < length s"
  using assms(3)
  by (subst (asm) parse_elements.simps)
     (auto split: list.splits if_splits parse_result.splits dest!: lexer_shorter V E)

lemma parse_members_step:
  assumes V: "\<And>s v r. parse_value n s = Parsed v r \<Longrightarrow> length r < length s"
    and M: "\<And>s ms r. parse_members n s = Parsed ms r \<Longrightarrow> length r < length s"
    and "parse_members (Suc n) s = Parsed ms r"
  shows "length r < length s"
  using assms(3)
  by (subst (asm) parse_members.simps)
     (auto split: list.splits if_splits parse_result.splits option.splits
        dest!: lexer_shorter V M)

lemma parse_shorter:
  "(\<forall>s v r. parse_value n s = Parsed v r \<longrightarrow> length r < length s)
   \<and> (\<forall>s vs r. parse_elements n s = Parsed vs r \<longrightarrow> length r < length s)
   \<and> (\<forall>s ms r. parse_members n s = Parsed ms r \<longrightarrow> length r < length s)"
proof (induction n)
  case 0
  show ?case by simp
next
  case (Suc n)
  then show ?case
    by (intro conjI allI impI) (blast intro: parse_value_step parse_elements_step parse_members_step)+
qed

lemma parse_value_shorter: "parse_value n s = Parsed v r \<Longrightarrow> length r < length s"
  using parse_shorter by blast

lemma parse_elements_shorter: "parse_elements n s = Parsed vs r \<Longrightarrow> length r < length s"
  using parse_shorter by blast

lemma parse_members_shorter: "parse_members n s = Parsed ms r \<Longrightarrow> length r < length s"
  using parse_shorter by blast

section \<open>The fuel is enough\<close>

lemma parse_value_fuel_step:
  assumes E: "\<And>s. 2 * length s + 1 < n \<Longrightarrow> parse_elements n s \<noteq> OutOfFuel"
    and M: "\<And>s. 2 * length s + 1 < n \<Longrightarrow> parse_members n s \<noteq> OutOfFuel"
    and "2 * length s < Suc n"
  shows "parse_value (Suc n) s \<noteq> OutOfFuel"
proof
  assume "parse_value (Suc n) s = OutOfFuel"
  then obtain c r where "skip_ws s = c # r"
    and "parse_elements n r = OutOfFuel \<or> parse_members n r = OutOfFuel"
    by (subst (asm) parse_value.simps)
       (auto split: list.splits if_splits parse_result.splits option.splits)
  moreover from this(1) have "length r < length s" by (rule skip_ws_ConsD)
  with assms(3) have "2 * length r + 1 < n" by simp
  ultimately show False using E M by blast
qed

lemma parse_elements_fuel_step:
  assumes V: "\<And>s. 2 * length s < n \<Longrightarrow> parse_value n s \<noteq> OutOfFuel"
    and E: "\<And>s. 2 * length s + 1 < n \<Longrightarrow> parse_elements n s \<noteq> OutOfFuel"
    and "2 * length s + 1 < Suc n"
  shows "parse_elements (Suc n) s \<noteq> OutOfFuel"
proof
  assume "parse_elements (Suc n) s = OutOfFuel"
  then consider "parse_value n s = OutOfFuel"
    | v r c r1 where "parse_value n s = Parsed v r" "skip_ws r = c # r1" "parse_elements n r1 = OutOfFuel"
    by (subst (asm) parse_elements.simps)
       (auto split: list.splits if_splits parse_result.splits)
  then show False
  proof cases
    case 1
    with V assms(3) show False by simp
  next
    case 2
    then have "length r < length s" "length r1 < length r"
      by (auto dest: parse_value_shorter skip_ws_ConsD)
    with assms(3) have "2 * length r1 + 1 < n" by simp
    with E 2 show False by blast
  qed
qed

lemma parse_members_fuel_step:
  assumes V: "\<And>s. 2 * length s < n \<Longrightarrow> parse_value n s \<noteq> OutOfFuel"
    and M: "\<And>s. 2 * length s + 1 < n \<Longrightarrow> parse_members n s \<noteq> OutOfFuel"
    and "2 * length s + 1 < Suc n"
  shows "parse_members (Suc n) s \<noteq> OutOfFuel"
proof
  assume "parse_members (Suc n) s = OutOfFuel"
  then consider q r0 k r1 c r2 where "skip_ws s = q # r0" "lex_string r0 = Some (k, r1)"
      "skip_ws r1 = c # r2" "parse_value n r2 = OutOfFuel"
    | q r0 k r1 c r2 v r3 d r4 where "skip_ws s = q # r0" "lex_string r0 = Some (k, r1)"
      "skip_ws r1 = c # r2" "parse_value n r2 = Parsed v r3" "skip_ws r3 = d # r4"
      "parse_members n r4 = OutOfFuel"
    by (subst (asm) parse_members.simps)
       (auto split: list.splits if_splits parse_result.splits option.splits)
  then show False
  proof cases
    case 1
    then have "length r2 < length s"
      by (auto dest!: lex_string_shorter skip_ws_ConsD)
    with V assms(3) 1 show False by simp
  next
    case 2
    then have "length r4 + 1 < length s"
      by (auto dest!: lex_string_shorter skip_ws_ConsD parse_value_shorter)
    with assms(3) have "2 * length r4 + 1 < n" by simp
    with M 2 show False by blast
  qed
qed

lemma parse_fuel:
  "(\<forall>s. 2 * length s < n \<longrightarrow> parse_value n s \<noteq> OutOfFuel)
   \<and> (\<forall>s. 2 * length s + 1 < n \<longrightarrow> parse_elements n s \<noteq> OutOfFuel)
   \<and> (\<forall>s. 2 * length s + 1 < n \<longrightarrow> parse_members n s \<noteq> OutOfFuel)"
proof (induction n)
  case 0
  show ?case by simp
next
  case (Suc n)
  then have V: "\<And>s. 2 * length s < n \<Longrightarrow> parse_value n s \<noteq> OutOfFuel"
    and E: "\<And>s. 2 * length s + 1 < n \<Longrightarrow> parse_elements n s \<noteq> OutOfFuel"
    and M: "\<And>s. 2 * length s + 1 < n \<Longrightarrow> parse_members n s \<noteq> OutOfFuel"
    by simp_all
  show ?case
    using parse_value_fuel_step [OF E M] parse_elements_fuel_step [OF V E]
      parse_members_fuel_step [OF V M]
    by simp
qed

lemma parse_value_fuel_for: "parse_value (fuel_for s) s \<noteq> OutOfFuel"
  using parse_fuel [of "fuel_for s"] by (simp add: fuel_for_def)

section \<open>More fuel does not change a result\<close>

lemma settled_refl: "settled a a"
  by (simp add: settled_def)

lemma settled_result:
  "settled a b \<Longrightarrow> (\<And>v r. settled (f v r) (g v r)) \<Longrightarrow>
   settled (case a of Parsed v r \<Rightarrow> f v r | Fail \<Rightarrow> Fail | OutOfFuel \<Rightarrow> OutOfFuel)
           (case b of Parsed v r \<Rightarrow> g v r | Fail \<Rightarrow> Fail | OutOfFuel \<Rightarrow> OutOfFuel)"
  by (auto simp: settled_def split: parse_result.splits)

lemma settled_list:
  "settled a b \<Longrightarrow> (\<And>c r. settled (f c r) (g c r)) \<Longrightarrow>
   settled (case xs of [] \<Rightarrow> a | c # r \<Rightarrow> f c r) (case xs of [] \<Rightarrow> b | c # r \<Rightarrow> g c r)"
  by (cases xs) simp_all

lemma settled_option:
  "settled a b \<Longrightarrow> (\<And>x. settled (f x) (g x)) \<Longrightarrow>
   settled (case y of None \<Rightarrow> a | Some x \<Rightarrow> f x) (case y of None \<Rightarrow> b | Some x \<Rightarrow> g x)"
  by (cases y) simp_all

lemma settled_prod:
  "(\<And>x y. settled (f x y) (g x y)) \<Longrightarrow> settled (case p of (x, y) \<Rightarrow> f x y) (case p of (x, y) \<Rightarrow> g x y)"
  by (cases p) simp

lemma settled_if:
  "settled a b \<Longrightarrow> settled c d \<Longrightarrow> settled (if P then a else c) (if P then b else d)"
  by simp

lemmas settled_intros = settled_refl settled_result settled_list settled_option settled_prod settled_if

lemma parse_value_settled_step:
  assumes E: "\<And>s. settled (parse_elements n s) (parse_elements m s)"
    and M: "\<And>s. settled (parse_members n s) (parse_members m s)"
  shows "settled (parse_value (Suc n) s) (parse_value (Suc m) s)"
  unfolding parse_value.simps by (intro settled_intros E M)

lemma parse_elements_settled_step:
  assumes V: "\<And>s. settled (parse_value n s) (parse_value m s)"
    and E: "\<And>s. settled (parse_elements n s) (parse_elements m s)"
  shows "settled (parse_elements (Suc n) s) (parse_elements (Suc m) s)"
  unfolding parse_elements.simps by (intro settled_intros V E)

lemma parse_members_settled_step:
  assumes V: "\<And>s. settled (parse_value n s) (parse_value m s)"
    and M: "\<And>s. settled (parse_members n s) (parse_members m s)"
  shows "settled (parse_members (Suc n) s) (parse_members (Suc m) s)"
  unfolding parse_members.simps by (intro settled_intros V M)

lemma parse_settled:
  "n \<le> m \<Longrightarrow>
   settled (parse_value n s) (parse_value m s)
   \<and> settled (parse_elements n s) (parse_elements m s)
   \<and> settled (parse_members n s) (parse_members m s)"
proof (induction n arbitrary: m s)
  case 0
  show ?case by (simp add: settled_def)
next
  case (Suc n)
  from Suc.prems obtain k where m: "m = Suc k" and "n \<le> k" by (cases m) auto
  note IH = Suc.IH [OF this(2)]
  show ?case
    unfolding m
    by (intro conjI parse_value_settled_step parse_elements_settled_step
        parse_members_settled_step IH [THEN conjunct1] IH [THEN conjunct2, THEN conjunct1]
        IH [THEN conjunct2, THEN conjunct2])
qed

lemma parse_value_more_fuel:
  "fuel_for s \<le> n \<Longrightarrow> parse_value n s = parse_value (fuel_for s) s"
  using parse_settled [of "fuel_for s" n s] parse_value_fuel_for [of s]
  by (simp add: settled_def)

section \<open>Running the parser on a concrete input\<close>

text \<open>
  The rules that evaluate the parser on a literal input with a literal bound. They
  are used with \<open>Suc_numeral\<close> removed from the simpset, which would fold the bound
  back into a numeral.
\<close>

lemma fuel_numeral:
  "parse_value (numeral k) = parse_value (Suc (pred_numeral k))"
  "parse_elements (numeral k) = parse_elements (Suc (pred_numeral k))"
  "parse_members (numeral k) = parse_members (Suc (pred_numeral k))"
  by (simp_all only: numeral_eq_Suc)

lemmas run_parser =
  fuel_numeral parse_value.simps parse_elements.simps parse_members.simps lex_string.simps
  skip_ws_def is_json_ws_def of_ascii_def fuel_for_def JSON_parse_def

section \<open>The builtins implement the codec interface\<close>

text \<open>
  Every string survives quoting and parsing: \<open>JSON.parse\<close> applied to the text
  \<open>QuoteJSONString\<close> produces for a string returns that string, whatever code units it
  holds (quotes, backslashes, control characters, paired and lone surrogates).
\<close>

lemma JSON_parse_quote: "JSON_parse (quote s) = Inr (JString s)"
  by (simp add: JSON_parse_def fuel_for_def quote_def)

text \<open>
  C9. Parsing a printed task list gives the list back: \<open>JSON.parse\<close> accepts the
  output of \<open>JSON.stringify\<close> on any list of task records, returns the array of the
  three-property objects, and that array is read as the same list of records, with
  every identifier, text and timestamp unchanged and in the same order.
\<close>

theorem stringify_parse_roundtrip:
  "JSON_parse (JSON_stringify ts) = Inr (to_json ts)
   \<and> as_tasks (to_json ts) = Tasks ts
   \<and> parse json_codec (stringify json_codec ts) = Inr (Tasks ts)"
  by (simp add: JSON_parse_stringify json_codec_def)

text \<open>
  C24. The parser never runs out of fuel: with the bound \<open>JSON_parse\<close> passes, or
  any larger one, the result is a value or a syntax error, and it is the same for every
  such bound. So \<open>JSON_parse\<close> is a total function that does not depend on the bound.
\<close>

theorem fuel_suffices:
  assumes "fuel_for s \<le> n"
  shows "parse_value n s \<noteq> OutOfFuel
       \<and> parse_value n s = parse_value (fuel_for s) s
       \<and> parse json_codec s =
           (case parse_value n s of
              Parsed v r \<Rightarrow> if skip_ws r = [] then Inr (as_tasks v) else Inl SyntaxError
            | Fail \<Rightarrow> Inl SyntaxError
            | OutOfFuel \<Rightarrow> Inl SyntaxError)"
  using assms parse_value_fuel_for [of s] parse_value_more_fuel [of s n]
  by (simp add: json_codec_def JSON_parse_def split: parse_result.splits)

theorem fuel_suffices_witness:
  "fuel_for (of_ascii ''[[]]'') \<le> 20
   \<and> parse_value 20 (of_ascii ''[[]]'') = Parsed (JArray [JArray []]) []"
  using fuel_suffices [of "of_ascii ''[[]]''" 20]
  by (simp add: run_parser del: Suc_numeral)

text \<open>
  Printing is injective: two task lists with the same JSON text are equal, so the
  string the persist effect stores determines the list.
\<close>

theorem stringify_inj: "stringify json_codec ts = stringify json_codec us \<longleftrightarrow> ts = us"
  using codec_ok_json by (rule codec_ok_inj)

section \<open>The length of a printed list\<close>

text \<open>
  A code unit prints as one to six code units, so a printed task takes between 35 code
  units more than its strings and 35 more than six times its strings.
\<close>

lemma length_hex4 [simp]: "length (hex4 c) = 4"
  by (simp add: hex4_def)

lemma length_escape_unit: "1 \<le> length (escape_unit c) \<and> length (escape_unit c) \<le> 6"
  by (simp add: escape_unit_def)

lemma length_quote_body:
  "length s \<le> length (quote_body s) \<and> length (quote_body s) \<le> 6 * length s"
proof (induction s rule: quote_body.induct)
  case (2 c)
  then show ?case using length_escape_unit [of c] by simp
next
  case (3 c d r)
  then show ?case using length_escape_unit [of c] by (cases "is_high c \<and> is_low d") auto
qed simp

lemma length_quote:
  "length s + 2 \<le> length (quote s) \<and> length (quote s) \<le> 6 * length s + 2"
  using length_quote_body [of s] by (simp add: quote_def)

lemma length_quote_key [simp]:
  "length (quote (of_ascii ''id'')) = 4" "length (quote (of_ascii ''text'')) = 6"
  "length (quote (of_ascii ''created_at'')) = 12"
  by (simp_all add: quote_def of_ascii_def escape_unit_def is_high_def is_low_def)

lemma length_stringify_task_bounds:
  "35 + task_size t \<le> length (stringify_task t)
   \<and> length (stringify_task t) \<le> 35 + 6 * task_size t"
  using length_quote [of "task_id t"] length_quote [of "task_text t"] length_quote [of "created_at t"]
  by (simp add: stringify_task_def member_def task_size_def)

lemma length_separated:
  "length (separated xs) = sum_list (map length xs) + (length xs - 1)"
  by (induction xs rule: separated.induct) simp_all

lemma length_JSON_stringify_bounds:
  "length (JSON_stringify ts) \<le> 2 + sum_list (map (\<lambda>t. 36 + 6 * task_size t) ts)"
proof -
  have "sum_list (map (length \<circ> stringify_task) ts) + length ts
        = sum_list (map (\<lambda>t. length (stringify_task t) + 1) ts)"
    by (induction ts) simp_all
  also have "\<dots> \<le> sum_list (map (\<lambda>t. 36 + 6 * task_size t) ts)"
    using length_stringify_task_bounds by (intro sum_list_mono_map) (simp add: add.commute le_Suc_eq)
  finally show ?thesis by (simp add: JSON_stringify_def length_separated)
qed

end
