(* ===== verification/Persistence.thy ===== *)
theory Persistence
  imports Machine Json "HOL-Library.AList"
begin

text \<open>
  The two effects of \<open>TodoAppExecutable\<close> (\<open>src/todo_app_minimal.jsx\<close>) and the
  life cycle they give the component: the effect that loads the task list from
  \<open>localStorage\<close> when the component mounts, the effect that writes the list back after
  every commit that replaces the \<open>tasks\<close> array, the mount itself (first render, both
  effects, the render that follows), and a session of events with the writes they
  cause. \<open>localStorage\<close> is modelled as a storage area that can refuse access and has
  a quota; serialisation goes through the interface of theory \<open>Codec\<close>, which the JSON
  builtins of theory \<open>Json\<close> implement. The theorems: what is saved is what a reload
  shows; failures of the storage are logged and never change the state on screen, and a
  reload after failed writes shows a list that was on screen earlier; only
  the component's key is written; a quota that is enough for a save; and where the
  effects lose, overwrite or install unchecked what was stored.
\<close>

section \<open>The storage area\<close>

text \<open>
  \<open>localStorage\<close> as the source uses it: a list of key/value pairs of strings with
  at most one pair per key. \<open>available\<close> is false when the browser denies access to
  the storage (every call then throws a \<open>SecurityError\<close>); \<open>quota\<close> bounds the
  number of code units of all keys and values together (a write that would exceed it
  throws a \<open>QuotaExceededError\<close> and changes nothing).
\<close>

record storage =
  available :: bool
  quota :: nat
  entries :: "(jsstring \<times> jsstring) list"

definition used :: "(jsstring \<times> jsstring) list \<Rightarrow> nat" where
  "used es = sum_list (map (\<lambda>(k, v). length k + length v) es)"

definition getItem :: "storage \<Rightarrow> jsstring \<Rightarrow> js_error + jsstring option" where
  "getItem st k = (if available st then Inr (map_of (entries st) k) else Inl SecurityError)"

definition setItem :: "storage \<Rightarrow> jsstring \<Rightarrow> jsstring \<Rightarrow> js_error + storage" where
  "setItem st k v =
     (if \<not> available st then Inl SecurityError
      else if quota st < used (AList.update k v (entries st)) then Inl QuotaExceededError
      else Inr (st\<lparr>entries := AList.update k v (entries st)\<rparr>))"

text \<open>\<open>fits st k v\<close>: writing \<open>v\<close> under \<open>k\<close> succeeds.\<close>

definition fits :: "storage \<Rightarrow> jsstring \<Rightarrow> jsstring \<Rightarrow> bool" where
  "fits st k v \<longleftrightarrow> available st \<and> used (AList.update k v (entries st)) \<le> quota st"

text \<open>A storage area holds at most one value under a key.\<close>

definition storage_ok :: "storage \<Rightarrow> bool" where
  "storage_ok st \<longleftrightarrow> distinct (map fst (entries st))"

text \<open>What a storage area holds is within its quota.\<close>

definition within_quota :: "storage \<Rightarrow> bool" where
  "within_quota st \<longleftrightarrow> used (entries st) \<le> quota st"

section \<open>The two effects\<close>

definition STORAGE_KEY :: jsstring where
  "STORAGE_KEY = of_ascii ''todo_minimal_v1''"

text \<open>The two calls of \<open>console.error\<close>, with the exception they report.\<close>

datatype log_entry = FailedToLoad js_error | FailedToSave js_error

text \<open>
  What the load effect does to the component: it queues setter calls (none, or
  \<open>setTasks\<close> with the parsed list), or it calls \<open>setTasks\<close> with a parsed value that
  is not a list of task records (\<open>Installed\<close>).
\<close>

datatype loaded = Queued "action list" | Installed json

definition loadEffect :: "codec \<Rightarrow> storage \<Rightarrow> loaded \<times> log_entry list" where
  "loadEffect c st =
     (case getItem st STORAGE_KEY of
        Inl e \<Rightarrow> (Queued [], [FailedToLoad e])
      | Inr None \<Rightarrow> (Queued [], [])
      | Inr (Some raw) \<Rightarrow>
          if raw = [] then (Queued [], [])
          else
            (case parse c raw of
               Inl e \<Rightarrow> (Queued [], [FailedToLoad e])
             | Inr (Tasks ts) \<Rightarrow> (Queued [SetTasks (\<lambda>_. ts)], [])
             | Inr (Foreign j) \<Rightarrow> (Installed j, [])))"

definition persistEffect :: "codec \<Rightarrow> task list \<Rightarrow> storage \<Rightarrow> storage \<times> log_entry list" where
  "persistEffect c ts st =
     (case setItem st STORAGE_KEY (stringify c ts) of
        Inl e \<Rightarrow> (st, [FailedToSave e])
      | Inr st' \<Rightarrow> (st', []))"

section \<open>Rendering a value that is not a task list\<close>

text \<open>
  What the JSX does when the \<open>tasks\<close> cell holds a parsed value that is not a list of
  task records. It evaluates \<open>tasks.length\<close> and \<open>tasks.map(task => ... task.id ...)\<close>:
  reading a property of \<open>null\<close> throws a \<open>TypeError\<close>, and so does calling \<open>map\<close> on a
  value that is not an array (no JSON value has a callable \<open>map\<close> property). On an
  array the callback reads \<open>task.id\<close>, which throws when the element is \<open>null\<close>.
  \<open>render_throws\<close> is sufficient for the render to fail, not necessary: React can
  reject a rendered child for reasons of its own.
\<close>

definition render_throws :: "json \<Rightarrow> bool" where
  "render_throws j = (case j of JArray els \<Rightarrow> list_ex (\<lambda>e. e = JNull) els | _ \<Rightarrow> True)"

section \<open>Mounting\<close>

text \<open>
  A running component with its environment: the state of the last render, the storage
  area, and what has been written to the console.
\<close>

record session =
  ui :: state
  disk :: storage
  console :: "log_entry list"

text \<open>
  The outcome of mounting: the component is up with a state of task records; or the
  render that follows the load threw; or the load installed an array that is not a list
  of task records and the render did not throw (the component then runs outside this
  model).
\<close>

datatype boot =
    Up session
  | Threw js_error storage "log_entry list"
  | Untyped json storage "log_entry list"

text \<open>
  One pass of the effects after a render, in the order the source declares them: the
  load effect reads the storage as it is, then the persist effect writes the \<open>tasks\<close>
  of that render.
\<close>

definition mount_effects :: "codec \<Rightarrow> task list \<Rightarrow> storage \<Rightarrow> loaded \<times> storage \<times> log_entry list" where
  "mount_effects c ts st =
     (case loadEffect c st of
        (ld, log1) \<Rightarrow> (case persistEffect c ts st of (st', log2) \<Rightarrow> (ld, st', log1 @ log2)))"

text \<open>
  After the effects React commits what they queued and renders again; when the
  \<open>tasks\<close> array was replaced the persist effect runs once more with the new list.
\<close>

definition settle :: "codec \<Rightarrow> loaded \<Rightarrow> storage \<Rightarrow> log_entry list \<Rightarrow> boot" where
  "settle c ld st log =
     (case ld of
        Installed j \<Rightarrow> if render_throws j then Threw TypeError st log else Untyped j st log
      | Queued acts \<Rightarrow>
          if tasks_replaced acts then
            (case persistEffect c (tasks (commit init_state acts)) st of
               (st', log') \<Rightarrow> Up \<lparr>ui = commit init_state acts, disk = st', console = log @ log'\<rparr>)
          else Up \<lparr>ui = commit init_state acts, disk = st, console = log\<rparr>)"

definition mount :: "codec \<Rightarrow> storage \<Rightarrow> boot" where
  "mount c st =
     (case mount_effects c (tasks init_state) st of (ld, st', log) \<Rightarrow> settle c ld st' log)"

text \<open>
  Under \<open>React.StrictMode\<close> in development the effects of a mounting component run
  twice before the next render; both passes close over the first render. The setter
  calls of both passes are queued in order, and a later \<open>setTasks(value)\<close> overrides an
  earlier one.
\<close>

fun later :: "loaded \<Rightarrow> loaded \<Rightarrow> loaded" where
  "later (Queued a) (Queued b) = Queued (a @ b)"
| "later (Installed j) (Queued b) = (if tasks_replaced b then Queued b else Installed j)"
| "later ld (Installed j) = Installed j"

definition mount_strict :: "codec \<Rightarrow> storage \<Rightarrow> boot" where
  "mount_strict c st =
     (case mount_effects c (tasks init_state) st of
        (ld1, st1, log1) \<Rightarrow>
          (case mount_effects c (tasks init_state) st1 of
             (ld2, st2, log2) \<Rightarrow> settle c (later ld1 ld2) st2 (log1 @ log2)))"

section \<open>A session of events\<close>

text \<open>
  One event: its handler runs, React commits the setter calls and renders, and the
  persist effect runs if the commit replaced the \<open>tasks\<close> array.
\<close>

definition dispatch :: "codec \<Rightarrow> session \<Rightarrow> event \<Rightarrow> session" where
  "dispatch c x ev =
     (if tasks_replaced (handle (ui x) ev) then
        (case persistEffect c (tasks (step (ui x) ev)) (disk x) of
           (st', log) \<Rightarrow> \<lparr>ui = step (ui x) ev, disk = st', console = console x @ log\<rparr>)
      else x\<lparr>ui := step (ui x) ev\<rparr>)"

definition session_run :: "codec \<Rightarrow> session \<Rightarrow> event list \<Rightarrow> session" where
  "session_run c x evs = foldl (dispatch c) x evs"

text \<open>
  \<open>in_sync\<close>: the storage holds, under the key of the application, the serialisation
  of the task list on screen.
\<close>

definition in_sync :: "codec \<Rightarrow> session \<Rightarrow> bool" where
  "in_sync c x \<longleftrightarrow> map_of (entries (disk x)) STORAGE_KEY = Some (stringify c (tasks (ui x)))"

section \<open>Example values\<close>

text \<open>
  The task of the specification's loading scenario, a storage area that holds the list
  of that task, an empty one, one that denies access, and one that is full.
\<close>

definition task_x :: task where
  "task_x = \<lparr>task_id = of_ascii ''a'', task_text = of_ascii ''X'',
             created_at = of_ascii ''2024-01-01T00:00:00Z''\<rparr>"

text \<open>The string \<open>[{"id":"a","text":"X","created_at":"2024-01-01T00:00:00Z"}]\<close>.\<close>

definition stored_x :: jsstring where
  "stored_x =
     [0x5B, 0x7B, 0x22] @ of_ascii ''id'' @ [0x22, 0x3A, 0x22] @ of_ascii ''a'' @ [0x22, 0x2C, 0x22]
       @ of_ascii ''text'' @ [0x22, 0x3A, 0x22] @ of_ascii ''X'' @ [0x22, 0x2C, 0x22]
       @ of_ascii ''created_at'' @ [0x22, 0x3A, 0x22] @ of_ascii ''2024-01-01T00:00:00Z''
       @ [0x22, 0x7D, 0x5D]"

definition disk_x :: storage where
  "disk_x = \<lparr>available = True, quota = 5000000, entries = [(STORAGE_KEY, stored_x)]\<rparr>"

definition disk_empty :: storage where
  "disk_empty = \<lparr>available = True, quota = 5000000, entries = []\<rparr>"

definition disk_denied :: storage where
  "disk_denied = \<lparr>available = False, quota = 5000000, entries = []\<rparr>"

definition disk_corrupt :: storage where
  "disk_corrupt = \<lparr>available = True, quota = 5000000,
                   entries = [(STORAGE_KEY, of_ascii ''{oops'')]\<rparr>"

definition disk_null :: storage where
  "disk_null = \<lparr>available = True, quota = 5000000,
                entries = [(STORAGE_KEY, of_ascii ''null'')]\<rparr>"

definition disk_full :: storage where
  "disk_full = \<lparr>available = True, quota = 17, entries = [(STORAGE_KEY, of_ascii ''[]'')]\<rparr>"



text \<open>A session that starts with the empty list on a storage area that is full.\<close>

definition session_full :: session where
  "session_full = \<lparr>ui = init_state, disk = disk_full, console = []\<rparr>"

text \<open>Sessions on these storage areas: one task on screen, and the same while it is edited.\<close>

definition session_x :: session where
  "session_x = \<lparr>ui = init_state\<lparr>tasks := [task_x]\<rparr>, disk = disk_x, console = []\<rparr>"

definition session_x_edit :: session where
  "session_x_edit =
     \<lparr>ui = init_state\<lparr>tasks := [task_x], editingId := Some (of_ascii ''a''),
                        editingText := of_ascii ''X ''\<rparr>,
      disk = disk_x, console = []\<rparr>"

section \<open>Reading and writing the storage\<close>

lemma setItem_eq:
  "setItem st k v =
     (if fits st k v then Inr (st\<lparr>entries := AList.update k v (entries st)\<rparr>)
      else Inl (if available st then QuotaExceededError else SecurityError))"
  by (auto simp: setItem_def fits_def)

lemma getItem_eq: "getItem st k = (if available st then Inr (map_of (entries st) k) else Inl SecurityError)"
  by (simp add: getItem_def)

lemma fits_available: "fits st k v \<Longrightarrow> available st"
  by (simp add: fits_def)

lemma fits_overwritten [simp]:
  "fits (st\<lparr>entries := AList.update k w (entries st)\<rparr>) k v = fits st k v"
  by (simp add: fits_def update_last)

lemma getItem_setItem:
  "setItem st k v = Inr st' \<Longrightarrow>
   getItem st' k' = Inr (if k' = k then Some v else map_of (entries st) k')"
  by (auto simp: setItem_eq getItem_def update_conv' fits_available split: if_splits)

section \<open>The effects case by case\<close>

lemma persistEffect_eq:
  "persistEffect c ts st =
     (if fits st STORAGE_KEY (stringify c ts)
      then (st\<lparr>entries := AList.update STORAGE_KEY (stringify c ts) (entries st)\<rparr>, [])
      else (st, [FailedToSave (if available st then QuotaExceededError else SecurityError)]))"
  by (simp add: persistEffect_def setItem_eq)

lemma loadEffect_denied: "\<not> available st \<Longrightarrow> loadEffect c st = (Queued [], [FailedToLoad SecurityError])"
  by (simp add: loadEffect_def getItem_def)

lemma loadEffect_absent:
  "available st \<Longrightarrow> map_of (entries st) STORAGE_KEY = None \<Longrightarrow> loadEffect c st = (Queued [], [])"
  by (simp add: loadEffect_def getItem_def)

lemma loadEffect_stored:
  "available st \<Longrightarrow> map_of (entries st) STORAGE_KEY = Some raw \<Longrightarrow>
   loadEffect c st =
     (if raw = [] then (Queued [], [])
      else (case parse c raw of
              Inl e \<Rightarrow> (Queued [], [FailedToLoad e])
            | Inr (Tasks ts) \<Rightarrow> (Queued [SetTasks (\<lambda>_. ts)], [])
            | Inr (Foreign j) \<Rightarrow> (Installed j, [])))"
  by (simp add: loadEffect_def getItem_def)

lemma loadEffect_tasks:
  "codec_ok c \<Longrightarrow> available st \<Longrightarrow> map_of (entries st) STORAGE_KEY = Some (stringify c ts) \<Longrightarrow>
   loadEffect c st = (Queued [SetTasks (\<lambda>_. ts)], [])"
  by (simp add: loadEffect_stored)

lemma storage_update_triv:
  "map_of (entries st) k = Some v \<Longrightarrow> st\<lparr>entries := AList.update k v (entries st)\<rparr> = st"
  by (simp add: update_triv)


section \<open>Mounting, step by step\<close>

lemma mount_effects_eq:
  "mount_effects c ts st = (fst (loadEffect c st), fst (persistEffect c ts st),
     snd (loadEffect c st) @ snd (persistEffect c ts st))"
  by (simp add: mount_effects_def split: prod.splits)

lemma settle_Queued_Nil [simp]:
  "settle c (Queued []) st log = Up \<lparr>ui = init_state, disk = st, console = log\<rparr>"
  by (simp add: settle_def tasks_replaced_def)

lemma settle_Queued_tasks [simp]:
  "settle c (Queued [SetTasks (\<lambda>_. ts)]) st log =
     Up \<lparr>ui = init_state\<lparr>tasks := ts\<rparr>, disk = fst (persistEffect c ts st),
        console = log @ snd (persistEffect c ts st)\<rparr>"
  by (simp add: settle_def tasks_replaced_def split: prod.splits)

lemma settle_Installed [simp]:
  "settle c (Installed j) st log = (if render_throws j then Threw TypeError st log else Untyped j st log)"
  by (simp add: settle_def)

lemma mount_eq:
  "mount c st = settle c (fst (loadEffect c st)) (fst (persistEffect c [] st))
     (snd (loadEffect c st) @ snd (persistEffect c [] st))"
  by (simp add: mount_def mount_effects_eq)

section \<open>Sessions\<close>

lemma session_run_simps [simp]:
  "session_run c x [] = x"
  "session_run c x (ev # evs) = session_run c (dispatch c x ev) evs"
  by (simp_all add: session_run_def)

lemma session_run_snoc: "session_run c x (evs @ [ev]) = dispatch c (session_run c x evs) ev"
  by (simp add: session_run_def)

lemma ui_dispatch [simp]: "ui (dispatch c x ev) = step (ui x) ev"
  by (simp add: dispatch_def split: prod.splits)

lemma ui_session_run [simp]: "ui (session_run c x evs) = run (ui x) evs"
  by (induction evs arbitrary: x) simp_all

lemma dispatch_eq:
  "dispatch c x ev =
     (if tasks_replaced (handle (ui x) ev) then
        \<lparr>ui = step (ui x) ev, disk = fst (persistEffect c (tasks (step (ui x) ev)) (disk x)),
         console = console x @ snd (persistEffect c (tasks (step (ui x) ev)) (disk x))\<rparr>
      else x\<lparr>ui := step (ui x) ev\<rparr>)"
  by (simp add: dispatch_def split: prod.splits)

lemma tasks_step_unreplaced: "\<not> tasks_replaced (handle s ev) \<Longrightarrow> tasks (step s ev) = tasks s"
  by (simp add: step_def tasks_commit_unreplaced)

lemma console_dispatch: "\<exists>log. console (dispatch c x ev) = console x @ log"
  by (simp add: dispatch_eq)

lemma console_session_run: "\<exists>log. console (session_run c x evs) = console x @ log"
proof (induction evs arbitrary: x)
  case Nil
  show ?case by simp
next
  case (Cons ev evs)
  from Cons.IH [of "dispatch c x ev"] console_dispatch [of c x ev] show ?case by auto
qed

lemma in_sync_dispatch:
  assumes "in_sync c x" and "console (dispatch c x ev) = console x"
  shows "in_sync c (dispatch c x ev)"
  using assms
  by (auto simp: in_sync_def dispatch_eq persistEffect_eq update_conv' tasks_step_unreplaced
      split: if_splits)

section \<open>Facts about the example values\<close>

lemma JSON_stringify_task_x: "JSON_stringify [task_x] = stored_x"
  by (simp add: JSON_stringify_def stringify_task_def member_def quote_def task_x_def stored_x_def
      of_ascii_def escape_unit_def is_high_def is_low_def)

lemma json_codec_simps [simp]:
  "stringify json_codec = JSON_stringify"
  "parse json_codec s = (case JSON_parse s of Inl err \<Rightarrow> Inl err | Inr j \<Rightarrow> Inr (as_tasks j))"
  by (simp_all add: json_codec_def)

lemma JSON_stringify_Nil: "JSON_stringify [] = of_ascii ''[]''"
  by (simp add: JSON_stringify_def of_ascii_def)

lemma length_of_ascii [simp]: "length (of_ascii s) = length s"
  by (simp add: of_ascii_def)

lemma length_STORAGE_KEY [simp]: "length STORAGE_KEY = 15"
  by (simp add: STORAGE_KEY_def)

lemma length_stored_x [simp]: "length stored_x = 59"
  by (simp add: stored_x_def)

lemma used_simps [simp]: "used [] = 0" "used ((k, v) # es) = length k + length v + used es"
  by (simp_all add: used_def)

lemma disk_cells [simp]:
  "available disk_x" "quota disk_x = 5000000" "entries disk_x = [(STORAGE_KEY, stored_x)]"
  "available disk_empty" "quota disk_empty = 5000000" "entries disk_empty = []"
  "\<not> available disk_denied" "entries disk_denied = []"
  "available disk_full" "quota disk_full = 17" "entries disk_full = [(STORAGE_KEY, of_ascii ''[]'')]"
  "available disk_corrupt" "quota disk_corrupt = 5000000"
  "entries disk_corrupt = [(STORAGE_KEY, of_ascii ''{oops'')]"
  "available disk_null" "quota disk_null = 5000000"
  "entries disk_null = [(STORAGE_KEY, of_ascii ''null'')]"
  by (simp_all add: disk_x_def disk_empty_def disk_denied_def disk_full_def disk_corrupt_def
      disk_null_def)

lemma fits_examples [simp]:
  "fits disk_x STORAGE_KEY (JSON_stringify [])" "fits disk_x STORAGE_KEY stored_x"
  "fits disk_empty STORAGE_KEY stored_x" "fits disk_empty STORAGE_KEY (JSON_stringify [])"
  "fits disk_full STORAGE_KEY (JSON_stringify [])" "\<not> fits disk_full STORAGE_KEY stored_x"
  by (simp_all add: fits_def JSON_stringify_Nil)

lemma persist_x_empty: "persistEffect json_codec [task_x] disk_empty = (disk_x, [])"
  by (simp add: persistEffect_eq JSON_stringify_task_x disk_x_def)

lemma init_state_tasks_Nil [simp]: "init_state\<lparr>tasks := []\<rparr> = init_state"
  by (simp add: init_state_def)

lemma session_x_cells [simp]:
  "ui session_x = init_state\<lparr>tasks := [task_x]\<rparr>" "disk session_x = disk_x" "console session_x = []"
  "tasks (ui session_x_edit) = [task_x]" "editingText (ui session_x_edit) = of_ascii ''X ''"
  "editingId (ui session_x_edit) = Some (of_ascii ''a'')"
  "disk session_x_edit = disk_x" "console session_x_edit = []"
  by (simp_all add: session_x_def session_x_edit_def)

lemma task_x_fields [simp]:
  "task_id task_x = of_ascii ''a''" "task_text task_x = of_ascii ''X''"
  "created_at task_x = of_ascii ''2024-01-01T00:00:00Z''"
  by (simp_all add: task_x_def)

lemma in_sync_session_x [simp]: "in_sync json_codec session_x" "in_sync json_codec session_x_edit"
  by (simp_all add: in_sync_def JSON_stringify_task_x)

lemma not_fits_disk_full: "ts \<noteq> [] \<Longrightarrow> \<not> fits disk_full STORAGE_KEY (JSON_stringify ts)"
  using length_JSON_stringify [of ts] by (cases ts) (simp_all add: fits_def)

lemma session_x_delete:
  "session_run json_codec session_x [DeleteClick task_x] =
     \<lparr>ui = init_state, disk = disk_x\<lparr>entries := [(STORAGE_KEY, of_ascii ''[]'')]\<rparr>, console = []\<rparr>"
  by (simp add: dispatch_eq persistEffect_eq commit_handler JSON_stringify_Nil [symmetric])

lemma parse_oops: "parse json_codec (of_ascii ''{oops'') = Inl SyntaxError"
  by (simp add: run_parser del: Suc_numeral)



lemma map_update_same:
  "\<forall>t \<in> set ts. task_id t = i \<longrightarrow> task_text t = v \<Longrightarrow>
   map (\<lambda>t. if task_id t = i then t\<lparr>task_text := v\<rparr> else t) ts = ts"
  by (induction ts) auto

section \<open>Helper facts for sessions and mounts\<close>

lemma in_sync_session_run:
  assumes "in_sync c x" and "console (session_run c x evs) = console x"
  shows "in_sync c (session_run c x evs)"
  using assms
proof (induction evs arbitrary: x)
  case Nil
  then show ?case by simp
next
  case (Cons ev evs)
  obtain l1 where l1: "console (dispatch c x ev) = console x @ l1"
    using console_dispatch by blast
  obtain l2 where "console (session_run c (dispatch c x ev) evs) = console (dispatch c x ev) @ l2"
    using console_session_run by blast
  with Cons.prems(2) l1 have q: "console (dispatch c x ev) = console x" by simp
  with Cons.prems(1) have "in_sync c (dispatch c x ev)" by (rule in_sync_dispatch)
  with Cons.IH [of "dispatch c x ev"] Cons.prems(2) q show ?case by simp
qed

lemma mount_stored:
  assumes "codec_ok c" and "map_of (entries st) STORAGE_KEY = Some (stringify c ts)"
    and "fits st STORAGE_KEY (stringify c [])" and "fits st STORAGE_KEY (stringify c ts)"
  shows "mount c st = Up \<lparr>ui = init_state\<lparr>tasks := ts\<rparr>, disk = st, console = []\<rparr>"
  using assms
  by (simp add: mount_eq loadEffect_tasks fits_available persistEffect_eq storage_update_triv)

section \<open>Persistence: what is saved is what is loaded\<close>

text \<open>
  C10. What the persist effect writes, the load effect reads back: when the write
  succeeds (nothing is logged), the storage holds the serialised list under the key of
  the application, and the load effect on that storage queues exactly \<open>setTasks\<close> of
  the list that was saved, logging nothing.
\<close>

theorem persist_then_load:
  assumes "codec_ok c" and "persistEffect c ts st = (st', [])"
  shows "getItem st' STORAGE_KEY = Inr (Some (stringify c ts))
       \<and> loadEffect c st' = (Queued [SetTasks (\<lambda>_. ts)], [])"
proof -
  from assms(2) have f: "fits st STORAGE_KEY (stringify c ts)"
    and st': "st' = st\<lparr>entries := AList.update STORAGE_KEY (stringify c ts) (entries st)\<rparr>"
    by (auto simp: persistEffect_eq split: if_splits)
  from f have "available st'" and "map_of (entries st') STORAGE_KEY = Some (stringify c ts)"
    by (simp_all add: st' fits_available update_conv')
  with assms(1) show ?thesis by (simp add: loadEffect_tasks getItem_def)
qed

theorem persist_then_load_witness:
  "codec_ok json_codec \<and> persistEffect json_codec [task_x] disk_empty = (disk_x, [])
   \<and> loadEffect json_codec disk_x = (Queued [SetTasks (\<lambda>_. [task_x])], [])"
  using persist_then_load [OF codec_ok_json persist_x_empty] codec_ok_json persist_x_empty
  by simp

text \<open>
  C8. The list survives a reload. If the storage holds the list on screen and no
  write fails during a session of events, then mounting the component again on the
  storage the session leaves behind starts it with exactly the task list the session
  ended with (same tasks, same order), an empty input and no edit in progress; the
  storage is left as it was and nothing is logged.
\<close>

theorem reload_restores:
  assumes "codec_ok c" and "in_sync c x" and "console (session_run c x evs) = console x"
    and "fits (disk (session_run c x evs)) STORAGE_KEY (stringify c [])"
    and "fits (disk (session_run c x evs)) STORAGE_KEY (stringify c (tasks (run (ui x) evs)))"
  shows "mount c (disk (session_run c x evs)) =
           Up \<lparr>ui = init_state\<lparr>tasks := tasks (run (ui x) evs)\<rparr>,
              disk = disk (session_run c x evs), console = []\<rparr>"
proof -
  from assms(2,3) have "in_sync c (session_run c x evs)" by (rule in_sync_session_run)
  then have "map_of (entries (disk (session_run c x evs))) STORAGE_KEY =
      Some (stringify c (tasks (run (ui x) evs)))"
    by (simp add: in_sync_def)
  with assms(1) show ?thesis using assms(4,5) by (rule mount_stored)
qed

theorem reload_restores_witness:
  "codec_ok json_codec \<and> in_sync json_codec session_x
   \<and> console (session_run json_codec session_x [DeleteClick task_x]) = console session_x
   \<and> mount json_codec (disk (session_run json_codec session_x [DeleteClick task_x])) =
       Up \<lparr>ui = init_state, disk = disk_x\<lparr>entries := [(STORAGE_KEY, of_ascii ''[]'')]\<rparr>,
          console = []\<rparr>"
  using reload_restores [of json_codec session_x "[DeleteClick task_x]"] codec_ok_json
  by (simp add: session_x_delete fits_def JSON_stringify_Nil commit_handler del: session_run_simps)

section \<open>Failures of the storage\<close>

text \<open>
  C20. A storage that denies access does not stop the component: mounting starts it
  with the empty initial state, leaves the storage untouched and logs the two failures
  (the load that could not read, the save that could not write).
\<close>

theorem mount_denied:
  assumes "\<not> available st"
  shows "mount c st =
           Up \<lparr>ui = init_state, disk = st,
              console = [FailedToLoad SecurityError, FailedToSave SecurityError]\<rparr>"
  using assms by (simp add: mount_eq loadEffect_denied persistEffect_eq fits_def)

theorem mount_denied_witness:
  "\<not> available disk_denied
   \<and> mount json_codec disk_denied =
       Up \<lparr>ui = init_state, disk = disk_denied,
          console = [FailedToLoad SecurityError, FailedToSave SecurityError]\<rparr>"
  using mount_denied [of disk_denied json_codec] by simp

text \<open>
  C19. Corrupt stored data does not stop the component either: when the stored string
  does not parse, mounting starts the component with the empty initial state and logs
  the load failure. The persist effect of the first render then overwrites the corrupt
  string with the serialised empty list, if that write fits.
\<close>

theorem mount_corrupt:
  assumes "available st" and "map_of (entries st) STORAGE_KEY = Some raw" and "raw \<noteq> []"
    and "parse c raw = Inl e"
  shows "mount c st =
           Up \<lparr>ui = init_state, disk = fst (persistEffect c [] st),
              console = FailedToLoad e # snd (persistEffect c [] st)\<rparr>
       \<and> (fits st STORAGE_KEY (stringify c []) \<longrightarrow>
            getItem (fst (persistEffect c [] st)) STORAGE_KEY = Inr (Some (stringify c [])))"
  using assms by (simp add: mount_eq loadEffect_stored persistEffect_eq getItem_def update_conv')

theorem mount_corrupt_witness:
  "mount json_codec disk_corrupt =
     Up \<lparr>ui = init_state, disk = disk_corrupt\<lparr>entries := [(STORAGE_KEY, of_ascii ''[]'')]\<rparr>,
        console = [FailedToLoad SyntaxError]\<rparr>"
  using mount_corrupt [of disk_corrupt "of_ascii ''{oops''" json_codec SyntaxError] parse_oops
  by (simp add: persistEffect_eq fits_def JSON_stringify_Nil)

text \<open>
  C21. With a storage that denies access for the whole session the component behaves
  as it would without persistence: after any sequence of events its state is the one
  the handlers alone produce, the storage is untouched, and the console holds nothing
  but the save failures.
\<close>

theorem denied_storage_session:
  assumes "\<not> available (disk x)"
  shows "ui (session_run c x evs) = run (ui x) evs
       \<and> disk (session_run c x evs) = disk x
       \<and> set (console (session_run c x evs)) \<subseteq> set (console x) \<union> {FailedToSave SecurityError}"
  using assms
proof (induction evs arbitrary: x)
  case Nil
  show ?case by auto
next
  case (Cons ev evs)
  from Cons.prems have d: "disk (dispatch c x ev) = disk x"
    and l: "set (console (dispatch c x ev)) \<subseteq> set (console x) \<union> {FailedToSave SecurityError}"
    by (auto simp: dispatch_eq persistEffect_eq fits_def)
  with Cons.prems have "\<not> available (disk (dispatch c x ev))" by simp
  from Cons.IH [OF this] d l show ?case by auto
qed

theorem denied_storage_session_witness:
  "\<not> available disk_denied
   \<and> ui (session_run json_codec \<lparr>ui = typed_milk, disk = disk_denied, console = []\<rparr> [AddClick env_a])
       = one_task
   \<and> disk (session_run json_codec \<lparr>ui = typed_milk, disk = disk_denied, console = []\<rparr> [AddClick env_a])
       = disk_denied"
  using denied_storage_session [of "\<lparr>ui = typed_milk, disk = disk_denied, console = []\<rparr>" json_codec
      "[AddClick env_a]"]
  by (simp del: step_simps session_run_simps)

text \<open>
  C22. A write that fails (quota exceeded or access denied) changes nothing but the
  console: the state on screen is the one the handler produced, the storage keeps the
  previous list, and one failure is logged. From then on storage and screen disagree,
  if the handler changed the list: a reload would bring back the old list.
\<close>

theorem failed_save_keeps_old:
  assumes "tasks_replaced (handle (ui x) ev)"
    and "\<not> fits (disk x) STORAGE_KEY (stringify c (tasks (step (ui x) ev)))"
  shows "ui (dispatch c x ev) = step (ui x) ev
       \<and> disk (dispatch c x ev) = disk x
       \<and> console (dispatch c x ev) =
           console x @ [FailedToSave (if available (disk x) then QuotaExceededError else SecurityError)]
       \<and> (codec_ok c \<and> in_sync c x \<and> tasks (step (ui x) ev) \<noteq> tasks (ui x)
            \<longrightarrow> \<not> in_sync c (dispatch c x ev))"
  using assms by (auto simp: dispatch_eq persistEffect_eq in_sync_def codec_ok_inj)

theorem failed_save_keeps_old_witness:
  "ui (dispatch json_codec \<lparr>ui = typed_milk, disk = disk_full, console = []\<rparr> (AddClick env_a)) = one_task
   \<and> disk (dispatch json_codec \<lparr>ui = typed_milk, disk = disk_full, console = []\<rparr> (AddClick env_a)) = disk_full
   \<and> console (dispatch json_codec \<lparr>ui = typed_milk, disk = disk_full, console = []\<rparr> (AddClick env_a))
       = [FailedToSave QuotaExceededError]"
  using failed_save_keeps_old [of "\<lparr>ui = typed_milk, disk = disk_full, console = []\<rparr>" "AddClick env_a" json_codec]
  by (simp add: not_fits_disk_full del: step_simps)

section \<open>Where the effects depart from the specification\<close>





text \<open>
  C16. When the effects of the mount run twice before the next render (React's
  \<open>StrictMode\<close> in development), the saved list is lost: the persist effect of the first
  pass writes the empty list of the first render before the second pass loads, so the
  second load installs the empty list over the saved one. The component comes up empty
  and the storage holds the serialised empty list, whatever list was stored.
\<close>

theorem mount_strict_wipes:
  assumes "codec_ok c" and "map_of (entries st) STORAGE_KEY = Some (stringify c ts)"
    and "fits st STORAGE_KEY (stringify c [])"
  shows "mount_strict c st =
           Up \<lparr>ui = init_state,
              disk = st\<lparr>entries := AList.update STORAGE_KEY (stringify c []) (entries st)\<rparr>,
              console = []\<rparr>
       \<and> getItem (st\<lparr>entries := AList.update STORAGE_KEY (stringify c []) (entries st)\<rparr>)
             STORAGE_KEY = Inr (Some (stringify c []))"
  using assms
  by (simp add: mount_strict_def mount_effects_eq loadEffect_tasks fits_available persistEffect_eq
      update_conv' settle_def tasks_replaced_def getItem_def)

theorem mount_strict_wipes_witness:
  "mount json_codec disk_x = Up \<lparr>ui = init_state\<lparr>tasks := [task_x]\<rparr>, disk = disk_x, console = []\<rparr>
   \<and> mount_strict json_codec disk_x =
       Up \<lparr>ui = init_state, disk = disk_x\<lparr>entries := [(STORAGE_KEY, of_ascii ''[]'')]\<rparr>,
          console = []\<rparr>"
  using mount_strict_wipes [of json_codec disk_x "[task_x]"]
    mount_stored [of json_codec disk_x "[task_x]"]
  by (simp add: codec_ok_json JSON_stringify_task_x) (simp add: JSON_stringify_Nil)

text \<open>
  C34. Saving an edit always writes to storage when the buffer is not blank, also
  when no task changes: if every task with the edited identifier already has the
  trimmed buffer as its text (in particular when no task has that identifier), the
  list on screen is the same as before and the persist effect still runs on it. The
  specification triggers persistence only if the text actually changed.
\<close>

theorem saveEdit_same_text_writes:
  assumes "trim (editingText (ui x)) \<noteq> []"
    and "\<forall>t \<in> set (tasks (ui x)). task_id t = i \<longrightarrow> task_text t = trim (editingText (ui x))"
  shows "tasks (ui (dispatch c x (EditBlur i))) = tasks (ui x)
       \<and> editingId (ui (dispatch c x (EditBlur i))) = None
       \<and> disk (dispatch c x (EditBlur i)) = fst (persistEffect c (tasks (ui x)) (disk x))
       \<and> console (dispatch c x (EditBlur i)) = console x @ snd (persistEffect c (tasks (ui x)) (disk x))"
  using assms by (simp add: dispatch_eq commit_saveEdit map_update_same)

theorem saveEdit_same_text_writes_witness:
  "trim (editingText (ui session_x_edit)) = task_text task_x
   \<and> tasks (ui (dispatch json_codec session_x_edit (EditBlur (of_ascii ''a'')))) = [task_x]
   \<and> disk (dispatch json_codec session_x_edit (EditBlur (of_ascii ''a''))) =
       fst (persistEffect json_codec [task_x] disk_x)"
  using saveEdit_same_text_writes [of session_x_edit "of_ascii ''a''" json_codec]
  by (simp add: js_defs)

section \<open>The storage outside the component's key, and the quota\<close>

lemma used_update:
  "distinct (map fst es) \<Longrightarrow>
     used (AList.update k v es) = used (AList.delete k es) + length k + length v"
  by (induction es) (auto simp: AList.delete_id image_iff)

lemma fits_bound:
  assumes "available st" and "storage_ok st"
    and "used (AList.delete k (entries st)) + length k + n \<le> quota st" and "length v \<le> n"
  shows "fits st k v"
  using assms by (simp add: fits_def storage_ok_def used_update)


lemma setItem_frame:
  "setItem st k v = Inr st' \<Longrightarrow>
     available st' = available st \<and> quota st' = quota st
     \<and> (\<forall>k'. k' \<noteq> k \<longrightarrow> map_of (entries st') k' = map_of (entries st) k')
     \<and> (storage_ok st \<longrightarrow> storage_ok st')"
proof -
  assume "setItem st k v = Inr st'"
  then have "st' = st\<lparr>entries := AList.update k v (entries st)\<rparr>"
    by (simp add: setItem_def split: if_splits)
  then show ?thesis
    by (simp add: storage_ok_def update_conv' distinct_update)
qed

lemma persistEffect_frame:
  "available (fst (persistEffect c ts st)) = available st"
  "quota (fst (persistEffect c ts st)) = quota st"
  "k \<noteq> STORAGE_KEY \<Longrightarrow> map_of (entries (fst (persistEffect c ts st))) k = map_of (entries st) k"
  "storage_ok st \<Longrightarrow> storage_ok (fst (persistEffect c ts st))"
  by (simp_all add: persistEffect_eq storage_ok_def update_conv' distinct_update)


lemma disk_dispatch:
  "disk (dispatch c x ev) =
     (if tasks_replaced (handle (ui x) ev)
      then fst (persistEffect c (tasks (step (ui x) ev)) (disk x)) else disk x)"
  by (simp add: dispatch_def split: prod.splits)

lemma dispatch_frame:
  "available (disk (dispatch c x ev)) = available (disk x)"
  "quota (disk (dispatch c x ev)) = quota (disk x)"
  "k \<noteq> STORAGE_KEY \<Longrightarrow> map_of (entries (disk (dispatch c x ev))) k = map_of (entries (disk x)) k"
  "storage_ok (disk x) \<Longrightarrow> storage_ok (disk (dispatch c x ev))"
  by (simp_all add: disk_dispatch persistEffect_frame)


lemma session_run_frame:
  "available (disk (session_run c x evs)) = available (disk x)"
  "quota (disk (session_run c x evs)) = quota (disk x)"
  "k \<noteq> STORAGE_KEY \<Longrightarrow> map_of (entries (disk (session_run c x evs))) k = map_of (entries (disk x)) k"
  "storage_ok (disk x) \<Longrightarrow> storage_ok (disk (session_run c x evs))"
  by (induction evs rule: rev_induct) (simp_all add: session_run_snoc dispatch_frame del: session_run_simps(2))

text \<open>
  C23. The component touches nothing of the storage but its own key: after any session
  of events, with any codec, every other key reads as before the session, access and
  quota are unchanged, and a storage with one value per key stays so.
\<close>

theorem session_touches_only_key:
  assumes "k \<noteq> STORAGE_KEY"
  shows "getItem (disk (session_run c x evs)) k = getItem (disk x) k
         \<and> available (disk (session_run c x evs)) = available (disk x)
         \<and> quota (disk (session_run c x evs)) = quota (disk x)
         \<and> (storage_ok (disk x) \<longrightarrow> storage_ok (disk (session_run c x evs)))"
  using assms by (simp add: getItem_def session_run_frame)

theorem session_touches_only_key_witness:
  "getItem (disk (session_run json_codec session_x [DeleteClick task_x])) (of_ascii ''theme'')
     = getItem disk_x (of_ascii ''theme'')
   \<and> storage_ok (disk (session_run json_codec session_x [DeleteClick task_x]))"
  using session_touches_only_key [of "of_ascii ''theme''" json_codec session_x "[DeleteClick task_x]"]
  by (simp add: STORAGE_KEY_def of_ascii_def session_x_def storage_ok_def del: session_run_simps)

text \<open>
  C25. A bound on the space a save needs. The printed list has at most two code units
  and 36 per task more than six times the code units of the tasks' strings. So when
  access is allowed and the quota leaves room for that, the key (15 code units) and
  what is stored under other keys, the persist effect succeeds: the storage holds the
  printed list under \<open>STORAGE_KEY\<close> and nothing is logged.
\<close>

theorem persist_fits:
  assumes "available st" and "storage_ok st"
    and "used (AList.delete STORAGE_KEY (entries st)) + 17
           + sum_list (map (\<lambda>t. 36 + 6 * task_size t) ts) \<le> quota st"
  shows "length (stringify json_codec ts) \<le> 2 + sum_list (map (\<lambda>t. 36 + 6 * task_size t) ts)
         \<and> persistEffect json_codec ts st
             = (st\<lparr>entries := AList.update STORAGE_KEY (JSON_stringify ts) (entries st)\<rparr>, [])"
  using assms length_JSON_stringify_bounds [of ts]
    fits_bound [of st STORAGE_KEY "2 + sum_list (map (\<lambda>t. 36 + 6 * task_size t) ts)" "JSON_stringify ts"]
  by (simp add: persistEffect_eq)

theorem persist_fits_witness:
  "length (stringify json_codec [task_x]) \<le> 170
   \<and> persistEffect json_codec [task_x] disk_empty = (disk_x, [])"
  using persist_fits [of disk_empty "[task_x]"]
  by (simp add: storage_ok_def task_size_def AList.delete_eq disk_x_def JSON_stringify_task_x)

section \<open>What a reload shows after failed writes\<close>

lemma within_quota_persistEffect:
  "within_quota st \<Longrightarrow> within_quota (fst (persistEffect c ts st))"
  by (simp add: persistEffect_eq within_quota_def fits_def)

lemma within_quota_dispatch: "within_quota (disk x) \<Longrightarrow> within_quota (disk (dispatch c x ev))"
  by (simp add: disk_dispatch within_quota_persistEffect)

lemma within_quota_session_run:
  "within_quota (disk x) \<Longrightarrow> within_quota (disk (session_run c x evs))"
  by (induction evs rule: rev_induct)
    (simp_all add: session_run_snoc within_quota_dispatch del: session_run_simps(2))

lemma fits_stored:
  assumes "available st" and "within_quota st" and "map_of (entries st) k = Some v"
  shows "fits st k v"
  using assms by (simp add: fits_def within_quota_def update_triv)

lemma stored_dispatch:
  assumes "map_of (entries (disk x)) STORAGE_KEY = Some (stringify c ts)"
  shows "map_of (entries (disk (dispatch c x ev))) STORAGE_KEY = Some (stringify c ts)
       \<or> map_of (entries (disk (dispatch c x ev))) STORAGE_KEY
           = Some (stringify c (tasks (step (ui x) ev)))"
  using assms by (simp add: disk_dispatch persistEffect_eq update_conv')

lemma stored_session_run:
  assumes "in_sync c x"
  shows "\<exists>k\<le>length evs. map_of (entries (disk (session_run c x evs))) STORAGE_KEY
           = Some (stringify c (tasks (run (ui x) (take k evs))))"
proof (induction evs rule: rev_induct)
  case Nil
  from assms show ?case by (simp add: in_sync_def)
next
  case (snoc ev evs)
  then obtain k where k: "k \<le> length evs"
    and s: "map_of (entries (disk (session_run c x evs))) STORAGE_KEY
           = Some (stringify c (tasks (run (ui x) (take k evs))))"
    by blast
  from stored_dispatch [OF s, of ev] show ?case
  proof
    assume "map_of (entries (disk (dispatch c (session_run c x evs) ev))) STORAGE_KEY
           = Some (stringify c (tasks (run (ui x) (take k evs))))"
    with k show ?thesis
      by (intro exI [of _ k]) (simp add: session_run_snoc del: session_run_simps(2))
  next
    assume "map_of (entries (disk (dispatch c (session_run c x evs) ev))) STORAGE_KEY
           = Some (stringify c (tasks (step (ui (session_run c x evs)) ev)))"
    then show ?thesis
      by (intro exI [of _ "Suc (length evs)"])
        (simp add: session_run_snoc run_snoc del: session_run_simps(2))
  qed
qed

lemma session_full_milk:
  "session_run json_codec session_full milk_events =
     \<lparr>ui = one_task, disk = disk_full, console = [FailedToSave QuotaExceededError]\<rparr>"
  by (simp add: session_full_def milk_events_def dispatch_eq persistEffect_eq commit_handler
      not_fits_disk_full del: step_simps)

text \<open>
  C12. Whatever writes fail during a session, a reload shows a list that was on screen
  at some moment of the session, and nothing else: if the storage held the list on
  screen when the session began, then after any sequence of events it holds the printed
  list of the state after some prefix of the events (the last one whose write went
  through), and mounting the component on it starts with exactly that list, logs
  nothing and leaves the storage as it is.
\<close>

theorem reload_shows_past_state:
  assumes "codec_ok c" and "in_sync c x" and "available (disk x)" and "within_quota (disk x)"
    and "fits (disk (session_run c x evs)) STORAGE_KEY (stringify c [])"
  shows "\<exists>k\<le>length evs.
           mount c (disk (session_run c x evs)) =
             Up \<lparr>ui = init_state\<lparr>tasks := tasks (run (ui x) (take k evs))\<rparr>,
                disk = disk (session_run c x evs), console = []\<rparr>"
proof -
  from stored_session_run [OF assms(2), of evs] obtain k where k: "k \<le> length evs"
    and s: "map_of (entries (disk (session_run c x evs))) STORAGE_KEY
           = Some (stringify c (tasks (run (ui x) (take k evs))))"
    by blast
  from assms(3,4) s have "fits (disk (session_run c x evs)) STORAGE_KEY
      (stringify c (tasks (run (ui x) (take k evs))))"
    by (intro fits_stored) (simp_all add: session_run_frame within_quota_session_run)
  from mount_stored [OF assms(1) s assms(5) this] k show ?thesis by blast
qed

theorem reload_shows_past_state_witness:
  "tasks (ui (session_run json_codec session_full milk_events)) = [task_a]
   \<and> console (session_run json_codec session_full milk_events) = [FailedToSave QuotaExceededError]
   \<and> (\<exists>k\<le>length milk_events.
         mount json_codec (disk (session_run json_codec session_full milk_events)) =
           Up \<lparr>ui = init_state\<lparr>tasks := tasks (run (ui session_full) (take k milk_events))\<rparr>,
              disk = disk (session_run json_codec session_full milk_events), console = []\<rparr>)"
proof -
  have "in_sync json_codec session_full" "available (disk session_full)"
    "within_quota (disk session_full)"
    by (simp_all add: session_full_def in_sync_def within_quota_def JSON_stringify_Nil)
  moreover have "fits (disk (session_run json_codec session_full milk_events)) STORAGE_KEY
      (stringify json_codec [])"
    by (simp add: session_full_milk)
  ultimately show ?thesis
    using reload_shows_past_state [of json_codec session_full milk_events] codec_ok_json
    by (simp add: session_full_milk)
qed

end
